theory Spec2Isabelle
  imports Main "HOL-Library.Finite_Map"
begin

section \<open>Amperfy Bluetooth Protocol: wire vocabulary (BluetoothProtocol.swift)\<close>

text \<open>
  The Swift enum \<open>MessageType: String, Codable\<close>. The raw values are the strings of the
  source; \<open>MessageType_init\<close> is the synthesized \<open>MessageType(rawValue:)\<close>, which
  compares the string with each case's raw value and fails on any other string.
\<close>

datatype MessageType =
    songStarted | songStopped | playbackProgress
  | queryPlaylists | queryArtists | queryAlbums | querySongs
  | queryPlaylistSongs | queryArtistSongs | queryAlbumSongs
  | playSong | playPause | nextSong | prevSong
  | playlistsResponse | artistsResponse | albumsResponse | songsResponse
  | error

fun rawValue :: "MessageType \<Rightarrow> string" where
  "rawValue songStarted = ''SONG_STARTED''"
| "rawValue songStopped = ''SONG_STOPPED''"
| "rawValue playbackProgress = ''PLAYBACK_PROGRESS''"
| "rawValue queryPlaylists = ''QUERY_PLAYLISTS''"
| "rawValue queryArtists = ''QUERY_ARTISTS''"
| "rawValue queryAlbums = ''QUERY_ALBUMS''"
| "rawValue querySongs = ''QUERY_SONGS''"
| "rawValue queryPlaylistSongs = ''QUERY_PLAYLIST_SONGS''"
| "rawValue queryArtistSongs = ''QUERY_ARTIST_SONGS''"
| "rawValue queryAlbumSongs = ''QUERY_ALBUM_SONGS''"
| "rawValue playSong = ''PLAY_SONG''"
| "rawValue playPause = ''PLAY_PAUSE''"
| "rawValue nextSong = ''NEXT_SONG''"
| "rawValue prevSong = ''PREV_SONG''"
| "rawValue playlistsResponse = ''PLAYLISTS_RESPONSE''"
| "rawValue artistsResponse = ''ARTISTS_RESPONSE''"
| "rawValue albumsResponse = ''ALBUMS_RESPONSE''"
| "rawValue songsResponse = ''SONGS_RESPONSE''"
| "rawValue error = ''ERROR''"

definition allCases :: "MessageType list" where
  "allCases =
     [songStarted, songStopped, playbackProgress,
      queryPlaylists, queryArtists, queryAlbums, querySongs,
      queryPlaylistSongs, queryArtistSongs, queryAlbumSongs,
      playSong, playPause, nextSong, prevSong,
      playlistsResponse, artistsResponse, albumsResponse, songsResponse,
      error]"

definition MessageType_init :: "string \<Rightarrow> MessageType option" where
  "MessageType_init s = find (\<lambda>t. rawValue t = s) allCases"

text \<open>
  \<open>BluetoothProtocolConstants\<close>. The progress interval (250 ms) is a real-time
  quantity and appears in the model only as the timer that it schedules.
\<close>

definition maxMessageSize :: nat where
  "maxMessageSize = 512"

subsection \<open>JSON values\<close>

text \<open>
  The value that Foundation's JSON readers hand to the program: a dictionary
  \<open>[String: Any]\<close> is a finite map, an \<open>NSNumber\<close> is its numeric value
  (\<open>TimeInterval\<close> is a \<open>Double\<close>; the code only stores, copies and prints such
  numbers, so a finite one is represented by the rational it denotes).
\<close>

type_synonym TimeInterval = rat

datatype json =
    JNull
  | JBool bool
  | JNumber rat
  | JString string
  | JArray "json list"
  | JObject "(string, json) fmap"

text \<open>
  A field of a synthesized \<open>Encodable\<close> conformance: an optional stored property that
  is \<open>nil\<close> contributes no key (\<open>encodeIfPresent\<close>).
\<close>

definition ifPresent :: "string \<Rightarrow> ('a \<Rightarrow> json) \<Rightarrow> 'a option \<Rightarrow> (string \<times> json) list" where
  "ifPresent key enc v = (case v of None \<Rightarrow> [] | Some x \<Rightarrow> [(key, enc x)])"

subsection \<open>Payload structs and their synthesized encodings\<close>


record SongStoppedPayload =
  stopped_songId :: string


record QueryPlaylistSongsPayload =
  playlistId :: string

record QueryArtistSongsPayload =
  artistId :: string

record QueryAlbumSongsPayload =
  albumId :: string

record PlaySongPayload =
  play_songId :: string
  play_context :: "string option"
  play_contextId :: "string option"
  play_songIndex :: "int option"

record PlaylistInfo =
  playlistInfo_id :: string
  playlistInfo_name :: string
  playlistInfo_songCount :: nat

record ArtistInfo =
  artistInfo_id :: string
  artistInfo_name :: string
  artistInfo_albumCount :: nat
  artistInfo_songCount :: nat

record AlbumInfo =
  albumInfo_id :: string
  albumInfo_name :: string
  albumInfo_artist :: "string option"
  albumInfo_songCount :: nat
  albumInfo_year :: "int option"

record SongInfo =
  songInfo_id :: string
  songInfo_title :: string
  songInfo_artist :: "string option"
  songInfo_album :: "string option"
  songInfo_duration :: rat
  songInfo_trackNumber :: "int option"

record PlaylistsResponsePayload =
  playlists :: "PlaylistInfo list"
  playlists_page :: nat
  playlists_totalPages :: nat

record ArtistsResponsePayload =
  artists :: "ArtistInfo list"
  artists_page :: nat
  artists_totalPages :: nat

record AlbumsResponsePayload =
  albums :: "AlbumInfo list"
  albums_page :: nat
  albums_totalPages :: nat

record SongsResponsePayload =
  songs :: "SongInfo list"
  songs_context :: "string option"
  songs_contextId :: "string option"
  songs_page :: nat
  songs_totalPages :: nat

record ErrorPayload =
  code :: string
  message :: string


definition encode_SongStoppedPayload :: "SongStoppedPayload \<Rightarrow> json" where
  "encode_SongStoppedPayload p = JObject (fmap_of_list [(''songId'', JString (stopped_songId p))])"


definition encode_PlaylistInfo :: "PlaylistInfo \<Rightarrow> json" where
  "encode_PlaylistInfo p =
     JObject (fmap_of_list
       [(''id'', JString (playlistInfo_id p)),
        (''name'', JString (playlistInfo_name p)),
        (''songCount'', JNumber (of_nat (playlistInfo_songCount p)))])"

definition encode_ArtistInfo :: "ArtistInfo \<Rightarrow> json" where
  "encode_ArtistInfo p =
     JObject (fmap_of_list
       [(''id'', JString (artistInfo_id p)),
        (''name'', JString (artistInfo_name p)),
        (''albumCount'', JNumber (of_nat (artistInfo_albumCount p))),
        (''songCount'', JNumber (of_nat (artistInfo_songCount p)))])"

definition encode_AlbumInfo :: "AlbumInfo \<Rightarrow> json" where
  "encode_AlbumInfo p =
     JObject (fmap_of_list
       ([(''id'', JString (albumInfo_id p)),
         (''name'', JString (albumInfo_name p))]
        @ ifPresent ''artist'' JString (albumInfo_artist p)
        @ [(''songCount'', JNumber (of_nat (albumInfo_songCount p)))]
        @ ifPresent ''year'' (\<lambda>y. JNumber (of_int y)) (albumInfo_year p)))"

definition encode_SongInfo :: "SongInfo \<Rightarrow> json" where
  "encode_SongInfo p =
     JObject (fmap_of_list
       ([(''id'', JString (songInfo_id p)),
         (''title'', JString (songInfo_title p))]
        @ ifPresent ''artist'' JString (songInfo_artist p)
        @ ifPresent ''album'' JString (songInfo_album p)
        @ [(''duration'', JNumber (songInfo_duration p))]
        @ ifPresent ''trackNumber'' (\<lambda>n. JNumber (of_int n)) (songInfo_trackNumber p)))"

definition encode_PlaylistsResponsePayload :: "PlaylistsResponsePayload \<Rightarrow> json" where
  "encode_PlaylistsResponsePayload p =
     JObject (fmap_of_list
       [(''playlists'', JArray (map encode_PlaylistInfo (playlists p))),
        (''page'', JNumber (of_nat (playlists_page p))),
        (''totalPages'', JNumber (of_nat (playlists_totalPages p)))])"

definition encode_ArtistsResponsePayload :: "ArtistsResponsePayload \<Rightarrow> json" where
  "encode_ArtistsResponsePayload p =
     JObject (fmap_of_list
       [(''artists'', JArray (map encode_ArtistInfo (artists p))),
        (''page'', JNumber (of_nat (artists_page p))),
        (''totalPages'', JNumber (of_nat (artists_totalPages p)))])"

definition encode_AlbumsResponsePayload :: "AlbumsResponsePayload \<Rightarrow> json" where
  "encode_AlbumsResponsePayload p =
     JObject (fmap_of_list
       [(''albums'', JArray (map encode_AlbumInfo (albums p))),
        (''page'', JNumber (of_nat (albums_page p))),
        (''totalPages'', JNumber (of_nat (albums_totalPages p)))])"

definition encode_SongsResponsePayload :: "SongsResponsePayload \<Rightarrow> json" where
  "encode_SongsResponsePayload p =
     JObject (fmap_of_list
       ([(''songs'', JArray (map encode_SongInfo (songs p)))]
        @ ifPresent ''context'' JString (songs_context p)
        @ ifPresent ''contextId'' JString (songs_contextId p)
        @ [(''page'', JNumber (of_nat (songs_page p))),
           (''totalPages'', JNumber (of_nat (songs_totalPages p)))]))"

definition encode_ErrorPayload :: "ErrorPayload \<Rightarrow> json" where
  "encode_ErrorPayload p =
     JObject (fmap_of_list [(''code'', JString (code p)), (''message'', JString (message p))])"

subsection \<open>The envelope (struct BluetoothMessage)\<close>

text \<open>
  Foundation is not part of the repository. Its JSON text codec and its clock are
  parameters of the model: \<open>jsonData\<close> writes a JSON value as bytes
  (\<open>JSONSerialization.data(withJSONObject:)\<close>, and the writer inside \<open>JSONEncoder\<close>),
  \<open>jsonObject\<close> reads bytes back (\<open>JSONSerialization.jsonObject(with:)\<close>, and the reader
  inside \<open>JSONDecoder\<close>); both fail with \<open>None\<close> where the Swift call throws and
  \<open>try?\<close> yields \<open>nil\<close>. \<open>count\<close> is \<open>Data.count\<close>, \<open>utf8String\<close> is
  \<open>String(data:encoding: .utf8)\<close>, and \<open>Date_now n\<close> is what the \<open>n\<close>-th reading
  of \<open>Date().timeIntervalSince1970\<close> returns. The type \<open>'d\<close> is \<open>Data\<close>.
\<close>

record 'd Env =
  jsonData :: "json \<Rightarrow> 'd option"
  jsonObject :: "'d \<Rightarrow> json option"
  count :: "'d \<Rightarrow> nat"
  utf8String :: "'d \<Rightarrow> string option"
  Date_now :: "nat \<Rightarrow> TimeInterval"

record 'd BluetoothMessage =
  type :: MessageType
  timestamp :: TimeInterval
  payloadData :: "'d option"

text \<open>
  \<open>init(type:payload:)\<close>: the payload, already mapped to its JSON value by the
  struct's \<open>Encodable\<close> conformance, is written by \<open>JSONEncoder\<close>; \<open>now\<close> is the
  clock reading taken by the initializer.
\<close>

definition BluetoothMessage_init ::
  "'d Env \<Rightarrow> MessageType \<Rightarrow> json option \<Rightarrow> TimeInterval \<Rightarrow> 'd BluetoothMessage" where
  "BluetoothMessage_init env ty payload now =
     \<lparr>type = ty, timestamp = now,
      payloadData = (case payload of None \<Rightarrow> None | Some p \<Rightarrow> jsonData env p)\<rparr>"

definition toData :: "'d Env \<Rightarrow> 'd BluetoothMessage \<Rightarrow> 'd option" where
  "toData env m =
     (let dict = fmap_of_list
            [(''type'', JString (rawValue (type m))),
             (''timestamp'', JNumber (timestamp m))];
          dict' = (case payloadData m of
                     None \<Rightarrow> dict
                   | Some pd \<Rightarrow>
                       (case jsonObject env pd of
                          None \<Rightarrow> dict
                        | Some payloadObject \<Rightarrow> fmupd ''payload'' payloadObject dict))
      in jsonData env (JObject dict'))"

text \<open>
  \<open>static func from(data:)\<close>. The cast \<open>as? [String: Any]\<close> succeeds on a JSON
  object, \<open>as? String\<close> on a JSON string and \<open>as? TimeInterval\<close> on a JSON number.
\<close>

definition BluetoothMessage_from :: "'d Env \<Rightarrow> 'd \<Rightarrow> 'd BluetoothMessage option" where
  "BluetoothMessage_from env data =
     (case jsonObject env data of
        Some (JObject dict) \<Rightarrow>
          (case fmlookup dict ''type'' of
             Some (JString typeString) \<Rightarrow>
               (case MessageType_init typeString of
                  Some ty \<Rightarrow>
                    (case fmlookup dict ''timestamp'' of
                       Some (JNumber ts) \<Rightarrow>
                         Some \<lparr>type = ty, timestamp = ts,
                               payloadData =
                                 (case fmlookup dict ''payload'' of
                                    None \<Rightarrow> None
                                  | Some payloadObject \<Rightarrow> jsonData env payloadObject)\<rparr>
                     | _ \<Rightarrow> None)
                | None \<Rightarrow> None)
           | _ \<Rightarrow> None)
      | _ \<Rightarrow> None)"

text \<open>
  \<open>decode(as:)\<close> for the four payload types the dispatcher decodes. A required
  \<open>String\<close> property needs its key with a string value; an optional property is
  \<open>nil\<close> when the key is missing or \<open>null\<close> and makes the decoding fail on a value
  of another type; an \<open>Int\<close> needs a whole number in the 64-bit range.
\<close>

definition decodeObject :: "'d Env \<Rightarrow> 'd BluetoothMessage \<Rightarrow> (string, json) fmap option" where
  "decodeObject env m =
     (case payloadData m of
        None \<Rightarrow> None
      | Some pd \<Rightarrow> (case jsonObject env pd of Some (JObject obj) \<Rightarrow> Some obj | _ \<Rightarrow> None))"

definition requiredString :: "(string, json) fmap \<Rightarrow> string \<Rightarrow> string option" where
  "requiredString obj key = (case fmlookup obj key of Some (JString s) \<Rightarrow> Some s | _ \<Rightarrow> None)"

text \<open>The outer option is the success of the decoding, the inner one the decoded value.\<close>

definition optionalString :: "(string, json) fmap \<Rightarrow> string \<Rightarrow> string option option" where
  "optionalString obj key =
     (case fmlookup obj key of
        None \<Rightarrow> Some None
      | Some JNull \<Rightarrow> Some None
      | Some (JString s) \<Rightarrow> Some (Some s)
      | Some _ \<Rightarrow> None)"

definition optionalInt :: "(string, json) fmap \<Rightarrow> string \<Rightarrow> int option option" where
  "optionalInt obj key =
     (case fmlookup obj key of
        None \<Rightarrow> Some None
      | Some JNull \<Rightarrow> Some None
      | Some (JNumber r) \<Rightarrow>
          (if of_int \<lfloor>r\<rfloor> = r \<and> - (2 ^ 63) \<le> \<lfloor>r\<rfloor> \<and> \<lfloor>r\<rfloor> < 2 ^ 63
           then Some (Some \<lfloor>r\<rfloor>) else None)
      | Some _ \<Rightarrow> None)"

definition decode_QueryPlaylistSongsPayload ::
  "'d Env \<Rightarrow> 'd BluetoothMessage \<Rightarrow> QueryPlaylistSongsPayload option" where
  "decode_QueryPlaylistSongsPayload env m =
     (case decodeObject env m of
        None \<Rightarrow> None
      | Some obj \<Rightarrow>
          (case requiredString obj ''playlistId'' of
             None \<Rightarrow> None
           | Some s \<Rightarrow> Some \<lparr>playlistId = s\<rparr>))"

definition decode_QueryArtistSongsPayload ::
  "'d Env \<Rightarrow> 'd BluetoothMessage \<Rightarrow> QueryArtistSongsPayload option" where
  "decode_QueryArtistSongsPayload env m =
     (case decodeObject env m of
        None \<Rightarrow> None
      | Some obj \<Rightarrow>
          (case requiredString obj ''artistId'' of
             None \<Rightarrow> None
           | Some s \<Rightarrow> Some \<lparr>artistId = s\<rparr>))"

definition decode_QueryAlbumSongsPayload ::
  "'d Env \<Rightarrow> 'd BluetoothMessage \<Rightarrow> QueryAlbumSongsPayload option" where
  "decode_QueryAlbumSongsPayload env m =
     (case decodeObject env m of
        None \<Rightarrow> None
      | Some obj \<Rightarrow>
          (case requiredString obj ''albumId'' of
             None \<Rightarrow> None
           | Some s \<Rightarrow> Some \<lparr>albumId = s\<rparr>))"

definition decode_PlaySongPayload :: "'d Env \<Rightarrow> 'd BluetoothMessage \<Rightarrow> PlaySongPayload option" where
  "decode_PlaySongPayload env m =
     (case decodeObject env m of
        None \<Rightarrow> None
      | Some obj \<Rightarrow>
          (case requiredString obj ''songId'' of
             None \<Rightarrow> None
           | Some sid \<Rightarrow>
               (case optionalString obj ''context'' of
                  None \<Rightarrow> None
                | Some ctx \<Rightarrow>
                    (case optionalString obj ''contextId'' of
                       None \<Rightarrow> None
                     | Some cid \<Rightarrow>
                         (case optionalInt obj ''songIndex'' of
                            None \<Rightarrow> None
                          | Some idx \<Rightarrow>
                              Some \<lparr>play_songId = sid, play_context = ctx,
                                    play_contextId = cid, play_songIndex = idx\<rparr>)))))"

section \<open>Collaborators: the catalog and the player (AmperfyKit)\<close>

text \<open>
  \<open>LibraryStorage\<close> and \<open>PlayerFacade\<close> belong to the host application and are
  not in the repository; the engine reads them through the members below. A
  playable is a song or another kind of playable (\<open>$0 as? Song\<close> fails on the
  latter). \<open>getAllPlaylists\<close> takes the flag \<open>areSystemPlaylistsIncluded\<close>; what
  it returns for each value of the flag is the catalog's business.
\<close>

record Song =
  song_id :: string
  song_title :: string
  song_creatorName :: string
  song_artist :: "string option"
  song_album :: "string option"
  song_duration :: int
  song_track :: int

record Episode =
  episode_id :: string
  episode_title :: string
  episode_creatorName :: string
  episode_duration :: int

datatype AbstractPlayable = ASong Song | AnEpisode Episode

fun playable_id :: "AbstractPlayable \<Rightarrow> string" where
  "playable_id (ASong s) = song_id s"
| "playable_id (AnEpisode e) = episode_id e"




fun asSong :: "AbstractPlayable \<Rightarrow> Song option" where
  "asSong (ASong s) = Some s"
| "asSong (AnEpisode e) = None"

record Playlist =
  playlist_id :: string
  playlist_name :: string
  playlist_playables :: "AbstractPlayable list"

record Album =
  album_id :: string
  album_name :: string
  album_artist :: "string option"
  album_songs :: "AbstractPlayable list"
  album_year :: "int option"

record Artist =
  artist_id :: string
  artist_name :: string
  artist_albums :: "Album list"
  artist_songs :: "AbstractPlayable list"

record LibraryStorage =
  getAllPlaylists :: "bool \<Rightarrow> Playlist list"
  getAllArtists :: "Artist list"
  getAllAlbums :: "Album list"
  getAllSongs :: "Song list"

record PlayerFacade =
  isPlaying :: bool
  currentlyPlaying :: "AbstractPlayable option"
  contextName :: string
  elapsedTime :: rat
  duration :: rat

record PlayContext =
  playContext_name :: string
  playContext_index :: int
  playContext_playables :: "AbstractPlayable list"

text \<open>The calls the engine makes on the player, in the order it makes them.\<close>

datatype PlayerCall =
    play PlayContext
  | togglePlayPause
  | playNext
  | playPreviousOrReplay

section \<open>BluetoothCommunicationService\<close>

text \<open>
  The state of the service. \<open>txCharacteristic\<close> holds exactly when the characteristic
  is bound and reaches its peripheral (\<open>txCharacteristic.service?.peripheral\<close>), and
  \<open>progressTimer\<close> when a progress timer is scheduled. The effects are kept as
  traces: \<open>written\<close> has one entry per \<open>peripheral.writeValue(data, ...)\<close>, the
  message whose \<open>toData()\<close> bytes were handed over, unchanged; \<open>playerCalls\<close> are
  the calls on the player; \<open>logs\<close> the logger's lines (the fixed part of each);
  \<open>clock\<close> counts the readings of \<open>Date()\<close>.
\<close>

datatype LogLevel = logDebug | logInfo | logWarning | logError

record 'd Service =
  progressTimer :: bool
  currentSongId :: "string option"
  player :: "PlayerFacade option"
  storage :: "LibraryStorage option"
  txCharacteristic :: bool
  rxCharacteristic :: bool
  clock :: nat
  written :: "'d BluetoothMessage list"
  playerCalls :: "PlayerCall list"
  logs :: "(LogLevel \<times> string) list"

definition logger :: "LogLevel \<Rightarrow> string \<Rightarrow> 'd Service \<Rightarrow> 'd Service" where
  "logger level line s = s\<lparr>logs := logs s @ [(level, line)]\<rparr>"

text \<open>
  Building a message reads the clock once: \<open>newMessage\<close> is the message built in
  state \<open>s\<close>, and \<open>Date_read\<close> the state after the reading.
\<close>

definition newMessage :: "'d Env \<Rightarrow> MessageType \<Rightarrow> json option \<Rightarrow> 'd Service \<Rightarrow> 'd BluetoothMessage" where
  "newMessage env ty payload s = BluetoothMessage_init env ty payload (Date_now env (clock s))"

definition Date_read :: "'d Service \<Rightarrow> 'd Service" where
  "Date_read s = s\<lparr>clock := Suc (clock s)\<rparr>"

subsection \<open>Message sending\<close>

text \<open>
  \<open>sendMessage\<close> and \<open>sendError\<close> call each other in the source. The recursion
  goes on for as long as the error envelope is itself over the size limit, so the
  function is partial: \<open>None\<close> is a call that does not return. The body of
  \<open>sendError\<close> is written out in the branch that calls it; \<open>sendError\<close> itself
  follows.
\<close>

partial_function (option) sendMessage ::
  "'d Env \<Rightarrow> 'd BluetoothMessage \<Rightarrow> 'd Service \<Rightarrow> 'd Service option" where
  "sendMessage env msg s =
     (if \<not> txCharacteristic s
      then Some (logger logWarning ''Cannot send message: missing characteristic or peripheral'' s)
      else
        (case toData env msg of
           None \<Rightarrow>
             Some (logger logWarning ''Cannot send message: missing characteristic or peripheral'' s)
         | Some data \<Rightarrow>
             if count env data > maxMessageSize
             then
               sendMessage env
                 (newMessage env error
                    (Some (encode_ErrorPayload
                       \<lparr>code = ''MESSAGE_TOO_LARGE'', message = ''Message exceeds max size''\<rparr>))
                    (logger logError ''Message too large'' s))
                 (Date_read (logger logError ''Message too large'' s))
             else
               Some (logger logDebug ''Sent message'' (s\<lparr>written := written s @ [msg]\<rparr>))))"

definition sendError :: "'d Env \<Rightarrow> string \<Rightarrow> string \<Rightarrow> 'd Service \<Rightarrow> 'd Service option" where
  "sendError env c text s =
     sendMessage env
       (newMessage env error (Some (encode_ErrorPayload \<lparr>code = c, message = text\<rparr>)) s)
       (Date_read s)"

subsection \<open>Progress timer and telemetry events\<close>

definition stopProgressTimer :: "'d Service \<Rightarrow> 'd Service" where
  "stopProgressTimer s = logger logDebug ''Stopped progress timer'' (s\<lparr>progressTimer := False\<rparr>)"

definition startProgressTimer :: "'d Service \<Rightarrow> 'd Service" where
  "startProgressTimer s =
     logger logDebug ''Started progress timer'' ((stopProgressTimer s)\<lparr>progressTimer := True\<rparr>)"

definition didDisconnectFromPeripheral :: "'d Service \<Rightarrow> 'd Service" where
  "didDisconnectFromPeripheral s =
     logger logInfo ''Cleaned up communication service after disconnect''
       ((stopProgressTimer s)
          \<lparr>txCharacteristic := False, rxCharacteristic := False, currentSongId := None\<rparr>)"





subsection \<open>Paginated responses\<close>

text \<open>
  Items per page, fixed per kind of item. \<open>delayBetweenPages\<close> (50 ms) only
  suspends the loop between two pages and changes no state, so the model has no
  step for it.
\<close>

definition playlistsPerPage :: nat where
  "playlistsPerPage = 4"

definition artistsPerPage :: nat where
  "artistsPerPage = 4"

definition albumsPerPage :: nat where
  "albumsPerPage = 3"

definition songsPerPage :: nat where
  "songsPerPage = 2"

text \<open>
  \<open>items[start..<end]\<close>: forming the range traps when \<open>start > end\<close> and slicing
  traps when the range leaves the array; a trap is \<open>None\<close>.
\<close>

definition arraySlice :: "'a list \<Rightarrow> nat \<Rightarrow> nat \<Rightarrow> 'a list option" where
  "arraySlice items start stop =
     (if start \<le> stop \<and> stop \<le> length items
      then Some (take (stop - start) (drop start items))
      else None)"

text \<open>\<open>for page in range { body }\<close> over a state, where the body may not return.\<close>

fun forIn :: "nat list \<Rightarrow> (nat \<Rightarrow> 's \<Rightarrow> 's option) \<Rightarrow> 's \<Rightarrow> 's option" where
  "forIn [] body s = Some s"
| "forIn (page # rest) body s =
     (case body page s of None \<Rightarrow> None | Some s' \<Rightarrow> forIn rest body s')"

definition sendPaginatedPlaylists :: "'d Env \<Rightarrow> PlaylistInfo list \<Rightarrow> 'd Service \<Rightarrow> 'd Service option" where
  "sendPaginatedPlaylists env items s0 =
     (let perPage = playlistsPerPage;
          totalPages = max 1 ((length items + perPage - 1) div perPage)
      in forIn [0..<totalPages]
           (\<lambda>page s.
              let start = page * perPage;
                  stop = min (start + perPage) (length items)
              in case arraySlice items start stop of
                   None \<Rightarrow> None
                 | Some pageItems \<Rightarrow>
                     (case sendMessage env
                             (newMessage env playlistsResponse
                                (Some (encode_PlaylistsResponsePayload
                                   \<lparr>playlists = pageItems,
                                    playlists_page = page + 1,
                                    playlists_totalPages = totalPages\<rparr>)) s)
                             (Date_read s) of
                        None \<Rightarrow> None
                      | Some s1 \<Rightarrow> Some (logger logDebug ''Sent playlists page'' s1)))
           s0)"

definition sendPaginatedArtists :: "'d Env \<Rightarrow> ArtistInfo list \<Rightarrow> 'd Service \<Rightarrow> 'd Service option" where
  "sendPaginatedArtists env items s0 =
     (let perPage = artistsPerPage;
          totalPages = max 1 ((length items + perPage - 1) div perPage)
      in forIn [0..<totalPages]
           (\<lambda>page s.
              let start = page * perPage;
                  stop = min (start + perPage) (length items)
              in case arraySlice items start stop of
                   None \<Rightarrow> None
                 | Some pageItems \<Rightarrow>
                     (case sendMessage env
                             (newMessage env artistsResponse
                                (Some (encode_ArtistsResponsePayload
                                   \<lparr>artists = pageItems,
                                    artists_page = page + 1,
                                    artists_totalPages = totalPages\<rparr>)) s)
                             (Date_read s) of
                        None \<Rightarrow> None
                      | Some s1 \<Rightarrow> Some (logger logDebug ''Sent artists page'' s1)))
           s0)"

definition sendPaginatedAlbums :: "'d Env \<Rightarrow> AlbumInfo list \<Rightarrow> 'd Service \<Rightarrow> 'd Service option" where
  "sendPaginatedAlbums env items s0 =
     (let perPage = albumsPerPage;
          totalPages = max 1 ((length items + perPage - 1) div perPage)
      in forIn [0..<totalPages]
           (\<lambda>page s.
              let start = page * perPage;
                  stop = min (start + perPage) (length items)
              in case arraySlice items start stop of
                   None \<Rightarrow> None
                 | Some pageItems \<Rightarrow>
                     (case sendMessage env
                             (newMessage env albumsResponse
                                (Some (encode_AlbumsResponsePayload
                                   \<lparr>albums = pageItems,
                                    albums_page = page + 1,
                                    albums_totalPages = totalPages\<rparr>)) s)
                             (Date_read s) of
                        None \<Rightarrow> None
                      | Some s1 \<Rightarrow> Some (logger logDebug ''Sent albums page'' s1)))
           s0)"

definition sendPaginatedSongs ::
  "'d Env \<Rightarrow> SongInfo list \<Rightarrow> string option \<Rightarrow> string option \<Rightarrow> 'd Service \<Rightarrow> 'd Service option" where
  "sendPaginatedSongs env items ctx ctxId s0 =
     (let perPage = songsPerPage;
          totalPages = max 1 ((length items + perPage - 1) div perPage)
      in forIn [0..<totalPages]
           (\<lambda>page s.
              let start = page * perPage;
                  stop = min (start + perPage) (length items)
              in case arraySlice items start stop of
                   None \<Rightarrow> None
                 | Some pageItems \<Rightarrow>
                     (case sendMessage env
                             (newMessage env songsResponse
                                (Some (encode_SongsResponsePayload
                                   \<lparr>songs = pageItems,
                                    songs_context = ctx,
                                    songs_contextId = ctxId,
                                    songs_page = page + 1,
                                    songs_totalPages = totalPages\<rparr>)) s)
                             (Date_read s) of
                        None \<Rightarrow> None
                      | Some s1 \<Rightarrow> Some (logger logDebug ''Sent songs page'' s1)))
           s0)"

subsection \<open>Library queries\<close>

text \<open>
  A Swift \<open>String\<close> is the list of its characters, so \<open>String(x.prefix(n))\<close> is
  \<open>take n x\<close>.
\<close>

definition createSongInfo :: "Song \<Rightarrow> SongInfo" where
  "createSongInfo song =
     \<lparr>songInfo_id = song_id song,
      songInfo_title = take 30 (song_title song),
      songInfo_artist = map_option (take 20) (song_artist song),
      songInfo_album = map_option (take 20) (song_album song),
      songInfo_duration = of_int (song_duration song),
      songInfo_trackNumber = Some (song_track song)\<rparr>"

definition playlistInfoOf :: "Playlist \<Rightarrow> PlaylistInfo" where
  "playlistInfoOf playlist =
     \<lparr>playlistInfo_id = playlist_id playlist,
      playlistInfo_name = take 30 (playlist_name playlist),
      playlistInfo_songCount = length (playlist_playables playlist)\<rparr>"

definition artistInfoOf :: "Artist \<Rightarrow> ArtistInfo" where
  "artistInfoOf artist =
     \<lparr>artistInfo_id = artist_id artist,
      artistInfo_name = take 30 (artist_name artist),
      artistInfo_albumCount = length (artist_albums artist),
      artistInfo_songCount = length (artist_songs artist)\<rparr>"

definition albumInfoOf :: "Album \<Rightarrow> AlbumInfo" where
  "albumInfoOf album =
     \<lparr>albumInfo_id = album_id album,
      albumInfo_name = take 25 (album_name album),
      albumInfo_artist = map_option (take 20) (album_artist album),
      albumInfo_songCount = length (album_songs album),
      albumInfo_year = album_year album\<rparr>"

definition handleQueryPlaylists :: "'d Env \<Rightarrow> LibraryStorage \<Rightarrow> 'd Service \<Rightarrow> 'd Service option" where
  "handleQueryPlaylists env st s =
     (let playlistInfos = map playlistInfoOf (getAllPlaylists st False)
      in case sendPaginatedPlaylists env playlistInfos s of
           None \<Rightarrow> None
         | Some s1 \<Rightarrow> Some (logger logInfo ''Sent all playlists'' s1))"

definition handleQueryArtists :: "'d Env \<Rightarrow> LibraryStorage \<Rightarrow> 'd Service \<Rightarrow> 'd Service option" where
  "handleQueryArtists env st s =
     (let artistInfos = map artistInfoOf (getAllArtists st)
      in case sendPaginatedArtists env artistInfos s of
           None \<Rightarrow> None
         | Some s1 \<Rightarrow> Some (logger logInfo ''Sent all artists'' s1))"

definition handleQueryAlbums :: "'d Env \<Rightarrow> LibraryStorage \<Rightarrow> 'd Service \<Rightarrow> 'd Service option" where
  "handleQueryAlbums env st s =
     (let albumInfos = map albumInfoOf (getAllAlbums st)
      in case sendPaginatedAlbums env albumInfos s of
           None \<Rightarrow> None
         | Some s1 \<Rightarrow> Some (logger logInfo ''Sent all albums'' s1))"

definition handleQuerySongs :: "'d Env \<Rightarrow> LibraryStorage \<Rightarrow> 'd Service \<Rightarrow> 'd Service option" where
  "handleQuerySongs env st s =
     (let songInfos = map createSongInfo (getAllSongs st)
      in case sendPaginatedSongs env songInfos None None s of
           None \<Rightarrow> None
         | Some s1 \<Rightarrow> Some (logger logInfo ''Sent all songs'' s1))"

definition handleQueryPlaylistSongs ::
  "'d Env \<Rightarrow> LibraryStorage \<Rightarrow> string \<Rightarrow> 'd Service \<Rightarrow> 'd Service option" where
  "handleQueryPlaylistSongs env st pid s =
     (case find (\<lambda>p. playlist_id p = pid) (getAllPlaylists st True) of
        None \<Rightarrow>
          sendError env ''PLAYLIST_NOT_FOUND'' (''Playlist with ID '' @ pid @ '' not found'') s
      | Some playlist \<Rightarrow>
          (let songInfos = map createSongInfo (List.map_filter asSong (playlist_playables playlist))
           in case sendPaginatedSongs env songInfos (Some ''playlist'') (Some pid) s of
                None \<Rightarrow> None
              | Some s1 \<Rightarrow> Some (logger logInfo ''Sent all songs from playlist'' s1)))"

definition handleQueryArtistSongs ::
  "'d Env \<Rightarrow> LibraryStorage \<Rightarrow> string \<Rightarrow> 'd Service \<Rightarrow> 'd Service option" where
  "handleQueryArtistSongs env st aid s =
     (case find (\<lambda>a. artist_id a = aid) (getAllArtists st) of
        None \<Rightarrow>
          sendError env ''ARTIST_NOT_FOUND'' (''Artist with ID '' @ aid @ '' not found'') s
      | Some artist \<Rightarrow>
          (let songInfos = map createSongInfo (List.map_filter asSong (artist_songs artist))
           in case sendPaginatedSongs env songInfos (Some ''artist'') (Some aid) s of
                None \<Rightarrow> None
              | Some s1 \<Rightarrow> Some (logger logInfo ''Sent all songs from artist'' s1)))"

definition handleQueryAlbumSongs ::
  "'d Env \<Rightarrow> LibraryStorage \<Rightarrow> string \<Rightarrow> 'd Service \<Rightarrow> 'd Service option" where
  "handleQueryAlbumSongs env st aid s =
     (case find (\<lambda>a. album_id a = aid) (getAllAlbums st) of
        None \<Rightarrow>
          sendError env ''ALBUM_NOT_FOUND'' (''Album with ID '' @ aid @ '' not found'') s
      | Some album \<Rightarrow>
          (let songInfos = map createSongInfo (List.map_filter asSong (album_songs album))
           in case sendPaginatedSongs env songInfos (Some ''album'') (Some aid) s of
                None \<Rightarrow> None
              | Some s1 \<Rightarrow> Some (logger logInfo ''Sent all songs from album'' s1)))"

subsection \<open>Playback commands\<close>

text \<open>\<open>firstIndex(where:)\<close>: the position of the first element that satisfies the test.\<close>

fun firstIndex :: "('a \<Rightarrow> bool) \<Rightarrow> 'a list \<Rightarrow> nat option" where
  "firstIndex P [] = None"
| "firstIndex P (x # xs) = (if P x then Some 0 else map_option Suc (firstIndex P xs))"

text \<open>
  The three stages of \<open>handlePlaySong\<close> that compute its local variables:
  \<open>contextQueue\<close> is \<open>(playables, contextName)\<close> after the switch on the context,
  \<open>playQueue\<close> the same pair after the direct lookup of the song, and
  \<open>playStartIndex\<close> the value of \<open>startIndex\<close>.
\<close>

definition contextQueue :: "LibraryStorage \<Rightarrow> PlaySongPayload \<Rightarrow> AbstractPlayable list \<times> string" where
  "contextQueue st payload =
     (case play_context payload of
        None \<Rightarrow> ([], [])
      | Some ctx \<Rightarrow>
          (case play_contextId payload of
             None \<Rightarrow> ([], [])
           | Some cid \<Rightarrow>
               if ctx = ''playlist'' then
                 (case find (\<lambda>p. playlist_id p = cid) (getAllPlaylists st True) of
                    None \<Rightarrow> ([], [])
                  | Some playlist \<Rightarrow> (playlist_playables playlist, playlist_name playlist))
               else if ctx = ''album'' then
                 (case find (\<lambda>a. album_id a = cid) (getAllAlbums st) of
                    None \<Rightarrow> ([], [])
                  | Some album \<Rightarrow> (album_songs album, album_name album))
               else if ctx = ''artist'' then
                 (case find (\<lambda>a. artist_id a = cid) (getAllArtists st) of
                    None \<Rightarrow> ([], [])
                  | Some artist \<Rightarrow> (artist_songs artist, artist_name artist))
               else ([], [])))"

definition unknownContext :: "PlaySongPayload \<Rightarrow> bool" where
  "unknownContext payload =
     (case play_context payload of
        None \<Rightarrow> False
      | Some ctx \<Rightarrow>
          (case play_contextId payload of
             None \<Rightarrow> False
           | Some cid \<Rightarrow> ctx \<noteq> ''playlist'' \<and> ctx \<noteq> ''album'' \<and> ctx \<noteq> ''artist''))"

definition playQueue :: "LibraryStorage \<Rightarrow> PlaySongPayload \<Rightarrow> AbstractPlayable list \<times> string" where
  "playQueue st payload =
     (if fst (contextQueue st payload) = [] then
        (case find (\<lambda>sg. song_id sg = play_songId payload) (getAllSongs st) of
           None \<Rightarrow> contextQueue st payload
         | Some song \<Rightarrow> ([ASong song], song_title song))
      else contextQueue st payload)"

definition playStartIndex :: "PlaySongPayload \<Rightarrow> AbstractPlayable list \<Rightarrow> int" where
  "playStartIndex payload queue =
     (case firstIndex (\<lambda>p. playable_id p = play_songId payload) queue of
        Some i \<Rightarrow> int i
      | None \<Rightarrow>
          (case play_songIndex payload of
             Some i \<Rightarrow> min i (int (length queue) - 1)
           | None \<Rightarrow> 0))"

definition handlePlaySong ::
  "'d Env \<Rightarrow> LibraryStorage \<Rightarrow> PlaySongPayload \<Rightarrow> 'd Service \<Rightarrow> 'd Service option" where
  "handlePlaySong env st payload s =
     (case player s of
        None \<Rightarrow>
          sendError env ''NO_PLAYER'' ''Player not available''
            (logger logError ''Player is nil! Cannot play song.'' s)
      | Some p \<Rightarrow>
          (let s1 = logger logInfo ''Play song request'' s;
               s2 = (if unknownContext payload
                     then logger logWarning ''Unknown context type'' s1 else s1);
               queue = fst (playQueue st payload);
               name = snd (playQueue st payload)
           in if queue = [] then
                sendError env ''SONG_NOT_FOUND'' ''Could not find song or context''
                  (logger logError ''Could not find playables for song'' s2)
              else
                Some ((logger logInfo ''Playing'' s2)
                        \<lparr>playerCalls := playerCalls s2 @
                           [play \<lparr>playContext_name = name,
                                  playContext_index = playStartIndex payload queue,
                                  playContext_playables = queue\<rparr>]\<rparr>)))"

definition handlePlayPause :: "'d Service \<Rightarrow> 'd Service" where
  "handlePlayPause s =
     (case player s of
        None \<Rightarrow> logger logError ''Player is nil! Cannot toggle play/pause.'' s
      | Some p \<Rightarrow>
          logger logInfo ''Toggled play/pause'' (s\<lparr>playerCalls := playerCalls s @ [togglePlayPause]\<rparr>))"

definition handleNextSong :: "'d Service \<Rightarrow> 'd Service" where
  "handleNextSong s =
     (case player s of
        None \<Rightarrow> logger logError ''Player is nil! Cannot skip to next.'' s
      | Some p \<Rightarrow>
          logger logInfo ''Skipped to next song'' (s\<lparr>playerCalls := playerCalls s @ [playNext]\<rparr>))"

definition handlePrevSong :: "'d Service \<Rightarrow> 'd Service" where
  "handlePrevSong s =
     (case player s of
        None \<Rightarrow> logger logError ''Player is nil! Cannot skip to previous.'' s
      | Some p \<Rightarrow>
          logger logInfo ''Skipped to previous song''
            (s\<lparr>playerCalls := playerCalls s @ [playPreviousOrReplay]\<rparr>))"

subsection \<open>Receiving and dispatching\<close>

text \<open>
  \<open>handleQuery\<close>. A payload that does not decode leaves the \<open>if let\<close> without a
  branch: nothing happens. The \<open>default\<close> case takes the eight message types that
  have no case of their own.
\<close>

definition handleQuery :: "'d Env \<Rightarrow> 'd BluetoothMessage \<Rightarrow> 'd Service \<Rightarrow> 'd Service option" where
  "handleQuery env msg s0 =
     (let s = logger logInfo ''Handling query'' s0
      in case storage s of
           None \<Rightarrow>
             sendError env ''NO_STORAGE'' ''Library storage not available''
               (logger logError ''Storage is nil! Make sure setupCommunication() was called.'' s)
         | Some st \<Rightarrow>
             (case type msg of
                queryPlaylists \<Rightarrow> handleQueryPlaylists env st s
              | queryArtists \<Rightarrow> handleQueryArtists env st s
              | queryAlbums \<Rightarrow> handleQueryAlbums env st s
              | querySongs \<Rightarrow> handleQuerySongs env st s
              | queryPlaylistSongs \<Rightarrow>
                  (case decode_QueryPlaylistSongsPayload env msg of
                     None \<Rightarrow> Some s
                   | Some payload \<Rightarrow> handleQueryPlaylistSongs env st (playlistId payload) s)
              | queryArtistSongs \<Rightarrow>
                  (case decode_QueryArtistSongsPayload env msg of
                     None \<Rightarrow> Some s
                   | Some payload \<Rightarrow> handleQueryArtistSongs env st (artistId payload) s)
              | queryAlbumSongs \<Rightarrow>
                  (case decode_QueryAlbumSongsPayload env msg of
                     None \<Rightarrow> Some s
                   | Some payload \<Rightarrow> handleQueryAlbumSongs env st (albumId payload) s)
              | playSong \<Rightarrow>
                  (case decode_PlaySongPayload env msg of
                     None \<Rightarrow> Some s
                   | Some payload \<Rightarrow> handlePlaySong env st payload s)
              | playPause \<Rightarrow> Some (handlePlayPause s)
              | nextSong \<Rightarrow> Some (handleNextSong s)
              | prevSong \<Rightarrow> Some (handlePrevSong s)
              | _ \<Rightarrow> Some (logger logWarning ''Unhandled message type'' s)))"

text \<open>
  \<open>handleReceivedData\<close>. The task that it starts for \<open>handleQuery\<close> runs on the same
  actor; the model runs it at once.
\<close>

definition handleReceivedData :: "'d Env \<Rightarrow> 'd \<Rightarrow> 'd Service \<Rightarrow> 'd Service option" where
  "handleReceivedData env data s0 =
     (let s = (case utf8String env data of
                 None \<Rightarrow> s0
               | Some jsonString \<Rightarrow> logger logInfo ''Received raw data'' s0)
      in case BluetoothMessage_from env data of
           None \<Rightarrow>
             (let s1 = logger logError ''Failed to decode received message'' s;
                  s2 = (case utf8String env data of
                          None \<Rightarrow> s1
                        | Some jsonString \<Rightarrow> logger logError ''Raw data was'' s1)
              in sendError env ''INVALID_MESSAGE'' ''Could not decode message'' s2)
         | Some msg \<Rightarrow> handleQuery env msg (logger logInfo ''Received message type'' s))"

section \<open>BluetoothPlayerObserver\<close>

text \<open>
  The observer polls the player every 500 ms. \<open>checkPlayerState\<close> takes what the
  observer's reference to the player yields at that moment: \<open>None\<close> when it is not
  bound, else the player's state. The reference to the communication service is set
  together with it (\<open>startObserving\<close>) and the service lives as long as the manager.
\<close>

record Observer =
  lastPlayingState :: bool
  lastSongId :: "string option"






section \<open>BluetoothManager: connection, persistence and reconnection\<close>

text \<open>
  A peripheral is known by its identifier. \<open>BluetoothDevice\<close> is a class: the
  manager's list holds the objects, and \<open>device.isConnected = ...\<close> on the first
  device found in the list changes that element. Through \<open>connectedDevice\<close> the
  manager reads the identifier, the name and the peripheral only.
\<close>

record Peripheral =
  peripheral_identifier :: string
  peripheral_name :: "string option"

record BluetoothDevice =
  peripheral :: Peripheral
  device_name :: string
  rssi :: int
  isConnected :: bool

definition device_id :: "BluetoothDevice \<Rightarrow> string" where
  "device_id device = peripheral_identifier (peripheral device)"

definition newDevice :: "Peripheral \<Rightarrow> int \<Rightarrow> BluetoothDevice" where
  "newDevice p r =
     \<lparr>peripheral = p,
      device_name = (case peripheral_name p of None \<Rightarrow> ''Unknown Device'' | Some n \<Rightarrow> n),
      rssi = r, isConnected = False\<rparr>"

datatype CBManagerState = unknown | resetting | unsupported | unauthorized | poweredOff | poweredOn

text \<open>The calls on \<open>CBCentralManager\<close>, in the order the manager makes them.\<close>

datatype CentralCall =
    scanForPeripherals
  | stopScan
  | connect Peripheral
  | cancelPeripheralConnection Peripheral

text \<open>
  The manager's state. The three \<open>defaults_\<close> fields are the entries of
  \<open>UserDefaults\<close> under the manager's three keys (\<open>bool(forKey:)\<close> of a missing
  entry is \<open>false\<close>). \<open>reconnectTasks\<close> are the tasks that sleep for two seconds
  before they reconnect, oldest first, each with the peripheral it captured.
\<close>

record 'd BluetoothManager =
  centralState :: CBManagerState
  centralCalls :: "CentralCall list"
  isScanning :: bool
  isBluetoothEnabled :: bool
  discoveredDevices :: "BluetoothDevice list"
  connectedDevice :: "BluetoothDevice option"
  errorMessage :: "string option"
  hasAttemptedAutoReconnect :: bool
  defaults_lastConnectedDeviceUUID :: "string option"
  defaults_lastConnectedDeviceName :: "string option"
  defaults_shouldAutoReconnect :: bool
  reconnectTasks :: "Peripheral list"
  communicationService :: "'d Service"
  playerObserver :: Observer
  observing :: bool
  managerLogs :: "(LogLevel \<times> string) list"

definition managerLog :: "LogLevel \<Rightarrow> string \<Rightarrow> 'd BluetoothManager \<Rightarrow> 'd BluetoothManager" where
  "managerLog level line m = m\<lparr>managerLogs := managerLogs m @ [(level, line)]\<rparr>"

definition updateFirst :: "('a \<Rightarrow> bool) \<Rightarrow> ('a \<Rightarrow> 'a) \<Rightarrow> 'a list \<Rightarrow> 'a list" where
  "updateFirst P f xs =
     (case firstIndex P xs of None \<Rightarrow> xs | Some i \<Rightarrow> xs[i := f (xs ! i)])"

definition saveConnectedDevice :: "BluetoothDevice \<Rightarrow> 'd BluetoothManager \<Rightarrow> 'd BluetoothManager" where
  "saveConnectedDevice device m =
     managerLog logInfo ''Saved device to persistent storage''
       (m\<lparr>defaults_lastConnectedDeviceUUID := Some (device_id device),
          defaults_lastConnectedDeviceName := Some (device_name device),
          defaults_shouldAutoReconnect := True\<rparr>)"

definition clearConnectedDevice :: "'d BluetoothManager \<Rightarrow> 'd BluetoothManager" where
  "clearConnectedDevice m =
     managerLog logInfo ''Cleared saved device from persistent storage''
       (m\<lparr>defaults_lastConnectedDeviceUUID := None,
          defaults_lastConnectedDeviceName := None,
          defaults_shouldAutoReconnect := False\<rparr>)"

definition getLastConnectedDeviceUUID :: "'d BluetoothManager \<Rightarrow> string option" where
  "getLastConnectedDeviceUUID m = defaults_lastConnectedDeviceUUID m"

definition shouldAutoReconnect :: "'d BluetoothManager \<Rightarrow> bool" where
  "shouldAutoReconnect m = defaults_shouldAutoReconnect m"

text \<open>
  \<open>retrievePeripherals(withIdentifiers:)\<close> is the transport's; \<open>retrieve\<close> is what
  it finds for one identifier.
\<close>

definition attemptAutoReconnect ::
  "(string \<Rightarrow> Peripheral option) \<Rightarrow> 'd BluetoothManager \<Rightarrow> 'd BluetoothManager" where
  "attemptAutoReconnect retrieve m0 =
     (if hasAttemptedAutoReconnect m0
      then managerLog logDebug ''Auto-reconnect already attempted'' m0
      else
        (let m = m0\<lparr>hasAttemptedAutoReconnect := True\<rparr>
         in if \<not> shouldAutoReconnect m then managerLog logInfo ''No saved device to reconnect to'' m
            else
              (case getLastConnectedDeviceUUID m of
                 None \<Rightarrow> managerLog logInfo ''No saved device to reconnect to'' m
               | Some lastDeviceUUID \<Rightarrow>
                   if centralState m \<noteq> poweredOn
                   then managerLog logWarning ''Cannot auto-reconnect: Bluetooth not powered on'' m
                   else
                     (case retrieve lastDeviceUUID of
                        None \<Rightarrow>
                          managerLog logWarning ''Could not retrieve saved peripheral''
                            (managerLog logInfo ''Attempting to reconnect to saved device'' m)
                      | Some p \<Rightarrow>
                          managerLog logInfo ''Initiated reconnection''
                            ((managerLog logInfo ''Attempting to reconnect to saved device'' m)
                               \<lparr>discoveredDevices := discoveredDevices m @ [newDevice p 0],
                                centralCalls := centralCalls m @ [connect p]\<rparr>)))))"

definition startScanning :: "'d BluetoothManager \<Rightarrow> 'd BluetoothManager" where
  "startScanning m =
     (if centralState m \<noteq> poweredOn
      then managerLog logWarning ''Attempted to scan but Bluetooth is not powered on''
             (m\<lparr>errorMessage := Some ''Bluetooth is not available''\<rparr>)
      else managerLog logInfo ''Started scanning for BLE devices''
             (m\<lparr>discoveredDevices := [],
                centralCalls := centralCalls m @ [scanForPeripherals],
                isScanning := True\<rparr>))"

definition stopScanning :: "'d BluetoothManager \<Rightarrow> 'd BluetoothManager" where
  "stopScanning m =
     (if \<not> isScanning m then m
      else managerLog logInfo ''Stopped scanning for BLE devices''
             (m\<lparr>centralCalls := centralCalls m @ [stopScan], isScanning := False\<rparr>))"

definition connect_to :: "BluetoothDevice \<Rightarrow> 'd BluetoothManager \<Rightarrow> 'd BluetoothManager" where
  "connect_to device m =
     managerLog logInfo ''Attempting to connect to device''
       ((stopScanning m)
          \<lparr>centralCalls := centralCalls (stopScanning m) @ [connect (peripheral device)]\<rparr>)"

definition disconnect :: "'d BluetoothManager \<Rightarrow> 'd BluetoothManager" where
  "disconnect m =
     (case connectedDevice m of
        None \<Rightarrow> m
      | Some device \<Rightarrow>
          managerLog logInfo ''Disconnecting from device''
            ((clearConnectedDevice m)
               \<lparr>centralCalls := centralCalls (clearConnectedDevice m) @
                  [cancelPeripheralConnection (peripheral device)]\<rparr>))"

text \<open>
  The delegate callbacks. \<open>appDelegate\<close> is the application delegate's player and
  library, when the cast to \<open>AppDelegate\<close> succeeds.
\<close>

definition centralManagerDidUpdateState ::
  "(string \<Rightarrow> Peripheral option) \<Rightarrow> CBManagerState \<Rightarrow> 'd BluetoothManager \<Rightarrow> 'd BluetoothManager" where
  "centralManagerDidUpdateState retrieve state m0 =
     (let m = m0\<lparr>centralState := state\<rparr>
      in case state of
           poweredOn \<Rightarrow>
             attemptAutoReconnect retrieve
               (managerLog logInfo ''Bluetooth powered on''
                  (m\<lparr>isBluetoothEnabled := True, errorMessage := None\<rparr>))
         | poweredOff \<Rightarrow>
             managerLog logWarning ''Bluetooth powered off''
               (m\<lparr>isBluetoothEnabled := False, errorMessage := Some ''Bluetooth is turned off''\<rparr>)
         | unauthorized \<Rightarrow>
             managerLog logError ''Bluetooth unauthorized''
               (m\<lparr>isBluetoothEnabled := False,
                  errorMessage := Some ''Bluetooth access not authorized''\<rparr>)
         | unsupported \<Rightarrow>
             managerLog logError ''Bluetooth unsupported''
               (m\<lparr>isBluetoothEnabled := False,
                  errorMessage := Some ''Bluetooth LE not supported on this device''\<rparr>)
         | _ \<Rightarrow>
             managerLog logWarning ''Bluetooth state''
               (m\<lparr>isBluetoothEnabled := False, errorMessage := Some ''Bluetooth unavailable''\<rparr>))"

definition didDiscover ::
  "(string \<Rightarrow> Peripheral option) \<Rightarrow> Peripheral \<Rightarrow> int \<Rightarrow> 'd BluetoothManager \<Rightarrow> 'd BluetoothManager" where
  "didDiscover retrieve p rssiValue m =
     (case find (\<lambda>d. device_id d = peripheral_identifier p) (discoveredDevices m) of
        Some existingDevice \<Rightarrow>
          m\<lparr>discoveredDevices :=
               updateFirst (\<lambda>d. device_id d = peripheral_identifier p) (\<lambda>d. d\<lparr>rssi := rssiValue\<rparr>)
                 (discoveredDevices m)\<rparr>
      | None \<Rightarrow>
          (case retrieve (peripheral_identifier p) of
             None \<Rightarrow> m
           | Some retrievedPeripheral \<Rightarrow>
               managerLog logDebug ''Discovered device''
                 (m\<lparr>discoveredDevices :=
                      discoveredDevices m @ [newDevice retrievedPeripheral rssiValue]\<rparr>)))"

definition didConnectToPeripheral :: "'d Service \<Rightarrow> 'd Service" where
  "didConnectToPeripheral s = logger logInfo ''Discovering services for connected peripheral'' s"

definition didConnect ::
  "(PlayerFacade \<times> LibraryStorage) option \<Rightarrow> Peripheral \<Rightarrow> 'd BluetoothManager \<Rightarrow> 'd BluetoothManager" where
  "didConnect appDelegate p m =
     (case find (\<lambda>d. device_id d = peripheral_identifier p) (discoveredDevices m) of
        None \<Rightarrow> m
      | Some found \<Rightarrow>
          (let device = found\<lparr>isConnected := True\<rparr>;
               m1 = saveConnectedDevice device
                      (m\<lparr>discoveredDevices :=
                           updateFirst (\<lambda>d. device_id d = peripheral_identifier p)
                             (\<lambda>d. d\<lparr>isConnected := True\<rparr>) (discoveredDevices m),
                         connectedDevice := Some device\<rparr>);
               m2 = (if storage (communicationService m1) = None then
                       (case appDelegate of
                          Some (pl, lib) \<Rightarrow>
                            managerLog logInfo ''Auto-configured communication service on connect''
                              (m1\<lparr>communicationService :=
                                    (communicationService m1)\<lparr>player := Some pl, storage := Some lib\<rparr>,
                                  observing := True\<rparr>)
                        | None \<Rightarrow>
                            managerLog logWarning ''Could not auto-configure communication service'' m1)
                     else m1)
           in managerLog logInfo ''Connected to device''
                (m2\<lparr>communicationService := didConnectToPeripheral (communicationService m2)\<rparr>)))"

definition didFailToConnect :: "Peripheral \<Rightarrow> 'd BluetoothManager \<Rightarrow> 'd BluetoothManager" where
  "didFailToConnect p m =
     managerLog logError ''Failed to connect to device''
       (m\<lparr>errorMessage :=
            Some (''Failed to connect to '' @
                  (case peripheral_name p of None \<Rightarrow> ''Unknown'' | Some n \<Rightarrow> n))\<rparr>)"

text \<open>
  \<open>centralManager(_:didDisconnectPeripheral:error:)\<close>, with \<open>hadError\<close> for
  \<open>error != nil\<close>. The reconnection is a task of its own: it is queued here and runs
  in \<open>reconnectTaskFired\<close> once its two seconds are over.
\<close>

definition didDisconnectPeripheral ::
  "Peripheral \<Rightarrow> bool \<Rightarrow> 'd BluetoothManager \<Rightarrow> 'd BluetoothManager" where
  "didDisconnectPeripheral p hadError m =
     (case find (\<lambda>d. device_id d = peripheral_identifier p) (discoveredDevices m) of
        None \<Rightarrow> m
      | Some device \<Rightarrow>
          (let m1 = m\<lparr>discoveredDevices :=
                        updateFirst (\<lambda>d. device_id d = peripheral_identifier p)
                          (\<lambda>d. d\<lparr>isConnected := False\<rparr>) (discoveredDevices m),
                      connectedDevice :=
                        (if map_option device_id (connectedDevice m) = Some (device_id device)
                         then None else connectedDevice m)\<rparr>;
               m2 = m1\<lparr>communicationService :=
                         didDisconnectFromPeripheral (communicationService m1)\<rparr>
           in if hadError \<and> shouldAutoReconnect m2 then
                (managerLog logWarning ''Unexpected disconnection. Attempting to reconnect...'' m2)
                  \<lparr>reconnectTasks := reconnectTasks m2 @ [peripheral device]\<rparr>
              else managerLog logInfo ''Disconnected from device'' m2))"

definition reconnectTaskFired :: "'d BluetoothManager \<Rightarrow> 'd BluetoothManager" where
  "reconnectTaskFired m =
     (case reconnectTasks m of
        [] \<Rightarrow> m
      | p # rest \<Rightarrow>
          (if centralState m = poweredOn
           then m\<lparr>reconnectTasks := rest, centralCalls := centralCalls m @ [connect p]\<rparr>
           else m\<lparr>reconnectTasks := rest\<rparr>))"

section \<open>Notions used to state the properties\<close>

text \<open>
  \<open>sendAll env ty line payloads\<close> builds and sends one message of type \<open>ty\<close> for each
  payload, in order, and logs \<open>line\<close> after each: the effect of a loop that sends
  these payloads one after the other.
\<close>

fun sendAll ::
  "'d Env \<Rightarrow> MessageType \<Rightarrow> string \<Rightarrow> json list \<Rightarrow> 'd Service \<Rightarrow> 'd Service option" where
  "sendAll env ty line [] s = Some s"
| "sendAll env ty line (p # ps) s =
     (case sendMessage env (newMessage env ty (Some p) s) (Date_read s) of
        None \<Rightarrow> None
      | Some s1 \<Rightarrow> sendAll env ty line ps (logger logDebug line s1))"

text \<open>
  The pages of a listing as the specification describes them: page \<open>k\<close> of
  \<open>totalPages\<close> carries the \<open>k\<close>-th run of \<open>perPage\<close> items.
\<close>

definition pageCount :: "nat \<Rightarrow> nat \<Rightarrow> nat" where
  "pageCount perPage n = max 1 ((n + perPage - 1) div perPage)"

definition pageItems :: "nat \<Rightarrow> 'a list \<Rightarrow> nat \<Rightarrow> 'a list" where
  "pageItems perPage items page = take perPage (drop (page * perPage) items)"

definition playlistsPages :: "PlaylistInfo list \<Rightarrow> PlaylistsResponsePayload list" where
  "playlistsPages items =
     map (\<lambda>page. \<lparr>playlists = pageItems playlistsPerPage items page,
                   playlists_page = page + 1,
                   playlists_totalPages = pageCount playlistsPerPage (length items)\<rparr>)
       [0..<pageCount playlistsPerPage (length items)]"

definition songsPages :: "SongInfo list \<Rightarrow> string option \<Rightarrow> string option \<Rightarrow> SongsResponsePayload list" where
  "songsPages items ctx ctxId =
     map (\<lambda>page. \<lparr>songs = pageItems songsPerPage items page,
                   songs_context = ctx,
                   songs_contextId = ctxId,
                   songs_page = page + 1,
                   songs_totalPages = pageCount songsPerPage (length items)\<rparr>)
       [0..<pageCount songsPerPage (length items)]"

text \<open>
  A message fits when \<open>toData\<close> yields bytes and they are within the size limit;
  then \<open>sendMessage\<close> writes it when the characteristic is bound.
\<close>

definition fits :: "'d Env \<Rightarrow> 'd BluetoothMessage \<Rightarrow> bool" where
  "fits env msg =
     (case toData env msg of None \<Rightarrow> False | Some data \<Rightarrow> count env data \<le> maxMessageSize)"

definition errorMessage_of :: "'d Env \<Rightarrow> string \<Rightarrow> string \<Rightarrow> 'd Service \<Rightarrow> 'd BluetoothMessage" where
  "errorMessage_of env c text s =
     newMessage env error (Some (encode_ErrorPayload \<lparr>code = c, message = text\<rparr>)) s"

subsection \<open>A concrete environment and states\<close>

text \<open>
  An environment in which the bytes of a JSON value are the value itself, so that
  the reader inverts the writer. Its byte count charges 64 bytes for an envelope
  and one byte for each character of the \<open>message\<close> text of the payload, when there
  is one: no more than any JSON text of that envelope takes.
\<close>

definition echoCount :: "json \<Rightarrow> nat" where
  "echoCount d =
     (case d of
        JObject dict \<Rightarrow>
          (case fmlookup dict ''payload'' of
             Some (JObject p) \<Rightarrow>
               (case fmlookup p ''message'' of
                  Some (JString t) \<Rightarrow> 64 + length t
                | _ \<Rightarrow> 64)
           | _ \<Rightarrow> 64)
      | _ \<Rightarrow> 0)"

definition echoEnv :: "json Env" where
  "echoEnv =
     \<lparr>jsonData = Some, jsonObject = Some, count = echoCount,
      utf8String = (\<lambda>d. None), Date_now = of_nat\<rparr>"

text \<open>A service whose characteristics are bound and that has done nothing yet.\<close>

definition readyService :: "json Service" where
  "readyService =
     \<lparr>progressTimer = False, currentSongId = None, player = None, storage = None,
      txCharacteristic = True, rxCharacteristic = True, clock = 0,
      written = [], playerCalls = [], logs = []\<rparr>"

text \<open>
  What a call of \<open>sendMessage\<close> can change, from state \<open>s\<close> to state \<open>s'\<close>: it
  appends messages that fit to \<open>written\<close> (and writes the log and reads the clock);
  the player, the catalog, the characteristics and the telemetry state stay as
  they are.
\<close>

definition frame :: "'d Env \<Rightarrow> 'd Service \<Rightarrow> 'd Service \<Rightarrow> bool" where
  "frame env s s' \<longleftrightarrow>
     (\<exists>new. written s' = written s @ new \<and> list_all (fits env) new)
       \<and> playerCalls s' = playerCalls s
       \<and> txCharacteristic s' = txCharacteristic s
       \<and> rxCharacteristic s' = rxCharacteristic s
       \<and> storage s' = storage s
       \<and> player s' = player s
       \<and> currentSongId s' = currentSongId s
       \<and> progressTimer s' = progressTimer s"

text \<open>An error envelope whose text alone is longer than the size limit.\<close>

definition oversizedMessage :: "json BluetoothMessage" where
  "oversizedMessage =
     \<lparr>type = error, timestamp = 0,
      payloadData = Some (encode_ErrorPayload
        \<lparr>code = ''PLAYLIST_NOT_FOUND'', message = replicate 600 CHR ''x''\<rparr>)\<rparr>"

text \<open>
  The error envelope that \<open>sendError\<close> builds when the clock reads \<open>now\<close>.
\<close>

definition errorEnvelope :: "'d Env \<Rightarrow> string \<Rightarrow> string \<Rightarrow> TimeInterval \<Rightarrow> 'd BluetoothMessage" where
  "errorEnvelope env c text now =
     \<lparr>type = error, timestamp = now,
      payloadData = jsonData env (encode_ErrorPayload \<lparr>code = c, message = text\<rparr>)\<rparr>"

text \<open>
  The messages of type \<open>ty\<close> built for a list of payloads, one clock reading each,
  starting with reading \<open>n\<close>.
\<close>

fun messagesAt :: "'d Env \<Rightarrow> MessageType \<Rightarrow> json list \<Rightarrow> nat \<Rightarrow> 'd BluetoothMessage list" where
  "messagesAt env ty [] n = []"
| "messagesAt env ty (p # ps) n =
     BluetoothMessage_init env ty (Some p) (Date_now env n) # messagesAt env ty ps (Suc n)"

text \<open>
  A small catalog: three songs on one album, one playlist of the user's, and one
  playlist that the catalog returns only when system playlists are included.
\<close>

definition song1 :: Song where
  "song1 = \<lparr>song_id = ''s1'', song_title = ''First'', song_creatorName = ''Ann'',
            song_artist = Some ''Ann'', song_album = Some ''Debut'', song_duration = 180, song_track = 1\<rparr>"

definition song2 :: Song where
  "song2 = \<lparr>song_id = ''s2'', song_title = ''Second'', song_creatorName = ''Ann'',
            song_artist = Some ''Ann'', song_album = Some ''Debut'', song_duration = 200, song_track = 2\<rparr>"

definition song9 :: Song where
  "song9 = \<lparr>song_id = ''s9'', song_title = ''Ninth'', song_creatorName = ''Ann'',
            song_artist = Some ''Ann'', song_album = Some ''Debut'', song_duration = 240, song_track = 3\<rparr>"

definition album3 :: Album where
  "album3 = \<lparr>album_id = ''al-3'', album_name = ''Debut'', album_artist = Some ''Ann'',
             album_songs = [ASong song1, ASong song2, ASong song9], album_year = Some 2024\<rparr>"

definition roadTrip :: Playlist where
  "roadTrip = \<lparr>playlist_id = ''p1'', playlist_name = ''Road trip'',
               playlist_playables = [ASong song1, ASong song2, ASong song9]\<rparr>"

definition recentlyPlayed :: Playlist where
  "recentlyPlayed = \<lparr>playlist_id = ''sys1'', playlist_name = ''Recently played'',
                     playlist_playables = [ASong song2]\<rparr>"

definition sampleLibrary :: LibraryStorage where
  "sampleLibrary =
     \<lparr>getAllPlaylists = (\<lambda>areSystemPlaylistsIncluded.
          if areSystemPlaylistsIncluded then [recentlyPlayed, roadTrip] else [roadTrip]),
      getAllArtists = [\<lparr>artist_id = ''ar-1'', artist_name = ''Ann'', artist_albums = [album3],
                        artist_songs = [ASong song1, ASong song2, ASong song9]\<rparr>],
      getAllAlbums = [album3],
      getAllSongs = [song1, song2, song9]\<rparr>"

text \<open>
  A ready service with the small catalog bound, the same service when the
  characteristic for writing is not bound, and a query frame with a one-key payload.
\<close>

definition libraryService :: "json Service" where
  "libraryService = readyService\<lparr>storage := Some sampleLibrary\<rparr>"

definition unboundService :: "json Service" where
  "unboundService = libraryService\<lparr>txCharacteristic := False\<rparr>"

definition scopedQuery :: "MessageType \<Rightarrow> string \<Rightarrow> string \<Rightarrow> json BluetoothMessage" where
  "scopedQuery ty key x =
     \<lparr>type = ty, timestamp = 1,
      payloadData = Some (JObject (fmap_of_list [(key, JString x)]))\<rparr>"

text \<open>
  The one assumption made about Foundation's JSON codec where a property needs it:
  reading the bytes that the writer produced for a JSON value gives that value back.
\<close>

definition readsBack :: "'d Env \<Rightarrow> bool" where
  "readsBack env \<longleftrightarrow> (\<forall>j d. jsonData env j = Some d \<longrightarrow> jsonObject env d = Some j)"

text \<open>
  A well-formed inbound frame whose type string the vocabulary does not have.
\<close>

definition unknownFrame :: json where
  "unknownFrame = JObject (fmap_of_list [(''type'', JString ''VOLUME_UP''), (''timestamp'', JNumber 1)])"

text \<open>
  An envelope with a payload, and an inbound frame without one.
\<close>

definition stoppedEnvelope :: "json BluetoothMessage" where
  "stoppedEnvelope =
     BluetoothMessage_init echoEnv songStopped
       (Some (encode_SongStoppedPayload \<lparr>stopped_songId = ''s1''\<rparr>)) 1737302400"

definition playPauseFrame :: json where
  "playPauseFrame = JObject (fmap_of_list [(''type'', JString ''PLAY_PAUSE''), (''timestamp'', JNumber 5)])"

text \<open>
  The list and the name of the scope that a \<open>playSong\<close> payload names, in the
  words of the specification: kind and id are both present, the kind is one of
  \<open>playlist\<close>, \<open>album\<close>, \<open>artist\<close>, and the catalog has the id.
\<close>

definition scopeList :: "LibraryStorage \<Rightarrow> PlaySongPayload \<Rightarrow> (AbstractPlayable list \<times> string) option" where
  "scopeList st payload =
     (case (play_context payload, play_contextId payload) of
        (Some kind, Some x) \<Rightarrow>
          if kind = ''playlist'' then
            map_option (\<lambda>pl. (playlist_playables pl, playlist_name pl))
              (find (\<lambda>pl. playlist_id pl = x) (getAllPlaylists st True))
          else if kind = ''album'' then
            map_option (\<lambda>al. (album_songs al, album_name al))
              (find (\<lambda>al. album_id al = x) (getAllAlbums st))
          else if kind = ''artist'' then
            map_option (\<lambda>ar. (artist_songs ar, artist_name ar))
              (find (\<lambda>ar. artist_id ar = x) (getAllArtists st))
          else None
      | _ \<Rightarrow> None)"

text \<open>
  A ready service with the small catalog and a player bound; five \<open>playSong\<close>
  payloads.
\<close>

definition playerService :: "json Service" where
  "playerService =
     readyService\<lparr>storage := Some sampleLibrary,
                  player := Some \<lparr>isPlaying = False, currentlyPlaying = None, contextName = [],
                                   elapsedTime = 0, duration = 0\<rparr>\<rparr>"

definition albumPlay :: PlaySongPayload where
  "albumPlay = \<lparr>play_songId = ''s9'', play_context = Some ''album'',
                play_contextId = Some ''al-3'', play_songIndex = None\<rparr>"

definition directPlay :: PlaySongPayload where
  "directPlay = \<lparr>play_songId = ''s2'', play_context = None,
                 play_contextId = None, play_songIndex = None\<rparr>"

definition indexedPlay :: PlaySongPayload where
  "indexedPlay = \<lparr>play_songId = ''s404'', play_context = Some ''album'',
                  play_contextId = Some ''al-3'', play_songIndex = Some (- 1)\<rparr>"

definition repeatPlay :: PlaySongPayload where
  "repeatPlay = \<lparr>play_songId = ''s1'', play_context = None,
                 play_contextId = None, play_songIndex = Some 2\<rparr>"

definition missingPlay :: PlaySongPayload where
  "missingPlay = \<lparr>play_songId = ''s404'', play_context = None,
                  play_contextId = None, play_songIndex = Some 1\<rparr>"


text \<open>
  The frames on the transport, each by its type and payload bytes (the timestamp
  left out), and the frames of the telemetry events. \<open>songStarted\<close> for a song
  as the player shows it carries the song's id, title and creator, the album of a
  song, the duration, the name of the player's context when it has one, and no
  playlist id. \<open>songStopped\<close> for a song carries its id. The progress frames of a
  run of progress events while song \<open>sid\<close> is current are one for each event at
  which the player has a current song.
\<close>

definition frames :: "'d Service \<Rightarrow> (MessageType \<times> 'd option) list" where
  "frames s = map (\<lambda>m. (type m, payloadData m)) (written s)"










text \<open>
  The reconnection and connection attempts of the manager: the peripherals of its
  \<open>connect\<close> calls, in order.
\<close>

definition connectAttempts :: "'d BluetoothManager \<Rightarrow> Peripheral list" where
  "connectAttempts m =
     List.map_filter (\<lambda>c. case c of connect p \<Rightarrow> Some p | _ \<Rightarrow> None) (centralCalls m)"

text \<open>
  A manager that has discovered one peripheral with the transport powered on, and
  the same manager after that peripheral has connected.
\<close>

definition headUnit :: Peripheral where
  "headUnit = \<lparr>peripheral_identifier = ''6E40-D1'', peripheral_name = Some ''Amperfy-ESP32''\<rparr>"

definition freshManager :: "json BluetoothManager" where
  "freshManager =
     \<lparr>centralState = poweredOn, centralCalls = [], isScanning = False, isBluetoothEnabled = True,
      discoveredDevices = [newDevice headUnit (- 50)], connectedDevice = None,
      errorMessage = None, hasAttemptedAutoReconnect = True,
      defaults_lastConnectedDeviceUUID = None, defaults_lastConnectedDeviceName = None,
      defaults_shouldAutoReconnect = False, reconnectTasks = [],
      communicationService = readyService,
      playerObserver = \<lparr>lastPlayingState = False, lastSongId = None\<rparr>,
      observing = False, managerLogs = []\<rparr>"

definition connectedManager :: "json BluetoothManager" where
  "connectedManager = didConnect None headUnit freshManager"

definition connectedHeadUnit :: BluetoothDevice where
  "connectedHeadUnit =
     \<lparr>peripheral = headUnit, device_name = ''Amperfy-ESP32'', rssi = - 50, isConnected = True\<rparr>"








section \<open>Pagination\<close>

lemma div_bounds:
  fixes n pp :: nat
  assumes "0 < pp"
  shows "n \<le> ((n + pp - 1) div pp) * pp" and "((n + pp - 1) div pp) * pp \<le> n + pp - 1"
proof -
  have eq: "((n + pp - 1) div pp) * pp + (n + pp - 1) mod pp = n + pp - 1"
    by (rule div_mult_mod_eq)
  have "(n + pp - 1) mod pp < pp" using assms by simp
  with eq assms show "n \<le> ((n + pp - 1) div pp) * pp" by linarith
  from eq show "((n + pp - 1) div pp) * pp \<le> n + pp - 1" by linarith
qed

lemma page_start_le:
  assumes "0 < pp" "page < pageCount pp n"
  shows "page * pp \<le> n"
proof -
  have "page = 0 \<or> page < (n + pp - 1) div pp"
    using assms(2) by (auto simp: pageCount_def max_def split: if_splits)
  then show ?thesis
  proof
    assume "page = 0" then show ?thesis by simp
  next
    assume "page < (n + pp - 1) div pp"
    then have "Suc page \<le> (n + pp - 1) div pp" by simp
    then have "Suc page * pp \<le> ((n + pp - 1) div pp) * pp" by (rule mult_le_mono1)
    also have "\<dots> \<le> n + pp - 1" using div_bounds(2)[OF assms(1)] .
    finally show ?thesis using assms(1) by simp
  qed
qed

lemma arraySlice_page:
  assumes "0 < pp" "page < pageCount pp (length items)"
  shows "arraySlice items (page * pp) (min (page * pp + pp) (length items))
           = Some (pageItems pp items page)"
  using page_start_le[OF assms] by (simp add: arraySlice_def pageItems_def min_def)

lemma forIn_sendAll:
  assumes "\<And>page. page \<in> set ps \<Longrightarrow> slice page = Some (g page)"
  shows "forIn ps
           (\<lambda>page s. case slice page of
                        None \<Rightarrow> None
                      | Some its \<Rightarrow>
                          (case sendMessage env (newMessage env ty (Some (mk its page)) s) (Date_read s) of
                             None \<Rightarrow> None
                           | Some s1 \<Rightarrow> Some (logger logDebug line s1)))
           s
         = sendAll env ty line (map (\<lambda>page. mk (g page) page) ps) s"
  using assms
proof (induction ps arbitrary: s)
  case Nil
  then show ?case by simp
next
  case (Cons p ps)
  then show ?case by (simp split: option.splits)
qed

lemma concat_pages_take:
  "concat (map (pageItems pp items) [0..<k]) = take (k * pp) items"
proof (induction k)
  case 0
  then show ?case by simp
next
  case (Suc k)
  have "take (k * pp) items @ take pp (drop (k * pp) items) = take (k * pp + pp) items"
    by (simp add: take_add)
  with Suc show ?case by (simp add: pageItems_def add.commute)
qed

lemma pageCount_covers: "0 < pp \<Longrightarrow> n \<le> pageCount pp n * pp"
proof -
  assume pp: "0 < pp"
  have "n \<le> ((n + pp - 1) div pp) * pp" using div_bounds(1)[OF pp] .
  also have "\<dots> \<le> pageCount pp n * pp" by (simp add: pageCount_def)
  finally show ?thesis .
qed

lemma concat_pages: "0 < pp \<Longrightarrow> concat (map (pageItems pp items) [0..<pageCount pp (length items)]) = items"
  by (simp add: concat_pages_take pageCount_covers)

lemma pageCount_pos: "0 < pp \<Longrightarrow> 0 < n \<Longrightarrow> pageCount pp n = (n + pp - 1) div pp"
proof -
  assume pp: "0 < pp" and n: "0 < n"
  have "pp \<le> n + pp - 1" using n by simp
  then have "1 \<le> (n + pp - 1) div pp" using pp by (simp add: Suc_le_eq div_greater_zero_iff)
  then show ?thesis by (simp add: pageCount_def)
qed

lemma pageCount_ceiling:
  assumes "0 < pp" "0 < n"
  shows "int (pageCount pp n) = \<lceil>(of_nat n :: rat) / of_nat pp\<rceil>"
proof -
  define k where "k = pageCount pp n"
  have pc: "k = (n + pp - 1) div pp" unfolding k_def using assms by (rule pageCount_pos)
  have up: "n \<le> k * pp" unfolding k_def using assms(1) by (rule pageCount_covers)
  have dn: "k * pp \<le> n + pp - 1" unfolding pc using div_bounds(2)[OF assms(1)] .
  then have lo: "k * pp < n + pp" using assms by linarith
  have ppr: "(0::rat) < of_nat pp" using assms(1) by simp
  have "(of_nat n :: rat) \<le> of_nat k * of_nat pp"
    using up by (metis of_nat_le_iff of_nat_mult)
  then have a: "(of_nat n :: rat) / of_nat pp \<le> of_int (int k)"
    using ppr by (simp add: pos_divide_le_eq)
  have "(of_nat k :: rat) * of_nat pp < of_nat n + of_nat pp"
    using lo by (metis of_nat_less_iff of_nat_mult of_nat_add)
  then have "((of_nat k :: rat) - 1) * of_nat pp < of_nat n"
    by (simp add: algebra_simps)
  then have b: "of_int (int k) - 1 < (of_nat n :: rat) / of_nat pp"
    using ppr by (simp add: pos_less_divide_eq)
  have "\<lceil>(of_nat n :: rat) / of_nat pp\<rceil> = int k"
    by (rule ceiling_unique[OF b a])
  then show ?thesis unfolding k_def by simp
qed

lemma sendPaginatedPlaylists_sendAll:
  "sendPaginatedPlaylists env items s =
     sendAll env playlistsResponse ''Sent playlists page''
       (map encode_PlaylistsResponsePayload (playlistsPages items)) s"
proof -
  have pp: "0 < playlistsPerPage" by (simp add: playlistsPerPage_def)
  have sl: "\<And>page. page \<in> set [0..<pageCount playlistsPerPage (length items)] \<Longrightarrow>
      arraySlice items (page * playlistsPerPage)
        (min (page * playlistsPerPage + playlistsPerPage) (length items))
      = Some (pageItems playlistsPerPage items page)"
    using arraySlice_page[OF pp] by simp
  show ?thesis
    unfolding sendPaginatedPlaylists_def playlistsPages_def Let_def map_map comp_def
      pageCount_def[symmetric]
    by (rule forIn_sendAll[where slice = "\<lambda>page. arraySlice items (page * playlistsPerPage)
        (min (page * playlistsPerPage + playlistsPerPage) (length items))", OF sl])
qed

lemma sendPaginatedSongs_sendAll:
  "sendPaginatedSongs env items ctx cid s =
     sendAll env songsResponse ''Sent songs page''
       (map encode_SongsResponsePayload (songsPages items ctx cid)) s"
proof -
  have pp: "0 < songsPerPage" by (simp add: songsPerPage_def)
  have sl: "\<And>page. page \<in> set [0..<pageCount songsPerPage (length items)] \<Longrightarrow>
      arraySlice items (page * songsPerPage)
        (min (page * songsPerPage + songsPerPage) (length items))
      = Some (pageItems songsPerPage items page)"
    using arraySlice_page[OF pp] by simp
  show ?thesis
    unfolding sendPaginatedSongs_def songsPages_def Let_def map_map comp_def
      pageCount_def[symmetric]
    by (rule forIn_sendAll[where slice = "\<lambda>page. arraySlice items (page * songsPerPage)
        (min (page * songsPerPage + songsPerPage) (length items))", OF sl])
qed

lemma playlistsPages_props:
  "int (length (playlistsPages items)) =
      (if items = [] then 1 else \<lceil>(of_nat (length items) :: rat) / 4\<rceil>)"
  "map playlists_totalPages (playlistsPages items) =
      replicate (length (playlistsPages items)) (length (playlistsPages items))"
  "map playlists_page (playlistsPages items) = [1..<length (playlistsPages items) + 1]"
  "concat (map playlists (playlistsPages items)) = items"
proof -
  have pp: "0 < playlistsPerPage" by (simp add: playlistsPerPage_def)
  have len: "length (playlistsPages items) = pageCount playlistsPerPage (length items)"
    by (simp add: playlistsPages_def)
  show "int (length (playlistsPages items)) =
      (if items = [] then 1 else \<lceil>(of_nat (length items) :: rat) / 4\<rceil>)"
  proof (cases "items = []")
    case True
    then show ?thesis by (simp add: playlistsPages_def pageCount_def playlistsPerPage_def)
  next
    case False
    then have "0 < length items" by simp
    from pageCount_ceiling[OF pp this] False show ?thesis
      by (simp add: len playlistsPerPage_def)
  qed
  show "map playlists_totalPages (playlistsPages items) =
      replicate (length (playlistsPages items)) (length (playlistsPages items))"
    unfolding len by (simp add: playlistsPages_def comp_def map_replicate_const)
  show "map playlists_page (playlistsPages items) = [1..<length (playlistsPages items) + 1]"
    unfolding len by (simp add: playlistsPages_def comp_def map_Suc_upt)
  show "concat (map playlists (playlistsPages items)) = items"
    using concat_pages[OF pp, of items] by (simp add: playlistsPages_def comp_def)
qed

lemma songsPages_props:
  "int (length (songsPages items ctx cid)) =
      (if items = [] then 1 else \<lceil>(of_nat (length items) :: rat) / 2\<rceil>)"
  "map songs_totalPages (songsPages items ctx cid) =
      replicate (length (songsPages items ctx cid)) (length (songsPages items ctx cid))"
  "map songs_page (songsPages items ctx cid) = [1..<length (songsPages items ctx cid) + 1]"
  "concat (map songs (songsPages items ctx cid)) = items"
proof -
  have pp: "0 < songsPerPage" by (simp add: songsPerPage_def)
  have len: "length (songsPages items ctx cid) = pageCount songsPerPage (length items)"
    by (simp add: songsPages_def)
  show "int (length (songsPages items ctx cid)) =
      (if items = [] then 1 else \<lceil>(of_nat (length items) :: rat) / 2\<rceil>)"
  proof (cases "items = []")
    case True
    then show ?thesis by (simp add: songsPages_def pageCount_def songsPerPage_def)
  next
    case False
    then have "0 < length items" by simp
    from pageCount_ceiling[OF pp this] False show ?thesis
      by (simp add: len songsPerPage_def)
  qed
  show "map songs_totalPages (songsPages items ctx cid) =
      replicate (length (songsPages items ctx cid)) (length (songsPages items ctx cid))"
    unfolding len by (simp add: songsPages_def comp_def map_replicate_const)
  show "map songs_page (songsPages items ctx cid) = [1..<length (songsPages items ctx cid) + 1]"
    unfolding len by (simp add: songsPages_def comp_def map_Suc_upt)
  show "concat (map songs (songsPages items ctx cid)) = items"
    using concat_pages[OF pp, of items] by (simp add: songsPages_def comp_def)
qed


section \<open>Sending within the size limit\<close>

lemma sendMessage_unbound:
  "\<not> txCharacteristic s \<Longrightarrow>
   sendMessage env msg s =
     Some (logger logWarning ''Cannot send message: missing characteristic or peripheral'' s)"
  by (subst sendMessage.simps) simp

lemma sendMessage_fits:
  "txCharacteristic s \<Longrightarrow> fits env msg \<Longrightarrow>
   sendMessage env msg s = Some (logger logDebug ''Sent message'' (s\<lparr>written := written s @ [msg]\<rparr>))"
  by (subst sendMessage.simps) (auto simp: fits_def split: option.splits)

lemma sendMessage_too_large:
  "txCharacteristic s \<Longrightarrow> toData env msg = Some data \<Longrightarrow> maxMessageSize < count env data \<Longrightarrow>
   sendMessage env msg s =
     sendError env ''MESSAGE_TOO_LARGE'' ''Message exceeds max size''
       (logger logError ''Message too large'' s)"
  by (subst sendMessage.simps) (simp add: sendError_def)

lemma logger_simps [simp]:
  "written (logger l t s) = written s"
  "playerCalls (logger l t s) = playerCalls s"
  "txCharacteristic (logger l t s) = txCharacteristic s"
  "rxCharacteristic (logger l t s) = rxCharacteristic s"
  "storage (logger l t s) = storage s"
  "player (logger l t s) = player s"
  "currentSongId (logger l t s) = currentSongId s"
  "progressTimer (logger l t s) = progressTimer s"
  "clock (logger l t s) = clock s"
  "logs (logger l t s) = logs s @ [(l, t)]"
  by (simp_all add: logger_def)

lemma Date_read_simps [simp]:
  "written (Date_read s) = written s"
  "playerCalls (Date_read s) = playerCalls s"
  "txCharacteristic (Date_read s) = txCharacteristic s"
  "rxCharacteristic (Date_read s) = rxCharacteristic s"
  "storage (Date_read s) = storage s"
  "player (Date_read s) = player s"
  "currentSongId (Date_read s) = currentSongId s"
  "progressTimer (Date_read s) = progressTimer s"
  "clock (Date_read s) = Suc (clock s)"
  "logs (Date_read s) = logs s"
  by (simp_all add: Date_read_def)

lemma frame_refl: "frame env s s"
  by (simp add: frame_def)

lemma frame_trans: "frame env s s1 \<Longrightarrow> frame env s1 s2 \<Longrightarrow> frame env s s2"
  by (auto simp: frame_def)

lemma frame_logger_l: "frame env (logger l t s) s' \<longleftrightarrow> frame env s s'"
  by (simp add: frame_def)

lemma frame_Date_read_l: "frame env (Date_read s) s' \<longleftrightarrow> frame env s s'"
  by (simp add: frame_def)

lemma sendMessage_frame:
  assumes "sendMessage env msg s = Some s'"
  shows "frame env s s'"
proof (rule sendMessage.raw_induct[where P = "\<lambda>env msg s s'. frame env s s'", rotated 1, OF assms])
  fix sm :: "'a Env \<Rightarrow> 'a BluetoothMessage \<Rightarrow> 'a Service \<Rightarrow> 'a Service option"
    and env msg s s'
  assume IH: "\<And>msg s b y. sm msg s b = Some y \<Longrightarrow> frame msg b y"
    and step: "(if \<not> txCharacteristic s
      then Some (logger logWarning ''Cannot send message: missing characteristic or peripheral'' s)
      else case toData env msg of
           None \<Rightarrow> Some (logger logWarning ''Cannot send message: missing characteristic or peripheral'' s)
           | Some data \<Rightarrow>
               if maxMessageSize < count env data
               then sm env
                     (newMessage env error
                       (Some (encode_ErrorPayload
                           \<lparr>code = ''MESSAGE_TOO_LARGE'', message = ''Message exceeds max size''\<rparr>))
                       (logger logError ''Message too large'' s))
                     (Date_read (logger logError ''Message too large'' s))
               else Some (logger logDebug ''Sent message'' (s\<lparr>written := written s @ [msg]\<rparr>))) =
     Some s'"
  show "frame env s s'"
  proof (cases "txCharacteristic s")
    case False
    with step show ?thesis by (auto simp: frame_def)
  next
    case True
    show ?thesis
    proof (cases "toData env msg")
      case None
      with True step show ?thesis by (auto simp: frame_def)
    next
      case (Some data)
      show ?thesis
      proof (cases "maxMessageSize < count env data")
        case False
        with True Some step show ?thesis by (auto simp: frame_def fits_def)
      next
        case big: True
        with True Some step have
          "sm env (newMessage env error
                    (Some (encode_ErrorPayload
                       \<lparr>code = ''MESSAGE_TOO_LARGE'', message = ''Message exceeds max size''\<rparr>))
                    (logger logError ''Message too large'' s))
                 (Date_read (logger logError ''Message too large'' s)) = Some s'"
          by simp
        from IH[OF this] show ?thesis by (simp add: frame_Date_read_l frame_logger_l)
      qed
    qed
  qed
qed

lemma sendError_fits:
  "txCharacteristic s \<Longrightarrow> fits env (errorMessage_of env c t s) \<Longrightarrow>
   sendError env c t s =
     Some (logger logDebug ''Sent message''
            ((Date_read s)\<lparr>written := written s @ [errorMessage_of env c t s]\<rparr>))"
  unfolding sendError_def errorMessage_of_def[symmetric]
  by (subst sendMessage_fits) simp_all

text \<open>
  C7. An outbound envelope whose bytes exceed the 512-byte limit is caught before
  transmission: in its place \<open>sendMessage\<close> sends an error envelope with code
  \<open>MESSAGE_TOO_LARGE\<close> (written when it fits), and whatever a call of
  \<open>sendMessage\<close> writes, each written message fits the limit, is written whole, and
  is not the oversized one.
\<close>

theorem oversized_envelope_replaced:
  assumes "toData env msg = Some data" and "maxMessageSize < count env data"
  shows "(txCharacteristic s \<longrightarrow>
            sendMessage env msg s =
              sendError env ''MESSAGE_TOO_LARGE'' ''Message exceeds max size''
                (logger logError ''Message too large'' s))
       \<and> (txCharacteristic s \<and>
            fits env (errorMessage_of env ''MESSAGE_TOO_LARGE'' ''Message exceeds max size''
                        (logger logError ''Message too large'' s)) \<longrightarrow>
            (\<exists>s'. sendMessage env msg s = Some s' \<and>
                  written s' = written s @
                    [errorMessage_of env ''MESSAGE_TOO_LARGE'' ''Message exceeds max size''
                       (logger logError ''Message too large'' s)]))
       \<and> (\<forall>s'. sendMessage env msg s = Some s' \<longrightarrow>
            (\<exists>new. written s' = written s @ new \<and> list_all (fits env) new \<and> msg \<notin> set new))"
proof (intro conjI impI allI)
  assume tx: "txCharacteristic s"
  show "sendMessage env msg s =
          sendError env ''MESSAGE_TOO_LARGE'' ''Message exceeds max size''
            (logger logError ''Message too large'' s)"
    using tx assms by (rule sendMessage_too_large)
next
  let ?s1 = "logger logError ''Message too large'' s"
  let ?e = "errorMessage_of env ''MESSAGE_TOO_LARGE'' ''Message exceeds max size'' ?s1"
  assume a: "txCharacteristic s \<and> fits env ?e"
  then have "sendMessage env msg s = sendError env ''MESSAGE_TOO_LARGE'' ''Message exceeds max size'' ?s1"
    using assms by (simp add: sendMessage_too_large)
  also have "\<dots> = Some (logger logDebug ''Sent message''
            ((Date_read ?s1)\<lparr>written := written ?s1 @ [?e]\<rparr>))"
    using a by (intro sendError_fits) simp_all
  finally show "\<exists>s'. sendMessage env msg s = Some s' \<and> written s' = written s @ [?e]"
    by simp
next
  fix s'
  assume r: "sendMessage env msg s = Some s'"
  from sendMessage_frame[OF r] obtain new
    where new: "written s' = written s @ new" "list_all (fits env) new"
    by (auto simp: frame_def)
  have "\<not> fits env msg" using assms by (simp add: fits_def)
  with new(2) have "msg \<notin> set new" by (auto simp: list_all_iff)
  with new show "\<exists>new. written s' = written s @ new \<and> list_all (fits env) new \<and> msg \<notin> set new"
    by blast
qed

lemma oversizedMessage_toData:
  "toData echoEnv oversizedMessage =
     Some (JObject (fmupd ''payload''
        (encode_ErrorPayload \<lparr>code = ''PLAYLIST_NOT_FOUND'', message = replicate 600 CHR ''x''\<rparr>)
        (fmap_of_list [(''type'', JString ''ERROR''), (''timestamp'', JNumber 0)])))"
  by (simp add: toData_def oversizedMessage_def echoEnv_def)

theorem oversized_envelope_replaced_witness:
  "toData echoEnv oversizedMessage =
     Some (JObject (fmupd ''payload''
        (encode_ErrorPayload \<lparr>code = ''PLAYLIST_NOT_FOUND'', message = replicate 600 CHR ''x''\<rparr>)
        (fmap_of_list [(''type'', JString ''ERROR''), (''timestamp'', JNumber 0)])))
   \<and> maxMessageSize < count echoEnv (JObject (fmupd ''payload''
        (encode_ErrorPayload \<lparr>code = ''PLAYLIST_NOT_FOUND'', message = replicate 600 CHR ''x''\<rparr>)
        (fmap_of_list [(''type'', JString ''ERROR''), (''timestamp'', JNumber 0)])))
   \<and> txCharacteristic readyService
   \<and> fits echoEnv (errorMessage_of echoEnv ''MESSAGE_TOO_LARGE'' ''Message exceeds max size''
                        (logger logError ''Message too large'' readyService))
   \<and> (\<exists>s'. sendMessage echoEnv oversizedMessage readyService = Some s' \<and>
             written s' =
               [\<lparr>type = error, timestamp = 0,
                 payloadData = Some (encode_ErrorPayload
                   \<lparr>code = ''MESSAGE_TOO_LARGE'', message = ''Message exceeds max size''\<rparr>)\<rparr>])"
proof -
  have d: "toData echoEnv oversizedMessage =
     Some (JObject (fmupd ''payload''
        (encode_ErrorPayload \<lparr>code = ''PLAYLIST_NOT_FOUND'', message = replicate 600 CHR ''x''\<rparr>)
        (fmap_of_list [(''type'', JString ''ERROR''), (''timestamp'', JNumber 0)])))"
    by (rule oversizedMessage_toData)
  have big: "maxMessageSize < count echoEnv (JObject (fmupd ''payload''
        (encode_ErrorPayload \<lparr>code = ''PLAYLIST_NOT_FOUND'', message = replicate 600 CHR ''x''\<rparr>)
        (fmap_of_list [(''type'', JString ''ERROR''), (''timestamp'', JNumber 0)])))"
    by (simp add: echoEnv_def echoCount_def encode_ErrorPayload_def maxMessageSize_def)
  have tx: "txCharacteristic readyService" by (simp add: readyService_def)
  have e: "errorMessage_of echoEnv ''MESSAGE_TOO_LARGE'' ''Message exceeds max size''
                        (logger logError ''Message too large'' readyService)
           = \<lparr>type = error, timestamp = 0,
                 payloadData = Some (encode_ErrorPayload
                   \<lparr>code = ''MESSAGE_TOO_LARGE'', message = ''Message exceeds max size''\<rparr>)\<rparr>"
    by (simp add: errorMessage_of_def newMessage_def BluetoothMessage_init_def echoEnv_def
        readyService_def)
  have f: "fits echoEnv (errorMessage_of echoEnv ''MESSAGE_TOO_LARGE'' ''Message exceeds max size''
                        (logger logError ''Message too large'' readyService))"
    unfolding e
    by (simp add: fits_def toData_def echoEnv_def echoCount_def encode_ErrorPayload_def
        maxMessageSize_def)
  from oversized_envelope_replaced[OF d big, of readyService] tx f
  have "\<exists>s'. sendMessage echoEnv oversizedMessage readyService = Some s' \<and>
             written s' = written readyService @
               [errorMessage_of echoEnv ''MESSAGE_TOO_LARGE'' ''Message exceeds max size''
                        (logger logError ''Message too large'' readyService)]"
    by blast
  then have "\<exists>s'. sendMessage echoEnv oversizedMessage readyService = Some s' \<and>
             written s' =
               [\<lparr>type = error, timestamp = 0,
                 payloadData = Some (encode_ErrorPayload
                   \<lparr>code = ''MESSAGE_TOO_LARGE'', message = ''Message exceeds max size''\<rparr>)\<rparr>]"
    unfolding e by (simp add: readyService_def)
  with d big tx f show ?thesis by blast
qed

lemma sendMessage_replaced:
  assumes "txCharacteristic s" "toData env msg \<noteq> None" "\<not> fits env msg"
    and "fits env (errorMessage_of env ''MESSAGE_TOO_LARGE'' ''Message exceeds max size''
                    (logger logError ''Message too large'' s))"
  shows "sendMessage env msg s =
     Some (logger logDebug ''Sent message''
            ((Date_read (logger logError ''Message too large'' s))
               \<lparr>written := written s @
                  [errorMessage_of env ''MESSAGE_TOO_LARGE'' ''Message exceeds max size''
                     (logger logError ''Message too large'' s)]\<rparr>))"
proof -
  from assms(2) obtain d where d: "toData env msg = Some d" by auto
  with assms(3) have big: "maxMessageSize < count env d" by (simp add: fits_def)
  have tx1: "txCharacteristic (logger logError ''Message too large'' s)" using assms(1) by simp
  show ?thesis
    unfolding sendMessage_too_large[OF assms(1) d big]
    using sendError_fits[OF tx1 assms(4)] by simp
qed


lemma sendError_unbound:
  "\<not> txCharacteristic s \<Longrightarrow>
   \<exists>s'. sendError env c t s = Some s' \<and> written s' = written s \<and> playerCalls s' = playerCalls s"
  by (simp add: sendError_def sendMessage_unbound)


lemma sendMessage_written_types:
  assumes "sendMessage env msg s = Some s'"
  shows "\<exists>new. written s' = written s @ new \<and> list_all (\<lambda>x. x = msg \<or> type x = error) new"
proof (rule sendMessage.raw_induct[where P = "\<lambda>env msg s s'.
      \<exists>new. written s' = written s @ new \<and> list_all (\<lambda>x. x = msg \<or> type x = error) new",
      rotated 1, OF assms])
  fix sm :: "'a Env \<Rightarrow> 'a BluetoothMessage \<Rightarrow> 'a Service \<Rightarrow> 'a Service option"
    and env msg s s'
  assume IH: "\<And>e m t y. sm e m t = Some y \<Longrightarrow>
      \<exists>new. written y = written t @ new \<and> list_all (\<lambda>x. x = m \<or> type x = error) new"
    and step: "(if \<not> txCharacteristic s
      then Some (logger logWarning ''Cannot send message: missing characteristic or peripheral'' s)
      else case toData env msg of
           None \<Rightarrow> Some (logger logWarning ''Cannot send message: missing characteristic or peripheral'' s)
           | Some data \<Rightarrow>
               if maxMessageSize < count env data
               then sm env
                     (newMessage env error
                       (Some (encode_ErrorPayload
                           \<lparr>code = ''MESSAGE_TOO_LARGE'', message = ''Message exceeds max size''\<rparr>))
                       (logger logError ''Message too large'' s))
                     (Date_read (logger logError ''Message too large'' s))
               else Some (logger logDebug ''Sent message'' (s\<lparr>written := written s @ [msg]\<rparr>))) =
     Some s'"
  show "\<exists>new. written s' = written s @ new \<and> list_all (\<lambda>x. x = msg \<or> type x = error) new"
  proof (cases "txCharacteristic s")
    case False
    with step show ?thesis by auto
  next
    case True
    show ?thesis
    proof (cases "toData env msg")
      case None
      with True step show ?thesis by auto
    next
      case (Some data)
      show ?thesis
      proof (cases "maxMessageSize < count env data")
        case False
        with True Some step show ?thesis by auto
      next
        case big: True
        let ?e = "newMessage env error
                    (Some (encode_ErrorPayload
                       \<lparr>code = ''MESSAGE_TOO_LARGE'', message = ''Message exceeds max size''\<rparr>))
                    (logger logError ''Message too large'' s)"
        from big True Some step have
          "sm env ?e (Date_read (logger logError ''Message too large'' s)) = Some s'"
          by simp
        from IH[OF this] obtain new where new:
          "written s' = written s @ new" "list_all (\<lambda>x. x = ?e \<or> type x = error) new"
          by auto
        have "type ?e = error" by (simp add: newMessage_def BluetoothMessage_init_def)
        with new(2) have "list_all (\<lambda>x. x = msg \<or> type x = error) new"
          by (auto simp: list_all_iff)
        with new(1) show ?thesis by blast
      qed
    qed
  qed
qed

lemma sendError_only_errors:
  assumes "sendError env c t s = Some s'"
  shows "list_all (\<lambda>m. type m = error) (drop (length (written s)) (written s'))"
proof -
  let ?e = "newMessage env error (Some (encode_ErrorPayload \<lparr>code = c, message = t\<rparr>)) s"
  from assms have "sendMessage env ?e (Date_read s) = Some s'" by (simp add: sendError_def)
  from sendMessage_written_types[OF this] obtain new where new:
    "written s' = written s @ new" "list_all (\<lambda>x. x = ?e \<or> type x = error) new"
    by auto
  have "type ?e = error" by (simp add: newMessage_def BluetoothMessage_init_def)
  with new(2) have "list_all (\<lambda>x. type x = error) new" by (auto simp: list_all_iff)
  with new(1) show ?thesis by simp
qed

section \<open>Scoped queries and their pages\<close>

lemma errorMessage_of_eq:
  "errorMessage_of env c t s = errorEnvelope env c t (Date_now env (clock s))"
  by (simp add: errorMessage_of_def errorEnvelope_def newMessage_def BluetoothMessage_init_def)

lemma sendError_written:
  assumes "txCharacteristic s" "fits env (errorEnvelope env c t (Date_now env (clock s)))"
  shows "\<exists>s'. sendError env c t s = Some s'
           \<and> written s' = written s @ [errorEnvelope env c t (Date_now env (clock s))]
           \<and> playerCalls s' = playerCalls s
           \<and> logs s' = logs s @ [(logDebug, ''Sent message'')]"
  using assms sendError_fits[of s env c t] by (simp add: errorMessage_of_eq)

lemma sendAll_written:
  assumes "txCharacteristic s" "list_all (fits env) (messagesAt env ty ps (clock s))"
  shows "\<exists>s'. sendAll env ty line ps s = Some s'
           \<and> written s' = written s @ messagesAt env ty ps (clock s)
           \<and> playerCalls s' = playerCalls s
           \<and> txCharacteristic s'
           \<and> clock s' = clock s + length ps"
  using assms
proof (induction ps arbitrary: s)
  case Nil
  then show ?case by simp
next
  case (Cons p ps)
  let ?m = "newMessage env ty (Some p) s"
  have m: "?m = BluetoothMessage_init env ty (Some p) (Date_now env (clock s))"
    by (simp add: newMessage_def)
  from Cons.prems have f: "fits env ?m" by (simp add: m)
  let ?s1 = "logger logDebug ''Sent message'' ((Date_read s)\<lparr>written := written (Date_read s) @ [?m]\<rparr>)"
  have send: "sendMessage env ?m (Date_read s) = Some ?s1"
    using Cons.prems(1) f by (intro sendMessage_fits) simp_all
  let ?s2 = "logger logDebug line ?s1"
  have tx2: "txCharacteristic ?s2" using Cons.prems(1) by simp
  have c2: "clock ?s2 = Suc (clock s)" by simp
  have rest: "list_all (fits env) (messagesAt env ty ps (clock ?s2))"
    using Cons.prems(2) by (simp add: c2)
  from Cons.IH[OF tx2 rest] obtain s' where s':
    "sendAll env ty line ps ?s2 = Some s'"
    "written s' = written ?s2 @ messagesAt env ty ps (clock ?s2)"
    "playerCalls s' = playerCalls ?s2" "txCharacteristic s'" "clock s' = clock ?s2 + length ps"
    by blast
  have "sendAll env ty line (p # ps) s = Some s'"
    using send s'(1) by simp
  moreover have "written s' = written s @ messagesAt env ty (p # ps) (clock s)"
    using s'(2) by (simp add: m)
  moreover have "playerCalls s' = playerCalls s" using s'(3) by simp
  moreover have "clock s' = clock s + length (p # ps)" using s'(5) by simp
  ultimately show ?case using s'(4) by blast
qed

lemma messagesAt_type: "map type (messagesAt env ty ps n) = replicate (length ps) ty"
  by (induction ps arbitrary: n) (simp_all add: BluetoothMessage_init_def)

lemma messagesAt_payload:
  "map payloadData (messagesAt env ty ps n) = map (jsonData env) ps"
  by (induction ps arbitrary: n) (simp_all add: BluetoothMessage_init_def)

lemma songsPages_three:
  "songsPages [a, b, c] ctx cid =
     [\<lparr>songs = [a, b], songs_context = ctx, songs_contextId = cid, songs_page = 1, songs_totalPages = 2\<rparr>,
      \<lparr>songs = [c], songs_context = ctx, songs_contextId = cid, songs_page = 2, songs_totalPages = 2\<rparr>]"
  by (simp add: songsPages_def pageCount_def pageItems_def songsPerPage_def upt_rec)

lemma echo_fits_noMessage:
  "fmlookup p ''message'' = None \<Longrightarrow>
   fits echoEnv \<lparr>type = ty, timestamp = now, payloadData = Some (JObject p)\<rparr>"
  by (simp add: fits_def toData_def echoEnv_def echoCount_def maxMessageSize_def)

lemma songsPages_context:
  "map songs_context (songsPages items ctx cid) = replicate (length (songsPages items ctx cid)) ctx"
  "map songs_contextId (songsPages items ctx cid) = replicate (length (songsPages items ctx cid)) cid"
  by (simp_all add: songsPages_def comp_def map_replicate_const)

lemma encode_songs_context:
  "(case encode_SongsResponsePayload p of JObject obj \<Rightarrow> fmlookup obj ''context'' | _ \<Rightarrow> None)
     = map_option JString (songs_context p)"
  "(case encode_SongsResponsePayload p of JObject obj \<Rightarrow> fmlookup obj ''contextId'' | _ \<Rightarrow> None)
     = map_option JString (songs_contextId p)"
  by (cases "songs_context p"; cases "songs_contextId p";
      simp add: encode_SongsResponsePayload_def ifPresent_def)+

text \<open>
  C9, as the code has it. Every page of a scoped songs response carries the scope
  kind and the scope id it was given, the first page and each later page alike:
  in the payload struct and as the keys \<open>context\<close> and \<open>contextId\<close> of its JSON
  object.
\<close>

theorem scope_on_every_page:
  "sendPaginatedSongs env items ctx cid s =
     sendAll env songsResponse ''Sent songs page''
       (map encode_SongsResponsePayload (songsPages items ctx cid)) s
   \<and> map songs_context (songsPages items ctx cid) = replicate (length (songsPages items ctx cid)) ctx
   \<and> map songs_contextId (songsPages items ctx cid) = replicate (length (songsPages items ctx cid)) cid
   \<and> map (\<lambda>p. case encode_SongsResponsePayload p of
                  JObject obj \<Rightarrow> (fmlookup obj ''context'', fmlookup obj ''contextId'')
                | _ \<Rightarrow> (None, None))
        (songsPages items ctx cid)
      = replicate (length (songsPages items ctx cid)) (map_option JString ctx, map_option JString cid)"
proof -
  have "\<And>p. (case encode_SongsResponsePayload p of
                  JObject obj \<Rightarrow> (fmlookup obj ''context'', fmlookup obj ''contextId'')
                | _ \<Rightarrow> (None, None))
       = (map_option JString (songs_context p), map_option JString (songs_contextId p))"
    subgoal for p
      by (cases "songs_context p"; cases "songs_contextId p";
          simp add: encode_SongsResponsePayload_def ifPresent_def)
    done
  then have "map (\<lambda>p. case encode_SongsResponsePayload p of
                  JObject obj \<Rightarrow> (fmlookup obj ''context'', fmlookup obj ''contextId'')
                | _ \<Rightarrow> (None, None))
        (songsPages items ctx cid)
      = replicate (length (songsPages items ctx cid)) (map_option JString ctx, map_option JString cid)"
    by (simp add: songsPages_def comp_def map_replicate_const)
  with sendPaginatedSongs_sendAll[of env items ctx cid s] songsPages_context[of items ctx cid]
  show ?thesis by simp
qed

text \<open>
  C9 as stated fails: the three songs of playlist \<open>p1\<close> make two pages, and the
  second page carries the scope kind and id again.
\<close>

theorem scope_on_second_page_counterexample:
  "\<exists>s'. handleQueryPlaylistSongs echoEnv sampleLibrary ''p1'' readyService = Some s'
      \<and> map payloadData (written s') =
          [Some (encode_SongsResponsePayload
             \<lparr>songs = [createSongInfo song1, createSongInfo song2],
              songs_context = Some ''playlist'', songs_contextId = Some ''p1'',
              songs_page = 1, songs_totalPages = 2\<rparr>),
           Some (encode_SongsResponsePayload
             \<lparr>songs = [createSongInfo song9],
              songs_context = Some ''playlist'', songs_contextId = Some ''p1'',
              songs_page = 2, songs_totalPages = 2\<rparr>)]"
proof -
  let ?infos = "[createSongInfo song1, createSongInfo song2, createSongInfo song9]"
  let ?ps = "map encode_SongsResponsePayload (songsPages ?infos (Some ''playlist'') (Some ''p1''))"
  have found: "find (\<lambda>p. playlist_id p = ''p1'') (getAllPlaylists sampleLibrary True) = Some roadTrip"
    by (simp add: sampleLibrary_def recentlyPlayed_def roadTrip_def)
  have infos: "map createSongInfo (List.map_filter asSong (playlist_playables roadTrip)) = ?infos"
    by (simp add: roadTrip_def List.map_filter_simps)
  have tx: "txCharacteristic readyService" by (simp add: readyService_def)
  have fit: "list_all (fits echoEnv) (messagesAt echoEnv songsResponse ?ps (clock readyService))"
    by (simp add: songsPages_three BluetoothMessage_init_def echoEnv_def[THEN arg_cong, of jsonData]
        encode_SongsResponsePayload_def ifPresent_def echo_fits_noMessage)
  from sendAll_written[OF tx fit, of "''Sent songs page''"] obtain s1 where s1:
    "sendAll echoEnv songsResponse ''Sent songs page'' ?ps readyService = Some s1"
    "written s1 = written readyService @ messagesAt echoEnv songsResponse ?ps (clock readyService)"
    by blast
  have "handleQueryPlaylistSongs echoEnv sampleLibrary ''p1'' readyService
          = Some (logger logInfo ''Sent all songs from playlist'' s1)"
    using s1(1) by (simp add: handleQueryPlaylistSongs_def found infos sendPaginatedSongs_sendAll)
  moreover have "map payloadData (written s1) = map (jsonData echoEnv) ?ps"
    using s1(2) by (simp add: messagesAt_payload readyService_def)
  ultimately show ?thesis
    by (simp add: songsPages_three echoEnv_def)
qed

lemma playlistsPages_ids:
  "concat (map playlists (playlistsPages (map playlistInfoOf pls))) = map playlistInfoOf pls"
  by (rule playlistsPages_props(4))

lemma playlistInfoOf_id: "map playlistInfo_id (map playlistInfoOf pls) = map playlist_id pls"
  by (simp add: playlistInfoOf_def comp_def)

lemma messagesAt_all_type: "list_all (\<lambda>m. type m = ty) (messagesAt env ty ps n)"
  by (induction ps arbitrary: n) (simp_all add: BluetoothMessage_init_def)

text \<open>
  C10. The playlists listing asks the catalog without system playlists, the
  songs-of-playlist lookup with them. So for a playlist id that the catalog returns
  only with system playlists included, the songs query answers with the pages of
  that playlist's songs (messages of type \<open>songsResponse\<close>, no error envelope),
  while the id is on no page of the playlists response.
\<close>

theorem playlist_lookup_wider_than_listing:
  assumes "find (\<lambda>p. playlist_id p = pid) (getAllPlaylists st True) = Some playlist"
    and "pid \<notin> set (map playlist_id (getAllPlaylists st False))"
  shows "handleQueryPlaylists env st s =
           (case sendAll env playlistsResponse ''Sent playlists page''
                   (map encode_PlaylistsResponsePayload
                      (playlistsPages (map playlistInfoOf (getAllPlaylists st False)))) s of
              None \<Rightarrow> None
            | Some s1 \<Rightarrow> Some (logger logInfo ''Sent all playlists'' s1))
       \<and> pid \<notin> set (map playlistInfo_id
                   (concat (map playlists
                      (playlistsPages (map playlistInfoOf (getAllPlaylists st False))))))
       \<and> handleQueryPlaylistSongs env st pid s =
           (case sendAll env songsResponse ''Sent songs page''
                   (map encode_SongsResponsePayload
                      (songsPages
                         (map createSongInfo (List.map_filter asSong (playlist_playables playlist)))
                         (Some ''playlist'') (Some pid))) s of
              None \<Rightarrow> None
            | Some s1 \<Rightarrow> Some (logger logInfo ''Sent all songs from playlist'' s1))
       \<and> (txCharacteristic s \<and>
            list_all (fits env)
              (messagesAt env songsResponse
                 (map encode_SongsResponsePayload
                    (songsPages
                       (map createSongInfo (List.map_filter asSong (playlist_playables playlist)))
                       (Some ''playlist'') (Some pid)))
                 (clock s)) \<longrightarrow>
            (\<exists>s'. handleQueryPlaylistSongs env st pid s = Some s'
                \<and> written s' = written s @
                     messagesAt env songsResponse
                       (map encode_SongsResponsePayload
                          (songsPages
                             (map createSongInfo
                                (List.map_filter asSong (playlist_playables playlist)))
                             (Some ''playlist'') (Some pid)))
                       (clock s)
                \<and> list_all (\<lambda>m. type m = songsResponse) (drop (length (written s)) (written s'))))"
proof (intro conjI impI)
  show "handleQueryPlaylists env st s =
           (case sendAll env playlistsResponse ''Sent playlists page''
                   (map encode_PlaylistsResponsePayload
                      (playlistsPages (map playlistInfoOf (getAllPlaylists st False)))) s of
              None \<Rightarrow> None
            | Some s1 \<Rightarrow> Some (logger logInfo ''Sent all playlists'' s1))"
    by (simp add: handleQueryPlaylists_def sendPaginatedPlaylists_sendAll)
  show "pid \<notin> set (map playlistInfo_id
                   (concat (map playlists
                      (playlistsPages (map playlistInfoOf (getAllPlaylists st False))))))"
    using assms(2) unfolding playlistsPages_ids playlistInfoOf_id .
  let ?ps = "map encode_SongsResponsePayload
                      (songsPages
                         (map createSongInfo (List.map_filter asSong (playlist_playables playlist)))
                         (Some ''playlist'') (Some pid))"
  show eq: "handleQueryPlaylistSongs env st pid s =
           (case sendAll env songsResponse ''Sent songs page'' ?ps s of
              None \<Rightarrow> None
            | Some s1 \<Rightarrow> Some (logger logInfo ''Sent all songs from playlist'' s1))"
    by (simp add: handleQueryPlaylistSongs_def assms(1) sendPaginatedSongs_sendAll)
  assume a: "txCharacteristic s \<and> list_all (fits env) (messagesAt env songsResponse ?ps (clock s))"
  then obtain s1 where s1:
    "sendAll env songsResponse ''Sent songs page'' ?ps s = Some s1"
    "written s1 = written s @ messagesAt env songsResponse ?ps (clock s)"
    using sendAll_written[of s env songsResponse ?ps "''Sent songs page''"] by blast
  have ty: "list_all (\<lambda>m. type m = songsResponse) (messagesAt env songsResponse ?ps (clock s))"
    by (rule messagesAt_all_type)
  show "\<exists>s'. handleQueryPlaylistSongs env st pid s = Some s'
                \<and> written s' = written s @ messagesAt env songsResponse ?ps (clock s)
                \<and> list_all (\<lambda>m. type m = songsResponse) (drop (length (written s)) (written s'))"
    using s1 ty by (simp add: eq)
qed

text \<open>
  Such a catalog and id: the small catalog and its playlist \<open>sys1\<close>.
\<close>

theorem playlist_lookup_wider_than_listing_witness:
  "find (\<lambda>p. playlist_id p = ''sys1'') (getAllPlaylists sampleLibrary True) = Some recentlyPlayed
   \<and> ''sys1'' \<notin> set (map playlist_id (getAllPlaylists sampleLibrary False))
   \<and> ''sys1'' \<notin> set (map playlistInfo_id
         (concat (map playlists
            (playlistsPages (map playlistInfoOf (getAllPlaylists sampleLibrary False))))))
   \<and> (\<exists>s'. handleQueryPlaylistSongs echoEnv sampleLibrary ''sys1'' readyService = Some s'
         \<and> map type (written s') = [songsResponse]
         \<and> map payloadData (written s') =
             [Some (encode_SongsResponsePayload
                \<lparr>songs = [createSongInfo song2],
                 songs_context = Some ''playlist'', songs_contextId = Some ''sys1'',
                 songs_page = 1, songs_totalPages = 1\<rparr>)])"
proof -
  have found: "find (\<lambda>p. playlist_id p = ''sys1'') (getAllPlaylists sampleLibrary True)
                 = Some recentlyPlayed"
    by (simp add: sampleLibrary_def recentlyPlayed_def)
  have absent: "''sys1'' \<notin> set (map playlist_id (getAllPlaylists sampleLibrary False))"
    by (simp add: sampleLibrary_def roadTrip_def)
  have infos: "map createSongInfo (List.map_filter asSong (playlist_playables recentlyPlayed))
                 = [createSongInfo song2]"
    by (simp add: recentlyPlayed_def List.map_filter_simps)
  have pages: "songsPages [createSongInfo song2] (Some ''playlist'') (Some ''sys1'') =
      [\<lparr>songs = [createSongInfo song2],
        songs_context = Some ''playlist'', songs_contextId = Some ''sys1'',
        songs_page = 1, songs_totalPages = 1\<rparr>]"
    by (simp add: songsPages_def pageCount_def pageItems_def songsPerPage_def)
  have tx: "txCharacteristic readyService" by (simp add: readyService_def)
  have fit: "list_all (fits echoEnv)
      (messagesAt echoEnv songsResponse
         (map encode_SongsResponsePayload
            (songsPages
               (map createSongInfo (List.map_filter asSong (playlist_playables recentlyPlayed)))
               (Some ''playlist'') (Some ''sys1'')))
         (clock readyService))"
    unfolding infos pages
    by (simp add: BluetoothMessage_init_def echoEnv_def[THEN arg_cong, of jsonData]
        encode_SongsResponsePayload_def ifPresent_def echo_fits_noMessage)
  note inst = playlist_lookup_wider_than_listing[OF found absent, of echoEnv readyService]
  from inst have notin: "''sys1'' \<notin> set (map playlistInfo_id
         (concat (map playlists
            (playlistsPages (map playlistInfoOf (getAllPlaylists sampleLibrary False))))))"
    by (elim conjE)
  from inst have "txCharacteristic readyService \<and> list_all (fits echoEnv)
      (messagesAt echoEnv songsResponse
         (map encode_SongsResponsePayload
            (songsPages
               (map createSongInfo (List.map_filter asSong (playlist_playables recentlyPlayed)))
               (Some ''playlist'') (Some ''sys1'')))
         (clock readyService)) \<longrightarrow>
     (\<exists>s'. handleQueryPlaylistSongs echoEnv sampleLibrary ''sys1'' readyService = Some s'
        \<and> written s' = written readyService @
            messagesAt echoEnv songsResponse
              (map encode_SongsResponsePayload
                 (songsPages
                    (map createSongInfo (List.map_filter asSong (playlist_playables recentlyPlayed)))
                    (Some ''playlist'') (Some ''sys1'')))
              (clock readyService)
        \<and> list_all (\<lambda>m. type m = songsResponse)
             (drop (length (written readyService)) (written s')))"
    by (elim conjE)
  with tx fit obtain s' where s':
    "handleQueryPlaylistSongs echoEnv sampleLibrary ''sys1'' readyService = Some s'"
    "written s' = written readyService @
       messagesAt echoEnv songsResponse
         (map encode_SongsResponsePayload
            (songsPages
               (map createSongInfo (List.map_filter asSong (playlist_playables recentlyPlayed)))
               (Some ''playlist'') (Some ''sys1'')))
         (clock readyService)"
    by (elim impE exE conjE) (rule conjI)
  have w: "written s' =
     [BluetoothMessage_init echoEnv songsResponse
        (Some (encode_SongsResponsePayload
           \<lparr>songs = [createSongInfo song2],
            songs_context = Some ''playlist'', songs_contextId = Some ''sys1'',
            songs_page = 1, songs_totalPages = 1\<rparr>)) (Date_now echoEnv 0)]"
    using s'(2) unfolding infos pages by (simp add: readyService_def)
  have t: "map type (written s') = [songsResponse]"
    unfolding w by (simp add: BluetoothMessage_init_def)
  have p: "map payloadData (written s') =
             [Some (encode_SongsResponsePayload
                \<lparr>songs = [createSongInfo song2],
                 songs_context = Some ''playlist'', songs_contextId = Some ''sys1'',
                 songs_page = 1, songs_totalPages = 1\<rparr>)]"
    unfolding w by (simp add: BluetoothMessage_init_def echoEnv_def)
  show ?thesis
    by (intro conjI exI[of _ s']) (rule found absent notin s'(1) t p)+
qed

lemma find_None_iff_ids: "find (\<lambda>p. f p = x) xs = None \<longleftrightarrow> x \<notin> set (map f xs)"
  by (auto simp: find_None_iff)

lemma handleQuery_storage:
  "storage s = Some st \<Longrightarrow>
   handleQuery env msg s =
     (case type msg of
        queryPlaylists \<Rightarrow> handleQueryPlaylists env st (logger logInfo ''Handling query'' s)
      | queryArtists \<Rightarrow> handleQueryArtists env st (logger logInfo ''Handling query'' s)
      | queryAlbums \<Rightarrow> handleQueryAlbums env st (logger logInfo ''Handling query'' s)
      | querySongs \<Rightarrow> handleQuerySongs env st (logger logInfo ''Handling query'' s)
      | queryPlaylistSongs \<Rightarrow>
          (case decode_QueryPlaylistSongsPayload env msg of
             None \<Rightarrow> Some (logger logInfo ''Handling query'' s)
           | Some payload \<Rightarrow>
               handleQueryPlaylistSongs env st (playlistId payload) (logger logInfo ''Handling query'' s))
      | queryArtistSongs \<Rightarrow>
          (case decode_QueryArtistSongsPayload env msg of
             None \<Rightarrow> Some (logger logInfo ''Handling query'' s)
           | Some payload \<Rightarrow>
               handleQueryArtistSongs env st (artistId payload) (logger logInfo ''Handling query'' s))
      | queryAlbumSongs \<Rightarrow>
          (case decode_QueryAlbumSongsPayload env msg of
             None \<Rightarrow> Some (logger logInfo ''Handling query'' s)
           | Some payload \<Rightarrow>
               handleQueryAlbumSongs env st (albumId payload) (logger logInfo ''Handling query'' s))
      | playSong \<Rightarrow>
          (case decode_PlaySongPayload env msg of
             None \<Rightarrow> Some (logger logInfo ''Handling query'' s)
           | Some payload \<Rightarrow> handlePlaySong env st payload (logger logInfo ''Handling query'' s))
      | playPause \<Rightarrow> Some (handlePlayPause (logger logInfo ''Handling query'' s))
      | nextSong \<Rightarrow> Some (handleNextSong (logger logInfo ''Handling query'' s))
      | prevSong \<Rightarrow> Some (handlePrevSong (logger logInfo ''Handling query'' s))
      | _ \<Rightarrow> Some (logger logWarning ''Unhandled message type'' (logger logInfo ''Handling query'' s)))"
  by (simp add: handleQuery_def Let_def)

lemma sendError_replaced:
  assumes "txCharacteristic s"
    and "toData env (errorEnvelope env c t (Date_now env (clock s))) \<noteq> None"
    and "\<not> fits env (errorEnvelope env c t (Date_now env (clock s)))"
    and "fits env (errorEnvelope env ''MESSAGE_TOO_LARGE'' ''Message exceeds max size''
                    (Date_now env (Suc (clock s))))"
  shows "\<exists>s'. sendError env c t s = Some s'
           \<and> written s' = written s @
                [errorEnvelope env ''MESSAGE_TOO_LARGE'' ''Message exceeds max size''
                   (Date_now env (Suc (clock s)))]
           \<and> playerCalls s' = playerCalls s"
proof -
  have tx: "txCharacteristic (Date_read s)" using assms(1) by simp
  have m: "newMessage env error (Some (encode_ErrorPayload \<lparr>code = c, message = t\<rparr>)) s =
             errorEnvelope env c t (Date_now env (clock s))"
    using errorMessage_of_eq[of env c t s] by (simp add: errorMessage_of_def)
  have e: "fits env (errorMessage_of env ''MESSAGE_TOO_LARGE'' ''Message exceeds max size''
                    (logger logError ''Message too large'' (Date_read s)))"
    using assms(4) by (simp add: errorMessage_of_eq)
  show ?thesis
    unfolding sendError_def m
    by (simp add: sendMessage_replaced[OF tx assms(2) assms(3) e] errorMessage_of_eq)
qed

text \<open>
  C8, as the code has it. With the catalog bound, a scoped songs query (playlist,
  artist or album) whose id the catalog does not have is never answered with a page:
  every envelope the dispatcher writes for it is an error envelope. With the link
  ready it writes exactly one: the error with the code of that scope
  (\<open>PLAYLIST_NOT_FOUND\<close>, \<open>ARTIST_NOT_FOUND\<close>, \<open>ALBUM_NOT_FOUND\<close>) when that
  envelope, whose text quotes the id, is within the size limit, and the error
  \<open>MESSAGE_TOO_LARGE\<close> in its place when it is over the limit. With the link not
  ready it writes nothing.
\<close>

theorem scoped_query_not_found:
  assumes "storage s = Some st"
  shows "(type msg = queryPlaylistSongs
            \<and> decode_QueryPlaylistSongsPayload env msg = Some \<lparr>playlistId = x\<rparr>
            \<and> x \<notin> set (map playlist_id (getAllPlaylists st True)) \<longrightarrow>
          (\<forall>s'. handleQuery env msg s = Some s' \<longrightarrow>
              list_all (\<lambda>m. type m = error) (drop (length (written s)) (written s')))
          \<and> (txCharacteristic s
              \<and> fits env (errorEnvelope env ''PLAYLIST_NOT_FOUND''
                   (''Playlist with ID '' @ x @ '' not found'') (Date_now env (clock s))) \<longrightarrow>
            (\<exists>s'. handleQuery env msg s = Some s'
                \<and> written s' = written s @
                     [errorEnvelope env ''PLAYLIST_NOT_FOUND''
                      (''Playlist with ID '' @ x @ '' not found'') (Date_now env (clock s))]))
          \<and> (txCharacteristic s
              \<and> toData env (errorEnvelope env ''PLAYLIST_NOT_FOUND''
                   (''Playlist with ID '' @ x @ '' not found'') (Date_now env (clock s))) \<noteq> None
              \<and> \<not> fits env (errorEnvelope env ''PLAYLIST_NOT_FOUND''
                   (''Playlist with ID '' @ x @ '' not found'') (Date_now env (clock s)))
              \<and> fits env (errorEnvelope env ''MESSAGE_TOO_LARGE'' ''Message exceeds max size''
                   (Date_now env (Suc (clock s)))) \<longrightarrow>
            (\<exists>s'. handleQuery env msg s = Some s'
                \<and> written s' = written s @
                     [errorEnvelope env ''MESSAGE_TOO_LARGE'' ''Message exceeds max size''
                      (Date_now env (Suc (clock s)))]))
          \<and> (\<not> txCharacteristic s \<longrightarrow>
            (\<exists>s'. handleQuery env msg s = Some s' \<and> written s' = written s)))
       \<and> (type msg = queryArtistSongs
            \<and> decode_QueryArtistSongsPayload env msg = Some \<lparr>artistId = x\<rparr>
            \<and> x \<notin> set (map artist_id (getAllArtists st)) \<longrightarrow>
          (\<forall>s'. handleQuery env msg s = Some s' \<longrightarrow>
              list_all (\<lambda>m. type m = error) (drop (length (written s)) (written s')))
          \<and> (txCharacteristic s
              \<and> fits env (errorEnvelope env ''ARTIST_NOT_FOUND''
                   (''Artist with ID '' @ x @ '' not found'') (Date_now env (clock s))) \<longrightarrow>
            (\<exists>s'. handleQuery env msg s = Some s'
                \<and> written s' = written s @
                     [errorEnvelope env ''ARTIST_NOT_FOUND''
                      (''Artist with ID '' @ x @ '' not found'') (Date_now env (clock s))]))
          \<and> (txCharacteristic s
              \<and> toData env (errorEnvelope env ''ARTIST_NOT_FOUND''
                   (''Artist with ID '' @ x @ '' not found'') (Date_now env (clock s))) \<noteq> None
              \<and> \<not> fits env (errorEnvelope env ''ARTIST_NOT_FOUND''
                   (''Artist with ID '' @ x @ '' not found'') (Date_now env (clock s)))
              \<and> fits env (errorEnvelope env ''MESSAGE_TOO_LARGE'' ''Message exceeds max size''
                   (Date_now env (Suc (clock s)))) \<longrightarrow>
            (\<exists>s'. handleQuery env msg s = Some s'
                \<and> written s' = written s @
                     [errorEnvelope env ''MESSAGE_TOO_LARGE'' ''Message exceeds max size''
                      (Date_now env (Suc (clock s)))]))
          \<and> (\<not> txCharacteristic s \<longrightarrow>
            (\<exists>s'. handleQuery env msg s = Some s' \<and> written s' = written s)))
       \<and> (type msg = queryAlbumSongs
            \<and> decode_QueryAlbumSongsPayload env msg = Some \<lparr>albumId = x\<rparr>
            \<and> x \<notin> set (map album_id (getAllAlbums st)) \<longrightarrow>
          (\<forall>s'. handleQuery env msg s = Some s' \<longrightarrow>
              list_all (\<lambda>m. type m = error) (drop (length (written s)) (written s')))
          \<and> (txCharacteristic s
              \<and> fits env (errorEnvelope env ''ALBUM_NOT_FOUND''
                   (''Album with ID '' @ x @ '' not found'') (Date_now env (clock s))) \<longrightarrow>
            (\<exists>s'. handleQuery env msg s = Some s'
                \<and> written s' = written s @
                     [errorEnvelope env ''ALBUM_NOT_FOUND''
                      (''Album with ID '' @ x @ '' not found'') (Date_now env (clock s))]))
          \<and> (txCharacteristic s
              \<and> toData env (errorEnvelope env ''ALBUM_NOT_FOUND''
                   (''Album with ID '' @ x @ '' not found'') (Date_now env (clock s))) \<noteq> None
              \<and> \<not> fits env (errorEnvelope env ''ALBUM_NOT_FOUND''
                   (''Album with ID '' @ x @ '' not found'') (Date_now env (clock s)))
              \<and> fits env (errorEnvelope env ''MESSAGE_TOO_LARGE'' ''Message exceeds max size''
                   (Date_now env (Suc (clock s)))) \<longrightarrow>
            (\<exists>s'. handleQuery env msg s = Some s'
                \<and> written s' = written s @
                     [errorEnvelope env ''MESSAGE_TOO_LARGE'' ''Message exceeds max size''
                      (Date_now env (Suc (clock s)))]))
          \<and> (\<not> txCharacteristic s \<longrightarrow>
            (\<exists>s'. handleQuery env msg s = Some s' \<and> written s' = written s)))"
proof (intro conjI)
  let ?s = "logger logInfo ''Handling query'' s"
  show "type msg = queryPlaylistSongs
        \<and> decode_QueryPlaylistSongsPayload env msg = Some \<lparr>playlistId = x\<rparr>
        \<and> x \<notin> set (map playlist_id (getAllPlaylists st True)) \<longrightarrow>
      (\<forall>s'. handleQuery env msg s = Some s' \<longrightarrow>
          list_all (\<lambda>m. type m = error) (drop (length (written s)) (written s')))
      \<and> (txCharacteristic s
          \<and> fits env (errorEnvelope env ''PLAYLIST_NOT_FOUND''
               (''Playlist with ID '' @ x @ '' not found'') (Date_now env (clock s))) \<longrightarrow>
        (\<exists>s'. handleQuery env msg s = Some s'
            \<and> written s' = written s @
                 [errorEnvelope env ''PLAYLIST_NOT_FOUND''
                  (''Playlist with ID '' @ x @ '' not found'') (Date_now env (clock s))]))
      \<and> (txCharacteristic s
          \<and> toData env (errorEnvelope env ''PLAYLIST_NOT_FOUND''
               (''Playlist with ID '' @ x @ '' not found'') (Date_now env (clock s))) \<noteq> None
          \<and> \<not> fits env (errorEnvelope env ''PLAYLIST_NOT_FOUND''
               (''Playlist with ID '' @ x @ '' not found'') (Date_now env (clock s)))
          \<and> fits env (errorEnvelope env ''MESSAGE_TOO_LARGE'' ''Message exceeds max size''
               (Date_now env (Suc (clock s)))) \<longrightarrow>
        (\<exists>s'. handleQuery env msg s = Some s'
            \<and> written s' = written s @
                 [errorEnvelope env ''MESSAGE_TOO_LARGE'' ''Message exceeds max size''
                  (Date_now env (Suc (clock s)))]))
      \<and> (\<not> txCharacteristic s \<longrightarrow>
        (\<exists>s'. handleQuery env msg s = Some s' \<and> written s' = written s))"
  proof (rule impI)
    assume a: "type msg = queryPlaylistSongs
        \<and> decode_QueryPlaylistSongsPayload env msg = Some \<lparr>playlistId = x\<rparr>
        \<and> x \<notin> set (map playlist_id (getAllPlaylists st True))"
    then have nf: "find (\<lambda>p. playlist_id p = x) (getAllPlaylists st True) = None"
      by (simp add: find_None_iff_ids)
    have eq: "handleQuery env msg s = sendError env ''PLAYLIST_NOT_FOUND'' (''Playlist with ID '' @ x @ '' not found'') ?s"
      using a by (simp add: handleQuery_storage[OF assms] handleQueryPlaylistSongs_def nf)
    have only: "(\<forall>s'. handleQuery env msg s = Some s' \<longrightarrow>
          list_all (\<lambda>m. type m = error) (drop (length (written s)) (written s')))"
    proof (intro allI impI)
      fix s' assume "handleQuery env msg s = Some s'"
      with eq have "sendError env ''PLAYLIST_NOT_FOUND'' (''Playlist with ID '' @ x @ '' not found'') ?s = Some s'" by simp
      from sendError_only_errors[OF this]
      show "list_all (\<lambda>m. type m = error) (drop (length (written s)) (written s'))" by simp
    qed
    have sent: "(txCharacteristic s
          \<and> fits env (errorEnvelope env ''PLAYLIST_NOT_FOUND''
               (''Playlist with ID '' @ x @ '' not found'') (Date_now env (clock s))) \<longrightarrow>
        (\<exists>s'. handleQuery env msg s = Some s'
            \<and> written s' = written s @
                 [errorEnvelope env ''PLAYLIST_NOT_FOUND''
                  (''Playlist with ID '' @ x @ '' not found'') (Date_now env (clock s))]))"
    proof (rule impI)
      assume b: "txCharacteristic s
          \<and> fits env (errorEnvelope env ''PLAYLIST_NOT_FOUND''
               (''Playlist with ID '' @ x @ '' not found'') (Date_now env (clock s)))"
      then have tx: "txCharacteristic ?s"
        and f: "fits env (errorEnvelope env ''PLAYLIST_NOT_FOUND'' (''Playlist with ID '' @ x @ '' not found'') (Date_now env (clock ?s)))"
        by simp_all
      from sendError_written[OF tx f] eq
      show "\<exists>s'. handleQuery env msg s = Some s'
          \<and> written s' = written s @
               [errorEnvelope env ''PLAYLIST_NOT_FOUND''
                (''Playlist with ID '' @ x @ '' not found'') (Date_now env (clock s))]"
        by auto
    qed
    have replaced: "(txCharacteristic s
          \<and> toData env (errorEnvelope env ''PLAYLIST_NOT_FOUND''
               (''Playlist with ID '' @ x @ '' not found'') (Date_now env (clock s))) \<noteq> None
          \<and> \<not> fits env (errorEnvelope env ''PLAYLIST_NOT_FOUND''
               (''Playlist with ID '' @ x @ '' not found'') (Date_now env (clock s)))
          \<and> fits env (errorEnvelope env ''MESSAGE_TOO_LARGE'' ''Message exceeds max size''
               (Date_now env (Suc (clock s)))) \<longrightarrow>
        (\<exists>s'. handleQuery env msg s = Some s'
            \<and> written s' = written s @
                 [errorEnvelope env ''MESSAGE_TOO_LARGE'' ''Message exceeds max size''
                  (Date_now env (Suc (clock s)))]))"
    proof (rule impI)
      assume b: "txCharacteristic s
          \<and> toData env (errorEnvelope env ''PLAYLIST_NOT_FOUND''
               (''Playlist with ID '' @ x @ '' not found'') (Date_now env (clock s))) \<noteq> None
          \<and> \<not> fits env (errorEnvelope env ''PLAYLIST_NOT_FOUND''
               (''Playlist with ID '' @ x @ '' not found'') (Date_now env (clock s)))
          \<and> fits env (errorEnvelope env ''MESSAGE_TOO_LARGE'' ''Message exceeds max size''
               (Date_now env (Suc (clock s))))"
      then have tx: "txCharacteristic ?s"
        and d: "toData env (errorEnvelope env ''PLAYLIST_NOT_FOUND'' (''Playlist with ID '' @ x @ '' not found'') (Date_now env (clock ?s))) \<noteq> None"
        and big: "\<not> fits env (errorEnvelope env ''PLAYLIST_NOT_FOUND'' (''Playlist with ID '' @ x @ '' not found'') (Date_now env (clock ?s)))"
        and e: "fits env (errorEnvelope env ''MESSAGE_TOO_LARGE'' ''Message exceeds max size''
                  (Date_now env (Suc (clock ?s))))"
        by simp_all
      from sendError_replaced[OF tx d big e] eq
      show "\<exists>s'. handleQuery env msg s = Some s'
          \<and> written s' = written s @
               [errorEnvelope env ''MESSAGE_TOO_LARGE'' ''Message exceeds max size''
                (Date_now env (Suc (clock s)))]"
        by auto
    qed
    have dropped: "(\<not> txCharacteristic s \<longrightarrow>
        (\<exists>s'. handleQuery env msg s = Some s' \<and> written s' = written s))"
    proof (rule impI)
      assume "\<not> txCharacteristic s"
      then have "\<not> txCharacteristic ?s" by simp
      from sendError_unbound[OF this, of env "''PLAYLIST_NOT_FOUND''" "''Playlist with ID '' @ x @ '' not found''"] eq
      show "\<exists>s'. handleQuery env msg s = Some s' \<and> written s' = written s"
        by auto
    qed
    show "(\<forall>s'. handleQuery env msg s = Some s' \<longrightarrow>
          list_all (\<lambda>m. type m = error) (drop (length (written s)) (written s')))
      \<and> (txCharacteristic s
          \<and> fits env (errorEnvelope env ''PLAYLIST_NOT_FOUND''
               (''Playlist with ID '' @ x @ '' not found'') (Date_now env (clock s))) \<longrightarrow>
        (\<exists>s'. handleQuery env msg s = Some s'
            \<and> written s' = written s @
                 [errorEnvelope env ''PLAYLIST_NOT_FOUND''
                  (''Playlist with ID '' @ x @ '' not found'') (Date_now env (clock s))]))
      \<and> (txCharacteristic s
          \<and> toData env (errorEnvelope env ''PLAYLIST_NOT_FOUND''
               (''Playlist with ID '' @ x @ '' not found'') (Date_now env (clock s))) \<noteq> None
          \<and> \<not> fits env (errorEnvelope env ''PLAYLIST_NOT_FOUND''
               (''Playlist with ID '' @ x @ '' not found'') (Date_now env (clock s)))
          \<and> fits env (errorEnvelope env ''MESSAGE_TOO_LARGE'' ''Message exceeds max size''
               (Date_now env (Suc (clock s)))) \<longrightarrow>
        (\<exists>s'. handleQuery env msg s = Some s'
            \<and> written s' = written s @
                 [errorEnvelope env ''MESSAGE_TOO_LARGE'' ''Message exceeds max size''
                  (Date_now env (Suc (clock s)))]))
      \<and> (\<not> txCharacteristic s \<longrightarrow>
        (\<exists>s'. handleQuery env msg s = Some s' \<and> written s' = written s))"
      by (rule conjI[OF only conjI[OF sent conjI[OF replaced dropped]]])
  qed
  show "type msg = queryArtistSongs
        \<and> decode_QueryArtistSongsPayload env msg = Some \<lparr>artistId = x\<rparr>
        \<and> x \<notin> set (map artist_id (getAllArtists st)) \<longrightarrow>
      (\<forall>s'. handleQuery env msg s = Some s' \<longrightarrow>
          list_all (\<lambda>m. type m = error) (drop (length (written s)) (written s')))
      \<and> (txCharacteristic s
          \<and> fits env (errorEnvelope env ''ARTIST_NOT_FOUND''
               (''Artist with ID '' @ x @ '' not found'') (Date_now env (clock s))) \<longrightarrow>
        (\<exists>s'. handleQuery env msg s = Some s'
            \<and> written s' = written s @
                 [errorEnvelope env ''ARTIST_NOT_FOUND''
                  (''Artist with ID '' @ x @ '' not found'') (Date_now env (clock s))]))
      \<and> (txCharacteristic s
          \<and> toData env (errorEnvelope env ''ARTIST_NOT_FOUND''
               (''Artist with ID '' @ x @ '' not found'') (Date_now env (clock s))) \<noteq> None
          \<and> \<not> fits env (errorEnvelope env ''ARTIST_NOT_FOUND''
               (''Artist with ID '' @ x @ '' not found'') (Date_now env (clock s)))
          \<and> fits env (errorEnvelope env ''MESSAGE_TOO_LARGE'' ''Message exceeds max size''
               (Date_now env (Suc (clock s)))) \<longrightarrow>
        (\<exists>s'. handleQuery env msg s = Some s'
            \<and> written s' = written s @
                 [errorEnvelope env ''MESSAGE_TOO_LARGE'' ''Message exceeds max size''
                  (Date_now env (Suc (clock s)))]))
      \<and> (\<not> txCharacteristic s \<longrightarrow>
        (\<exists>s'. handleQuery env msg s = Some s' \<and> written s' = written s))"
  proof (rule impI)
    assume a: "type msg = queryArtistSongs
        \<and> decode_QueryArtistSongsPayload env msg = Some \<lparr>artistId = x\<rparr>
        \<and> x \<notin> set (map artist_id (getAllArtists st))"
    then have nf: "find (\<lambda>p. artist_id p = x) (getAllArtists st) = None"
      by (simp add: find_None_iff_ids)
    have eq: "handleQuery env msg s = sendError env ''ARTIST_NOT_FOUND'' (''Artist with ID '' @ x @ '' not found'') ?s"
      using a by (simp add: handleQuery_storage[OF assms] handleQueryArtistSongs_def nf)
    have only: "(\<forall>s'. handleQuery env msg s = Some s' \<longrightarrow>
          list_all (\<lambda>m. type m = error) (drop (length (written s)) (written s')))"
    proof (intro allI impI)
      fix s' assume "handleQuery env msg s = Some s'"
      with eq have "sendError env ''ARTIST_NOT_FOUND'' (''Artist with ID '' @ x @ '' not found'') ?s = Some s'" by simp
      from sendError_only_errors[OF this]
      show "list_all (\<lambda>m. type m = error) (drop (length (written s)) (written s'))" by simp
    qed
    have sent: "(txCharacteristic s
          \<and> fits env (errorEnvelope env ''ARTIST_NOT_FOUND''
               (''Artist with ID '' @ x @ '' not found'') (Date_now env (clock s))) \<longrightarrow>
        (\<exists>s'. handleQuery env msg s = Some s'
            \<and> written s' = written s @
                 [errorEnvelope env ''ARTIST_NOT_FOUND''
                  (''Artist with ID '' @ x @ '' not found'') (Date_now env (clock s))]))"
    proof (rule impI)
      assume b: "txCharacteristic s
          \<and> fits env (errorEnvelope env ''ARTIST_NOT_FOUND''
               (''Artist with ID '' @ x @ '' not found'') (Date_now env (clock s)))"
      then have tx: "txCharacteristic ?s"
        and f: "fits env (errorEnvelope env ''ARTIST_NOT_FOUND'' (''Artist with ID '' @ x @ '' not found'') (Date_now env (clock ?s)))"
        by simp_all
      from sendError_written[OF tx f] eq
      show "\<exists>s'. handleQuery env msg s = Some s'
          \<and> written s' = written s @
               [errorEnvelope env ''ARTIST_NOT_FOUND''
                (''Artist with ID '' @ x @ '' not found'') (Date_now env (clock s))]"
        by auto
    qed
    have replaced: "(txCharacteristic s
          \<and> toData env (errorEnvelope env ''ARTIST_NOT_FOUND''
               (''Artist with ID '' @ x @ '' not found'') (Date_now env (clock s))) \<noteq> None
          \<and> \<not> fits env (errorEnvelope env ''ARTIST_NOT_FOUND''
               (''Artist with ID '' @ x @ '' not found'') (Date_now env (clock s)))
          \<and> fits env (errorEnvelope env ''MESSAGE_TOO_LARGE'' ''Message exceeds max size''
               (Date_now env (Suc (clock s)))) \<longrightarrow>
        (\<exists>s'. handleQuery env msg s = Some s'
            \<and> written s' = written s @
                 [errorEnvelope env ''MESSAGE_TOO_LARGE'' ''Message exceeds max size''
                  (Date_now env (Suc (clock s)))]))"
    proof (rule impI)
      assume b: "txCharacteristic s
          \<and> toData env (errorEnvelope env ''ARTIST_NOT_FOUND''
               (''Artist with ID '' @ x @ '' not found'') (Date_now env (clock s))) \<noteq> None
          \<and> \<not> fits env (errorEnvelope env ''ARTIST_NOT_FOUND''
               (''Artist with ID '' @ x @ '' not found'') (Date_now env (clock s)))
          \<and> fits env (errorEnvelope env ''MESSAGE_TOO_LARGE'' ''Message exceeds max size''
               (Date_now env (Suc (clock s))))"
      then have tx: "txCharacteristic ?s"
        and d: "toData env (errorEnvelope env ''ARTIST_NOT_FOUND'' (''Artist with ID '' @ x @ '' not found'') (Date_now env (clock ?s))) \<noteq> None"
        and big: "\<not> fits env (errorEnvelope env ''ARTIST_NOT_FOUND'' (''Artist with ID '' @ x @ '' not found'') (Date_now env (clock ?s)))"
        and e: "fits env (errorEnvelope env ''MESSAGE_TOO_LARGE'' ''Message exceeds max size''
                  (Date_now env (Suc (clock ?s))))"
        by simp_all
      from sendError_replaced[OF tx d big e] eq
      show "\<exists>s'. handleQuery env msg s = Some s'
          \<and> written s' = written s @
               [errorEnvelope env ''MESSAGE_TOO_LARGE'' ''Message exceeds max size''
                (Date_now env (Suc (clock s)))]"
        by auto
    qed
    have dropped: "(\<not> txCharacteristic s \<longrightarrow>
        (\<exists>s'. handleQuery env msg s = Some s' \<and> written s' = written s))"
    proof (rule impI)
      assume "\<not> txCharacteristic s"
      then have "\<not> txCharacteristic ?s" by simp
      from sendError_unbound[OF this, of env "''ARTIST_NOT_FOUND''" "''Artist with ID '' @ x @ '' not found''"] eq
      show "\<exists>s'. handleQuery env msg s = Some s' \<and> written s' = written s"
        by auto
    qed
    show "(\<forall>s'. handleQuery env msg s = Some s' \<longrightarrow>
          list_all (\<lambda>m. type m = error) (drop (length (written s)) (written s')))
      \<and> (txCharacteristic s
          \<and> fits env (errorEnvelope env ''ARTIST_NOT_FOUND''
               (''Artist with ID '' @ x @ '' not found'') (Date_now env (clock s))) \<longrightarrow>
        (\<exists>s'. handleQuery env msg s = Some s'
            \<and> written s' = written s @
                 [errorEnvelope env ''ARTIST_NOT_FOUND''
                  (''Artist with ID '' @ x @ '' not found'') (Date_now env (clock s))]))
      \<and> (txCharacteristic s
          \<and> toData env (errorEnvelope env ''ARTIST_NOT_FOUND''
               (''Artist with ID '' @ x @ '' not found'') (Date_now env (clock s))) \<noteq> None
          \<and> \<not> fits env (errorEnvelope env ''ARTIST_NOT_FOUND''
               (''Artist with ID '' @ x @ '' not found'') (Date_now env (clock s)))
          \<and> fits env (errorEnvelope env ''MESSAGE_TOO_LARGE'' ''Message exceeds max size''
               (Date_now env (Suc (clock s)))) \<longrightarrow>
        (\<exists>s'. handleQuery env msg s = Some s'
            \<and> written s' = written s @
                 [errorEnvelope env ''MESSAGE_TOO_LARGE'' ''Message exceeds max size''
                  (Date_now env (Suc (clock s)))]))
      \<and> (\<not> txCharacteristic s \<longrightarrow>
        (\<exists>s'. handleQuery env msg s = Some s' \<and> written s' = written s))"
      by (rule conjI[OF only conjI[OF sent conjI[OF replaced dropped]]])
  qed
  show "type msg = queryAlbumSongs
        \<and> decode_QueryAlbumSongsPayload env msg = Some \<lparr>albumId = x\<rparr>
        \<and> x \<notin> set (map album_id (getAllAlbums st)) \<longrightarrow>
      (\<forall>s'. handleQuery env msg s = Some s' \<longrightarrow>
          list_all (\<lambda>m. type m = error) (drop (length (written s)) (written s')))
      \<and> (txCharacteristic s
          \<and> fits env (errorEnvelope env ''ALBUM_NOT_FOUND''
               (''Album with ID '' @ x @ '' not found'') (Date_now env (clock s))) \<longrightarrow>
        (\<exists>s'. handleQuery env msg s = Some s'
            \<and> written s' = written s @
                 [errorEnvelope env ''ALBUM_NOT_FOUND''
                  (''Album with ID '' @ x @ '' not found'') (Date_now env (clock s))]))
      \<and> (txCharacteristic s
          \<and> toData env (errorEnvelope env ''ALBUM_NOT_FOUND''
               (''Album with ID '' @ x @ '' not found'') (Date_now env (clock s))) \<noteq> None
          \<and> \<not> fits env (errorEnvelope env ''ALBUM_NOT_FOUND''
               (''Album with ID '' @ x @ '' not found'') (Date_now env (clock s)))
          \<and> fits env (errorEnvelope env ''MESSAGE_TOO_LARGE'' ''Message exceeds max size''
               (Date_now env (Suc (clock s)))) \<longrightarrow>
        (\<exists>s'. handleQuery env msg s = Some s'
            \<and> written s' = written s @
                 [errorEnvelope env ''MESSAGE_TOO_LARGE'' ''Message exceeds max size''
                  (Date_now env (Suc (clock s)))]))
      \<and> (\<not> txCharacteristic s \<longrightarrow>
        (\<exists>s'. handleQuery env msg s = Some s' \<and> written s' = written s))"
  proof (rule impI)
    assume a: "type msg = queryAlbumSongs
        \<and> decode_QueryAlbumSongsPayload env msg = Some \<lparr>albumId = x\<rparr>
        \<and> x \<notin> set (map album_id (getAllAlbums st))"
    then have nf: "find (\<lambda>p. album_id p = x) (getAllAlbums st) = None"
      by (simp add: find_None_iff_ids)
    have eq: "handleQuery env msg s = sendError env ''ALBUM_NOT_FOUND'' (''Album with ID '' @ x @ '' not found'') ?s"
      using a by (simp add: handleQuery_storage[OF assms] handleQueryAlbumSongs_def nf)
    have only: "(\<forall>s'. handleQuery env msg s = Some s' \<longrightarrow>
          list_all (\<lambda>m. type m = error) (drop (length (written s)) (written s')))"
    proof (intro allI impI)
      fix s' assume "handleQuery env msg s = Some s'"
      with eq have "sendError env ''ALBUM_NOT_FOUND'' (''Album with ID '' @ x @ '' not found'') ?s = Some s'" by simp
      from sendError_only_errors[OF this]
      show "list_all (\<lambda>m. type m = error) (drop (length (written s)) (written s'))" by simp
    qed
    have sent: "(txCharacteristic s
          \<and> fits env (errorEnvelope env ''ALBUM_NOT_FOUND''
               (''Album with ID '' @ x @ '' not found'') (Date_now env (clock s))) \<longrightarrow>
        (\<exists>s'. handleQuery env msg s = Some s'
            \<and> written s' = written s @
                 [errorEnvelope env ''ALBUM_NOT_FOUND''
                  (''Album with ID '' @ x @ '' not found'') (Date_now env (clock s))]))"
    proof (rule impI)
      assume b: "txCharacteristic s
          \<and> fits env (errorEnvelope env ''ALBUM_NOT_FOUND''
               (''Album with ID '' @ x @ '' not found'') (Date_now env (clock s)))"
      then have tx: "txCharacteristic ?s"
        and f: "fits env (errorEnvelope env ''ALBUM_NOT_FOUND'' (''Album with ID '' @ x @ '' not found'') (Date_now env (clock ?s)))"
        by simp_all
      from sendError_written[OF tx f] eq
      show "\<exists>s'. handleQuery env msg s = Some s'
          \<and> written s' = written s @
               [errorEnvelope env ''ALBUM_NOT_FOUND''
                (''Album with ID '' @ x @ '' not found'') (Date_now env (clock s))]"
        by auto
    qed
    have replaced: "(txCharacteristic s
          \<and> toData env (errorEnvelope env ''ALBUM_NOT_FOUND''
               (''Album with ID '' @ x @ '' not found'') (Date_now env (clock s))) \<noteq> None
          \<and> \<not> fits env (errorEnvelope env ''ALBUM_NOT_FOUND''
               (''Album with ID '' @ x @ '' not found'') (Date_now env (clock s)))
          \<and> fits env (errorEnvelope env ''MESSAGE_TOO_LARGE'' ''Message exceeds max size''
               (Date_now env (Suc (clock s)))) \<longrightarrow>
        (\<exists>s'. handleQuery env msg s = Some s'
            \<and> written s' = written s @
                 [errorEnvelope env ''MESSAGE_TOO_LARGE'' ''Message exceeds max size''
                  (Date_now env (Suc (clock s)))]))"
    proof (rule impI)
      assume b: "txCharacteristic s
          \<and> toData env (errorEnvelope env ''ALBUM_NOT_FOUND''
               (''Album with ID '' @ x @ '' not found'') (Date_now env (clock s))) \<noteq> None
          \<and> \<not> fits env (errorEnvelope env ''ALBUM_NOT_FOUND''
               (''Album with ID '' @ x @ '' not found'') (Date_now env (clock s)))
          \<and> fits env (errorEnvelope env ''MESSAGE_TOO_LARGE'' ''Message exceeds max size''
               (Date_now env (Suc (clock s))))"
      then have tx: "txCharacteristic ?s"
        and d: "toData env (errorEnvelope env ''ALBUM_NOT_FOUND'' (''Album with ID '' @ x @ '' not found'') (Date_now env (clock ?s))) \<noteq> None"
        and big: "\<not> fits env (errorEnvelope env ''ALBUM_NOT_FOUND'' (''Album with ID '' @ x @ '' not found'') (Date_now env (clock ?s)))"
        and e: "fits env (errorEnvelope env ''MESSAGE_TOO_LARGE'' ''Message exceeds max size''
                  (Date_now env (Suc (clock ?s))))"
        by simp_all
      from sendError_replaced[OF tx d big e] eq
      show "\<exists>s'. handleQuery env msg s = Some s'
          \<and> written s' = written s @
               [errorEnvelope env ''MESSAGE_TOO_LARGE'' ''Message exceeds max size''
                (Date_now env (Suc (clock s)))]"
        by auto
    qed
    have dropped: "(\<not> txCharacteristic s \<longrightarrow>
        (\<exists>s'. handleQuery env msg s = Some s' \<and> written s' = written s))"
    proof (rule impI)
      assume "\<not> txCharacteristic s"
      then have "\<not> txCharacteristic ?s" by simp
      from sendError_unbound[OF this, of env "''ALBUM_NOT_FOUND''" "''Album with ID '' @ x @ '' not found''"] eq
      show "\<exists>s'. handleQuery env msg s = Some s' \<and> written s' = written s"
        by auto
    qed
    show "(\<forall>s'. handleQuery env msg s = Some s' \<longrightarrow>
          list_all (\<lambda>m. type m = error) (drop (length (written s)) (written s')))
      \<and> (txCharacteristic s
          \<and> fits env (errorEnvelope env ''ALBUM_NOT_FOUND''
               (''Album with ID '' @ x @ '' not found'') (Date_now env (clock s))) \<longrightarrow>
        (\<exists>s'. handleQuery env msg s = Some s'
            \<and> written s' = written s @
                 [errorEnvelope env ''ALBUM_NOT_FOUND''
                  (''Album with ID '' @ x @ '' not found'') (Date_now env (clock s))]))
      \<and> (txCharacteristic s
          \<and> toData env (errorEnvelope env ''ALBUM_NOT_FOUND''
               (''Album with ID '' @ x @ '' not found'') (Date_now env (clock s))) \<noteq> None
          \<and> \<not> fits env (errorEnvelope env ''ALBUM_NOT_FOUND''
               (''Album with ID '' @ x @ '' not found'') (Date_now env (clock s)))
          \<and> fits env (errorEnvelope env ''MESSAGE_TOO_LARGE'' ''Message exceeds max size''
               (Date_now env (Suc (clock s)))) \<longrightarrow>
        (\<exists>s'. handleQuery env msg s = Some s'
            \<and> written s' = written s @
                 [errorEnvelope env ''MESSAGE_TOO_LARGE'' ''Message exceeds max size''
                  (Date_now env (Suc (clock s)))]))
      \<and> (\<not> txCharacteristic s \<longrightarrow>
        (\<exists>s'. handleQuery env msg s = Some s' \<and> written s' = written s))"
      by (rule conjI[OF only conjI[OF sent conjI[OF replaced dropped]]])
  qed
qed

lemma echo_fits_error:
  "length t \<le> 448 \<Longrightarrow> fits echoEnv (errorEnvelope echoEnv c t now)"
  by (simp add: fits_def toData_def errorEnvelope_def echoEnv_def echoCount_def
      encode_ErrorPayload_def maxMessageSize_def)

lemma long_id_query:
  "type (scopedQuery queryPlaylistSongs ''playlistId'' (replicate 430 CHR ''x'')) = queryPlaylistSongs"
  "decode_QueryPlaylistSongsPayload echoEnv
       (scopedQuery queryPlaylistSongs ''playlistId'' (replicate 430 CHR ''x''))
     = Some \<lparr>playlistId = replicate 430 CHR ''x''\<rparr>"
  "replicate 430 CHR ''x'' \<notin> set (map playlist_id (getAllPlaylists sampleLibrary True))"
  "toData echoEnv (errorEnvelope echoEnv ''PLAYLIST_NOT_FOUND''
      (''Playlist with ID '' @ replicate 430 CHR ''x'' @ '' not found'') now) \<noteq> None"
  "\<not> fits echoEnv (errorEnvelope echoEnv ''PLAYLIST_NOT_FOUND''
      (''Playlist with ID '' @ replicate 430 CHR ''x'' @ '' not found'') now)"
proof -
  let ?x = "replicate 430 CHR ''x''"
  show "type (scopedQuery queryPlaylistSongs ''playlistId'' ?x) = queryPlaylistSongs"
    by (simp add: scopedQuery_def)
  show "decode_QueryPlaylistSongsPayload echoEnv (scopedQuery queryPlaylistSongs ''playlistId'' ?x)
          = Some \<lparr>playlistId = ?x\<rparr>"
    by (simp add: decode_QueryPlaylistSongsPayload_def decodeObject_def requiredString_def
        scopedQuery_def echoEnv_def)
  have ne: "\<And>y. length y < 430 \<Longrightarrow> ?x \<noteq> y" by auto
  show "?x \<notin> set (map playlist_id (getAllPlaylists sampleLibrary True))"
    by (simp add: sampleLibrary_def roadTrip_def recentlyPlayed_def ne)
  show "toData echoEnv (errorEnvelope echoEnv ''PLAYLIST_NOT_FOUND''
          (''Playlist with ID '' @ ?x @ '' not found'') now) \<noteq> None"
    by (simp add: toData_def echoEnv_def Let_def)
  show "\<not> fits echoEnv (errorEnvelope echoEnv ''PLAYLIST_NOT_FOUND''
          (''Playlist with ID '' @ ?x @ '' not found'') now)"
    by (simp add: fits_def toData_def errorEnvelope_def echoEnv_def echoCount_def
        encode_ErrorPayload_def maxMessageSize_def)
qed

theorem scoped_query_not_found_witness:
  "storage libraryService = Some sampleLibrary \<and> txCharacteristic libraryService
   \<and> decode_QueryPlaylistSongsPayload echoEnv (scopedQuery queryPlaylistSongs ''playlistId'' ''p7'')
        = Some \<lparr>playlistId = ''p7''\<rparr>
   \<and> ''p7'' \<notin> set (map playlist_id (getAllPlaylists sampleLibrary True))
   \<and> fits echoEnv (errorEnvelope echoEnv ''PLAYLIST_NOT_FOUND''
          (''Playlist with ID '' @ ''p7'' @ '' not found'') (Date_now echoEnv (clock libraryService)))
   \<and> (\<exists>s'. handleQuery echoEnv (scopedQuery queryPlaylistSongs ''playlistId'' ''p7'') libraryService
               = Some s'
          \<and> written s' =
               [\<lparr>type = error, timestamp = 0,
                 payloadData = Some (encode_ErrorPayload
                    \<lparr>code = ''PLAYLIST_NOT_FOUND'', message = ''Playlist with ID p7 not found''\<rparr>)\<rparr>])
   \<and> decode_QueryArtistSongsPayload echoEnv (scopedQuery queryArtistSongs ''artistId'' ''ar-7'')
        = Some \<lparr>artistId = ''ar-7''\<rparr>
   \<and> ''ar-7'' \<notin> set (map artist_id (getAllArtists sampleLibrary))
   \<and> (\<exists>s'. handleQuery echoEnv (scopedQuery queryArtistSongs ''artistId'' ''ar-7'') libraryService
               = Some s'
          \<and> written s' =
               [\<lparr>type = error, timestamp = 0,
                 payloadData = Some (encode_ErrorPayload
                    \<lparr>code = ''ARTIST_NOT_FOUND'', message = ''Artist with ID ar-7 not found''\<rparr>)\<rparr>])
   \<and> decode_QueryAlbumSongsPayload echoEnv (scopedQuery queryAlbumSongs ''albumId'' ''al-7'')
        = Some \<lparr>albumId = ''al-7''\<rparr>
   \<and> ''al-7'' \<notin> set (map album_id (getAllAlbums sampleLibrary))
   \<and> (\<exists>s'. handleQuery echoEnv (scopedQuery queryAlbumSongs ''albumId'' ''al-7'') libraryService
               = Some s'
          \<and> written s' =
               [\<lparr>type = error, timestamp = 0,
                 payloadData = Some (encode_ErrorPayload
                    \<lparr>code = ''ALBUM_NOT_FOUND'', message = ''Album with ID al-7 not found''\<rparr>)\<rparr>])
   \<and> replicate 430 CHR ''x'' \<notin> set (map playlist_id (getAllPlaylists sampleLibrary True))
   \<and> \<not> fits echoEnv (errorEnvelope echoEnv ''PLAYLIST_NOT_FOUND''
          (''Playlist with ID '' @ replicate 430 CHR ''x'' @ '' not found'')
          (Date_now echoEnv (clock libraryService)))
   \<and> fits echoEnv (errorEnvelope echoEnv ''MESSAGE_TOO_LARGE'' ''Message exceeds max size''
          (Date_now echoEnv (Suc (clock libraryService))))
   \<and> (\<exists>s'. handleQuery echoEnv
               (scopedQuery queryPlaylistSongs ''playlistId'' (replicate 430 CHR ''x''))
               libraryService = Some s'
          \<and> written s' =
               [\<lparr>type = error, timestamp = 1,
                 payloadData = Some (encode_ErrorPayload
                    \<lparr>code = ''MESSAGE_TOO_LARGE'', message = ''Message exceeds max size''\<rparr>)\<rparr>])
   \<and> storage unboundService = Some sampleLibrary \<and> \<not> txCharacteristic unboundService
   \<and> (\<exists>s'. handleQuery echoEnv (scopedQuery queryPlaylistSongs ''playlistId'' ''p7'') unboundService
               = Some s'
          \<and> written s' = [])"
proof -
  have st: "storage libraryService = Some sampleLibrary"
    and tx: "txCharacteristic libraryService"
    and w0: "written libraryService = []"
    and c0: "Date_now echoEnv (clock libraryService) = 0"
    by (simp_all add: libraryService_def readyService_def echoEnv_def)
  note inst = scoped_query_not_found[OF st, where env = echoEnv]
  have d1: "decode_QueryPlaylistSongsPayload echoEnv
              (scopedQuery queryPlaylistSongs ''playlistId'' ''p7'') = Some \<lparr>playlistId = ''p7''\<rparr>"
    by (simp add: decode_QueryPlaylistSongsPayload_def decodeObject_def requiredString_def
        scopedQuery_def echoEnv_def)
  have d2: "decode_QueryArtistSongsPayload echoEnv
              (scopedQuery queryArtistSongs ''artistId'' ''ar-7'') = Some \<lparr>artistId = ''ar-7''\<rparr>"
    by (simp add: decode_QueryArtistSongsPayload_def decodeObject_def requiredString_def
        scopedQuery_def echoEnv_def)
  have d3: "decode_QueryAlbumSongsPayload echoEnv
              (scopedQuery queryAlbumSongs ''albumId'' ''al-7'') = Some \<lparr>albumId = ''al-7''\<rparr>"
    by (simp add: decode_QueryAlbumSongsPayload_def decodeObject_def requiredString_def
        scopedQuery_def echoEnv_def)
  have n1: "''p7'' \<notin> set (map playlist_id (getAllPlaylists sampleLibrary True))"
    by (simp add: sampleLibrary_def roadTrip_def recentlyPlayed_def)
  have n2: "''ar-7'' \<notin> set (map artist_id (getAllArtists sampleLibrary))"
    by (simp add: sampleLibrary_def)
  have n3: "''al-7'' \<notin> set (map album_id (getAllAlbums sampleLibrary))"
    by (simp add: sampleLibrary_def album3_def)
  have f1: "fits echoEnv (errorEnvelope echoEnv ''PLAYLIST_NOT_FOUND''
          (''Playlist with ID '' @ ''p7'' @ '' not found'') (Date_now echoEnv (clock libraryService)))"
    by (rule echo_fits_error) simp
  have f2: "fits echoEnv (errorEnvelope echoEnv ''ARTIST_NOT_FOUND''
          (''Artist with ID '' @ ''ar-7'' @ '' not found'') (Date_now echoEnv (clock libraryService)))"
    by (rule echo_fits_error) simp
  have f3: "fits echoEnv (errorEnvelope echoEnv ''ALBUM_NOT_FOUND''
          (''Album with ID '' @ ''al-7'' @ '' not found'') (Date_now echoEnv (clock libraryService)))"
    by (rule echo_fits_error) simp
  have t1: "type (scopedQuery queryPlaylistSongs ''playlistId'' ''p7'') = queryPlaylistSongs"
    and t2: "type (scopedQuery queryArtistSongs ''artistId'' ''ar-7'') = queryArtistSongs"
    and t3: "type (scopedQuery queryAlbumSongs ''albumId'' ''al-7'') = queryAlbumSongs"
    by (simp_all add: scopedQuery_def)
  have e1: "\<exists>s'. handleQuery echoEnv (scopedQuery queryPlaylistSongs ''playlistId'' ''p7'') libraryService
               = Some s'
          \<and> written s' = written libraryService @
               [errorEnvelope echoEnv ''PLAYLIST_NOT_FOUND''
                  (''Playlist with ID '' @ ''p7'' @ '' not found'') (Date_now echoEnv (clock libraryService))]"
    by (rule inst[of "scopedQuery queryPlaylistSongs ''playlistId'' ''p7''" "''p7''",
          THEN conjunct1, THEN mp, OF conjI[OF t1 conjI[OF d1 n1]],
          THEN conjunct2, THEN conjunct1, THEN mp, OF conjI[OF tx f1]])
  have e2: "\<exists>s'. handleQuery echoEnv (scopedQuery queryArtistSongs ''artistId'' ''ar-7'') libraryService
               = Some s'
          \<and> written s' = written libraryService @
               [errorEnvelope echoEnv ''ARTIST_NOT_FOUND''
                  (''Artist with ID '' @ ''ar-7'' @ '' not found'') (Date_now echoEnv (clock libraryService))]"
    by (rule inst[of "scopedQuery queryArtistSongs ''artistId'' ''ar-7''" "''ar-7''",
          THEN conjunct2, THEN conjunct1, THEN mp, OF conjI[OF t2 conjI[OF d2 n2]],
          THEN conjunct2, THEN conjunct1, THEN mp, OF conjI[OF tx f2]])
  have e3: "\<exists>s'. handleQuery echoEnv (scopedQuery queryAlbumSongs ''albumId'' ''al-7'') libraryService
               = Some s'
          \<and> written s' = written libraryService @
               [errorEnvelope echoEnv ''ALBUM_NOT_FOUND''
                  (''Album with ID '' @ ''al-7'' @ '' not found'') (Date_now echoEnv (clock libraryService))]"
    by (rule inst[of "scopedQuery queryAlbumSongs ''albumId'' ''al-7''" "''al-7''",
          THEN conjunct2, THEN conjunct2, THEN mp, OF conjI[OF t3 conjI[OF d3 n3]],
          THEN conjunct2, THEN conjunct1, THEN mp, OF conjI[OF tx f3]])
  have env1: "\<And>c t. errorEnvelope echoEnv c t 0 =
      \<lparr>type = error, timestamp = 0,
       payloadData = Some (encode_ErrorPayload \<lparr>code = c, message = t\<rparr>)\<rparr>"
    by (simp add: errorEnvelope_def echoEnv_def)
  have f4: "fits echoEnv (errorEnvelope echoEnv ''MESSAGE_TOO_LARGE'' ''Message exceeds max size''
          (Date_now echoEnv (Suc (clock libraryService))))"
    by (rule echo_fits_error) simp
  have e4: "\<exists>s'. handleQuery echoEnv
               (scopedQuery queryPlaylistSongs ''playlistId'' (replicate 430 CHR ''x''))
               libraryService = Some s'
          \<and> written s' = written libraryService @
               [errorEnvelope echoEnv ''MESSAGE_TOO_LARGE'' ''Message exceeds max size''
                  (Date_now echoEnv (Suc (clock libraryService)))]"
    by (rule inst[of "scopedQuery queryPlaylistSongs ''playlistId'' (replicate 430 CHR ''x'')"
            "replicate 430 CHR ''x''",
          THEN conjunct1, THEN mp, OF conjI[OF long_id_query(1) conjI[OF long_id_query(2,3)]],
          THEN conjunct2, THEN conjunct2, THEN conjunct1, THEN mp,
          OF conjI[OF tx conjI[OF long_id_query(4) conjI[OF long_id_query(5) f4]]]])
  have c1: "Date_now echoEnv (Suc (clock libraryService)) = 1"
    by (simp add: libraryService_def readyService_def echoEnv_def)
  have env2: "errorEnvelope echoEnv ''MESSAGE_TOO_LARGE'' ''Message exceeds max size'' 1 =
      \<lparr>type = error, timestamp = 1,
       payloadData = Some (encode_ErrorPayload
          \<lparr>code = ''MESSAGE_TOO_LARGE'', message = ''Message exceeds max size''\<rparr>)\<rparr>"
    by (simp add: errorEnvelope_def echoEnv_def)
  note g4 = long_id_query(5)[of "Date_now echoEnv (clock libraryService)"]
  from e4 have e4': "\<exists>s'. handleQuery echoEnv
               (scopedQuery queryPlaylistSongs ''playlistId'' (replicate 430 CHR ''x''))
               libraryService = Some s'
          \<and> written s' =
               [\<lparr>type = error, timestamp = 1,
                 payloadData = Some (encode_ErrorPayload
                    \<lparr>code = ''MESSAGE_TOO_LARGE'', message = ''Message exceeds max size''\<rparr>)\<rparr>]"
    unfolding w0 c1 env2 by simp
  from e1 have e1': "\<exists>s'. handleQuery echoEnv (scopedQuery queryPlaylistSongs ''playlistId'' ''p7'') libraryService
               = Some s'
          \<and> written s' =
               [\<lparr>type = error, timestamp = 0,
                 payloadData = Some (encode_ErrorPayload
                    \<lparr>code = ''PLAYLIST_NOT_FOUND'', message = ''Playlist with ID p7 not found''\<rparr>)\<rparr>]"
    unfolding w0 c0 env1 by simp
  from e2 have e2': "\<exists>s'. handleQuery echoEnv (scopedQuery queryArtistSongs ''artistId'' ''ar-7'') libraryService
               = Some s'
          \<and> written s' =
               [\<lparr>type = error, timestamp = 0,
                 payloadData = Some (encode_ErrorPayload
                    \<lparr>code = ''ARTIST_NOT_FOUND'', message = ''Artist with ID ar-7 not found''\<rparr>)\<rparr>]"
    unfolding w0 c0 env1 by simp
  from e3 have e3': "\<exists>s'. handleQuery echoEnv (scopedQuery queryAlbumSongs ''albumId'' ''al-7'') libraryService
               = Some s'
          \<and> written s' =
               [\<lparr>type = error, timestamp = 0,
                 payloadData = Some (encode_ErrorPayload
                    \<lparr>code = ''ALBUM_NOT_FOUND'', message = ''Album with ID al-7 not found''\<rparr>)\<rparr>]"
    unfolding w0 c0 env1 by simp
  have ust: "storage unboundService = Some sampleLibrary"
    and ntx: "\<not> txCharacteristic unboundService" and w1: "written unboundService = []"
    by (simp_all add: unboundService_def libraryService_def readyService_def)
  have e5: "\<exists>s'. handleQuery echoEnv (scopedQuery queryPlaylistSongs ''playlistId'' ''p7'') unboundService
               = Some s'
          \<and> written s' = []"
    using scoped_query_not_found[OF ust, where env = echoEnv,
        of "scopedQuery queryPlaylistSongs ''playlistId'' ''p7''" "''p7''",
        THEN conjunct1, THEN mp, OF conjI[OF t1 conjI[OF d1 n1]],
        THEN conjunct2, THEN conjunct2, THEN conjunct2, THEN mp, OF ntx]
    by (simp only: w1)
  show ?thesis
    by (intro conjI)
       (rule st tx d1 n1 f1 e1' d2 n2 e2' d3 n3 e3' long_id_query(3) g4 f4 e4' ust ntx e5)+
qed

text \<open>
  C8 as stated fails: a playlist id of 430 characters that the catalog does not have
  is answered with the error \<open>MESSAGE_TOO_LARGE\<close>, not \<open>PLAYLIST_NOT_FOUND\<close>. And
  when the characteristic for writing is not bound, the query for playlist \<open>p7\<close>,
  which the catalog does not have, is answered with nothing.
\<close>

theorem scoped_query_long_id_counterexample:
  "decode_QueryPlaylistSongsPayload echoEnv
       (scopedQuery queryPlaylistSongs ''playlistId'' (replicate 430 CHR ''x''))
     = Some \<lparr>playlistId = replicate 430 CHR ''x''\<rparr>
   \<and> replicate 430 CHR ''x'' \<notin> set (map playlist_id (getAllPlaylists sampleLibrary True))
   \<and> (\<exists>s'. handleQuery echoEnv
               (scopedQuery queryPlaylistSongs ''playlistId'' (replicate 430 CHR ''x''))
               libraryService = Some s'
         \<and> written s' =
              [\<lparr>type = error, timestamp = 1,
                payloadData = Some (encode_ErrorPayload
                   \<lparr>code = ''MESSAGE_TOO_LARGE'', message = ''Message exceeds max size''\<rparr>)\<rparr>])
   \<and> ''p7'' \<notin> set (map playlist_id (getAllPlaylists sampleLibrary True))
   \<and> \<not> txCharacteristic unboundService
   \<and> (\<exists>s'. handleQuery echoEnv (scopedQuery queryPlaylistSongs ''playlistId'' ''p7'') unboundService
               = Some s'
         \<and> written s' = [])"
proof -
  let ?x = "replicate 430 CHR ''x''"
  let ?q = "scopedQuery queryPlaylistSongs ''playlistId'' ?x"
  let ?s = "logger logInfo ''Handling query'' libraryService"
  have st: "storage libraryService = Some sampleLibrary"
    and tx: "txCharacteristic ?s" and w0: "written ?s = []" and c0: "clock ?s = 0"
    by (simp_all add: libraryService_def readyService_def)
  note d = long_id_query(2) and n = long_id_query(3)
  from n have nf: "find (\<lambda>p. playlist_id p = ?x) (getAllPlaylists sampleLibrary True) = None"
    by (simp add: find_None_iff_ids)
  note t = long_id_query(1)
  have eq: "handleQuery echoEnv ?q libraryService =
              sendError echoEnv ''PLAYLIST_NOT_FOUND'' (''Playlist with ID '' @ ?x @ '' not found'') ?s"
    by (simp add: handleQuery_storage[OF st] t d handleQueryPlaylistSongs_def nf)
  have some: "toData echoEnv (errorEnvelope echoEnv ''PLAYLIST_NOT_FOUND''
                (''Playlist with ID '' @ ?x @ '' not found'') (Date_now echoEnv (clock ?s))) \<noteq> None"
    by (rule long_id_query(4))
  have big: "\<not> fits echoEnv (errorEnvelope echoEnv ''PLAYLIST_NOT_FOUND''
                (''Playlist with ID '' @ ?x @ '' not found'') (Date_now echoEnv (clock ?s)))"
    by (rule long_id_query(5))
  have e: "fits echoEnv (errorEnvelope echoEnv ''MESSAGE_TOO_LARGE'' ''Message exceeds max size''
             (Date_now echoEnv (Suc (clock ?s))))"
    by (rule echo_fits_error) simp
  have env1: "errorEnvelope echoEnv ''MESSAGE_TOO_LARGE'' ''Message exceeds max size''
                (Date_now echoEnv (Suc (clock ?s))) =
      \<lparr>type = error, timestamp = 1,
       payloadData = Some (encode_ErrorPayload
          \<lparr>code = ''MESSAGE_TOO_LARGE'', message = ''Message exceeds max size''\<rparr>)\<rparr>"
    using c0 by (simp add: errorEnvelope_def echoEnv_def)
  from sendError_replaced[OF tx some big e]
  have "\<exists>s'. handleQuery echoEnv ?q libraryService = Some s'
         \<and> written s' =
              [\<lparr>type = error, timestamp = 1,
                payloadData = Some (encode_ErrorPayload
                   \<lparr>code = ''MESSAGE_TOO_LARGE'', message = ''Message exceeds max size''\<rparr>)\<rparr>]"
    unfolding eq env1 w0 by auto
  note over = this
  let ?q7 = "scopedQuery queryPlaylistSongs ''playlistId'' ''p7''"
  let ?u = "logger logInfo ''Handling query'' unboundService"
  have ust: "storage unboundService = Some sampleLibrary"
    and ntx: "\<not> txCharacteristic unboundService" and ntx': "\<not> txCharacteristic ?u"
    and w1: "written ?u = []"
    by (simp_all add: unboundService_def libraryService_def readyService_def)
  have n7: "''p7'' \<notin> set (map playlist_id (getAllPlaylists sampleLibrary True))"
    by (simp add: sampleLibrary_def roadTrip_def recentlyPlayed_def)
  then have nf7: "find (\<lambda>p. playlist_id p = ''p7'') (getAllPlaylists sampleLibrary True) = None"
    by (simp add: find_None_iff_ids)
  have d7: "decode_QueryPlaylistSongsPayload echoEnv ?q7 = Some \<lparr>playlistId = ''p7''\<rparr>"
    by (simp add: decode_QueryPlaylistSongsPayload_def decodeObject_def requiredString_def
        scopedQuery_def echoEnv_def)
  have t7: "type ?q7 = queryPlaylistSongs" by (simp add: scopedQuery_def)
  have eq7: "handleQuery echoEnv ?q7 unboundService =
              sendError echoEnv ''PLAYLIST_NOT_FOUND'' (''Playlist with ID '' @ ''p7'' @ '' not found'') ?u"
    by (simp add: handleQuery_storage[OF ust] t7 d7 handleQueryPlaylistSongs_def nf7)
  from sendError_unbound[OF ntx', of echoEnv "''PLAYLIST_NOT_FOUND''"
      "''Playlist with ID '' @ ''p7'' @ '' not found''"]
  have u: "\<exists>s'. handleQuery echoEnv ?q7 unboundService = Some s' \<and> written s' = []"
    unfolding eq7 w1 by auto
  from d n over n7 ntx u show ?thesis by (intro conjI)
qed

section \<open>Answers to the listing queries\<close>











section \<open>Decoding inbound frames\<close>

lemma MessageType_init_rawValue: "MessageType_init (rawValue t) = Some t"
  by (cases t) (simp_all add: MessageType_init_def allCases_def)

lemma MessageType_init_None: "t \<notin> range rawValue \<Longrightarrow> MessageType_init t = None"
  by (auto simp: MessageType_init_def find_None_iff)

lemma from_unknown_type:
  assumes "jsonObject env data = Some (JObject dict)"
    and "fmlookup dict ''type'' = Some (JString t)"
    and "t \<notin> range rawValue"
  shows "BluetoothMessage_from env data = None"
  using assms by (simp add: BluetoothMessage_from_def MessageType_init_None)

lemma handleReceivedData_undecodable:
  assumes "BluetoothMessage_from env data = None"
    and "txCharacteristic s"
    and "fits env (errorEnvelope env ''INVALID_MESSAGE'' ''Could not decode message''
                     (Date_now env (clock s)))"
  shows "\<exists>s'. handleReceivedData env data s = Some s'
           \<and> written s' = written s @
                [errorEnvelope env ''INVALID_MESSAGE'' ''Could not decode message''
                   (Date_now env (clock s))]
           \<and> playerCalls s' = playerCalls s
           \<and> (logError, ''Failed to decode received message'') \<in> set (logs s')"
proof -
  define s2 where "s2 =
     (let s0 = (case utf8String env data of
                 None \<Rightarrow> s
               | Some jsonString \<Rightarrow> logger logInfo ''Received raw data'' s);
          s1 = logger logError ''Failed to decode received message'' s0
      in case utf8String env data of
           None \<Rightarrow> s1
         | Some jsonString \<Rightarrow> logger logError ''Raw data was'' s1)"
  have eq: "handleReceivedData env data s =
          sendError env ''INVALID_MESSAGE'' ''Could not decode message'' s2"
    using assms(1) by (simp add: handleReceivedData_def s2_def Let_def)
  have tx: "txCharacteristic s2" and w: "written s2 = written s" and c: "clock s2 = clock s"
    and pc: "playerCalls s2 = playerCalls s"
    and lg: "(logError, ''Failed to decode received message'') \<in> set (logs s2)"
    using assms(2) by (auto simp: s2_def Let_def split: option.splits)
  have f: "fits env (errorEnvelope env ''INVALID_MESSAGE'' ''Could not decode message''
                     (Date_now env (clock s2)))"
    using assms(3) by (simp add: c)
  from sendError_written[OF tx f] obtain s' where
    "sendError env ''INVALID_MESSAGE'' ''Could not decode message'' s2 = Some s'"
    "written s' = written s2 @ [errorEnvelope env ''INVALID_MESSAGE'' ''Could not decode message''
                   (Date_now env (clock s2))]"
    "playerCalls s' = playerCalls s2"
    "logs s' = logs s2 @ [(logDebug, ''Sent message'')]"
    by (elim exE conjE)
  then show ?thesis using lg by (simp add: eq w c pc)
qed

text \<open>
  C3, as the code has it. An inbound frame whose type string is not in the
  vocabulary does not decode (\<open>MessageType(rawValue:)\<close> fails, so \<open>from\<close> returns
  \<open>nil\<close>). The dispatcher logs the failure, calls no handler and no player
  action, and answers with one error envelope with code \<open>INVALID_MESSAGE\<close>
  (written when the link is ready and the envelope fits).
\<close>

theorem unknown_type_answered_invalid_message:
  assumes "jsonObject env data = Some (JObject dict)"
    and "fmlookup dict ''type'' = Some (JString t)"
    and "t \<notin> range rawValue"
  shows "BluetoothMessage_from env data = None
       \<and> (txCharacteristic s
            \<and> fits env (errorEnvelope env ''INVALID_MESSAGE'' ''Could not decode message''
                          (Date_now env (clock s))) \<longrightarrow>
          (\<exists>s'. handleReceivedData env data s = Some s'
              \<and> written s' = written s @
                   [errorEnvelope env ''INVALID_MESSAGE'' ''Could not decode message''
                      (Date_now env (clock s))]
              \<and> playerCalls s' = playerCalls s
              \<and> (logError, ''Failed to decode received message'') \<in> set (logs s')))"
proof (intro conjI impI)
  show undec: "BluetoothMessage_from env data = None"
    using assms by (rule from_unknown_type)
  assume a: "txCharacteristic s
            \<and> fits env (errorEnvelope env ''INVALID_MESSAGE'' ''Could not decode message''
                          (Date_now env (clock s)))"
  show "\<exists>s'. handleReceivedData env data s = Some s'
              \<and> written s' = written s @
                   [errorEnvelope env ''INVALID_MESSAGE'' ''Could not decode message''
                      (Date_now env (clock s))]
              \<and> playerCalls s' = playerCalls s
              \<and> (logError, ''Failed to decode received message'') \<in> set (logs s')"
    using handleReceivedData_undecodable[OF undec] a by (elim conjE)
qed

lemma unknownFrame_facts:
  "jsonObject echoEnv unknownFrame =
     Some (JObject (fmap_of_list [(''type'', JString ''VOLUME_UP''), (''timestamp'', JNumber 1)]))"
  "fmlookup (fmap_of_list [(''type'', JString ''VOLUME_UP''), (''timestamp'', JNumber 1)]) ''type''
     = Some (JString ''VOLUME_UP'')"
  "''VOLUME_UP'' \<notin> range rawValue"
proof -
  show "jsonObject echoEnv unknownFrame =
     Some (JObject (fmap_of_list [(''type'', JString ''VOLUME_UP''), (''timestamp'', JNumber 1)]))"
    by (simp add: echoEnv_def unknownFrame_def)
  show "fmlookup (fmap_of_list [(''type'', JString ''VOLUME_UP''), (''timestamp'', JNumber 1)]) ''type''
     = Some (JString ''VOLUME_UP'')"
    by simp
  show "''VOLUME_UP'' \<notin> range rawValue"
  proof
    assume "''VOLUME_UP'' \<in> range rawValue"
    then obtain t where "rawValue t = ''VOLUME_UP''" by auto
    then show False by (cases t) simp_all
  qed
qed

lemma readyService_invalid_fits:
  "txCharacteristic readyService
   \<and> fits echoEnv (errorEnvelope echoEnv ''INVALID_MESSAGE'' ''Could not decode message''
                          (Date_now echoEnv (clock readyService)))"
  by (simp add: readyService_def echo_fits_error)

lemma errorEnvelope_echo:
  "errorEnvelope echoEnv c t (Date_now echoEnv (clock readyService)) =
      \<lparr>type = error, timestamp = 0,
       payloadData = Some (encode_ErrorPayload \<lparr>code = c, message = t\<rparr>)\<rparr>"
  by (simp add: errorEnvelope_def echoEnv_def readyService_def)

text \<open>
  The frame of type \<open>VOLUME_UP\<close> on a ready service.
\<close>

theorem unknown_type_answered_invalid_message_witness:
  "jsonObject echoEnv unknownFrame =
     Some (JObject (fmap_of_list [(''type'', JString ''VOLUME_UP''), (''timestamp'', JNumber 1)]))
   \<and> ''VOLUME_UP'' \<notin> range rawValue
   \<and> txCharacteristic readyService
   \<and> BluetoothMessage_from echoEnv unknownFrame = None
   \<and> (\<exists>s'. handleReceivedData echoEnv unknownFrame readyService = Some s'
         \<and> written s' =
              [\<lparr>type = error, timestamp = 0,
                payloadData = Some (encode_ErrorPayload
                  \<lparr>code = ''INVALID_MESSAGE'', message = ''Could not decode message''\<rparr>)\<rparr>]
         \<and> playerCalls s' = []
         \<and> (logError, ''Failed to decode received message'') \<in> set (logs s'))"
proof -
  note inst = unknown_type_answered_invalid_message[OF unknownFrame_facts, of readyService]
  from inst[THEN conjunct2, THEN mp, OF readyService_invalid_fits]
  have "\<exists>s'. handleReceivedData echoEnv unknownFrame readyService = Some s'
         \<and> written s' =
              [\<lparr>type = error, timestamp = 0,
                payloadData = Some (encode_ErrorPayload
                  \<lparr>code = ''INVALID_MESSAGE'', message = ''Could not decode message''\<rparr>)\<rparr>]
         \<and> playerCalls s' = []
         \<and> (logError, ''Failed to decode received message'') \<in> set (logs s')"
    unfolding errorEnvelope_echo by (simp add: readyService_def)
  with inst[THEN conjunct1] unknownFrame_facts(1,3) readyService_invalid_fits[THEN conjunct1]
  show ?thesis by (intro conjI)
qed

text \<open>
  C3 as stated fails: the frame of type \<open>VOLUME_UP\<close>, which is not in the
  vocabulary, is answered with an error envelope.
\<close>

theorem unknown_type_gets_error_counterexample:
  "MessageType_init ''VOLUME_UP'' = None
   \<and> (\<exists>s'. handleReceivedData echoEnv unknownFrame readyService = Some s'
         \<and> map type (written s') = [error]
         \<and> map payloadData (written s') =
              [Some (encode_ErrorPayload
                  \<lparr>code = ''INVALID_MESSAGE'', message = ''Could not decode message''\<rparr>)])"
proof -
  have undec: "BluetoothMessage_from echoEnv unknownFrame = None"
    using unknownFrame_facts by (rule from_unknown_type)
  from handleReceivedData_undecodable[OF undec readyService_invalid_fits[THEN conjunct1]
      readyService_invalid_fits[THEN conjunct2]]
  have "\<exists>s'. handleReceivedData echoEnv unknownFrame readyService = Some s'
         \<and> map type (written s') = [error]
         \<and> map payloadData (written s') =
              [Some (encode_ErrorPayload
                  \<lparr>code = ''INVALID_MESSAGE'', message = ''Could not decode message''\<rparr>)]"
    unfolding errorEnvelope_echo by (auto simp: readyService_def)
  moreover have "MessageType_init ''VOLUME_UP'' = None"
    by (simp add: MessageType_init_def allCases_def)
  ultimately show ?thesis by (intro conjI)
qed

lemma round_trip_general:
  assumes rb: "readsBack env"
    and pl: "payloadData e = None \<or> (\<exists>p pd. jsonData env p = Some pd \<and> payloadData e = Some pd)"
    and enc: "toData env e = Some d"
  shows "BluetoothMessage_from env d = Some e"
proof -
  define base where "base = fmap_of_list
            [(''type'', JString (rawValue (type e))),
             (''timestamp'', JNumber (timestamp e))]"
  from pl show ?thesis
  proof
    assume none: "payloadData e = None"
    with enc have "jsonData env (JObject base) = Some d"
      by (simp add: toData_def base_def)
    with rb have "jsonObject env d = Some (JObject base)" by (simp add: readsBack_def)
    then have "BluetoothMessage_from env d =
        Some \<lparr>type = type e, timestamp = timestamp e, payloadData = None\<rparr>"
      by (simp add: BluetoothMessage_from_def base_def MessageType_init_rawValue)
    with none show ?thesis by simp
  next
    assume "\<exists>p pd. jsonData env p = Some pd \<and> payloadData e = Some pd"
    then obtain p pd where p: "jsonData env p = Some pd" "payloadData e = Some pd" by blast
    with rb have rd: "jsonObject env pd = Some p" by (simp add: readsBack_def)
    with enc p have "jsonData env (JObject (fmupd ''payload'' p base)) = Some d"
      by (simp add: toData_def base_def)
    with rb have "jsonObject env d = Some (JObject (fmupd ''payload'' p base))"
      by (simp add: readsBack_def)
    then have "BluetoothMessage_from env d =
        Some \<lparr>type = type e, timestamp = timestamp e, payloadData = Some pd\<rparr>"
      by (simp add: BluetoothMessage_from_def base_def MessageType_init_rawValue p(1))
    with p(2) show ?thesis by simp
  qed
qed

lemma init_payload:
  "payloadData (BluetoothMessage_init env ty payload now) = None
   \<or> (\<exists>p pd. jsonData env p = Some pd
          \<and> payloadData (BluetoothMessage_init env ty payload now) = Some pd)"
  by (cases payload; cases "jsonData env (the payload)")
     (auto simp: BluetoothMessage_init_def)

lemma from_payload:
  assumes "BluetoothMessage_from env d0 = Some e"
  shows "payloadData e = None \<or> (\<exists>p pd. jsonData env p = Some pd \<and> payloadData e = Some pd)"
  using assms
  by (auto simp: BluetoothMessage_from_def
      split: option.splits json.splits)

text \<open>
  C4. When the JSON reader inverts the JSON writer, decoding the bytes of an
  encoded envelope gives the envelope back, with its type, timestamp and payload
  bytes: for every envelope built by \<open>init(type:payload:)\<close> (any type, any
  timestamp, any payload or none) and for every envelope that \<open>from\<close> itself
  returned. These are the envelopes a program can hold, the memberwise
  initializer being private.
\<close>

theorem envelope_round_trip:
  assumes "readsBack env"
  shows "(toData env (BluetoothMessage_init env ty payload now) = Some d \<longrightarrow>
            BluetoothMessage_from env d = Some (BluetoothMessage_init env ty payload now))
       \<and> (BluetoothMessage_from env d0 = Some e \<and> toData env e = Some d' \<longrightarrow>
            BluetoothMessage_from env d' = Some e)"
proof (intro conjI impI)
  assume "toData env (BluetoothMessage_init env ty payload now) = Some d"
  with assms init_payload[of env ty payload now]
  show "BluetoothMessage_from env d = Some (BluetoothMessage_init env ty payload now)"
    by (rule round_trip_general)
next
  assume a: "BluetoothMessage_from env d0 = Some e \<and> toData env e = Some d'"
  from a[THEN conjunct1]
  have "payloadData e = None \<or> (\<exists>p pd. jsonData env p = Some pd \<and> payloadData e = Some pd)"
    by (rule from_payload)
  with assms show "BluetoothMessage_from env d' = Some e"
    using a by (intro round_trip_general) simp_all
qed

lemma readsBack_echoEnv: "readsBack echoEnv"
  by (simp add: readsBack_def echoEnv_def)

text \<open>
  A \<open>songStopped\<close> envelope with its payload, and the \<open>playPause\<close> frame.
\<close>

theorem envelope_round_trip_witness:
  "readsBack echoEnv
   \<and> toData echoEnv stoppedEnvelope =
       Some (JObject (fmupd ''payload'' (JObject (fmap_of_list [(''songId'', JString ''s1'')]))
         (fmap_of_list
            [(''type'', JString ''SONG_STOPPED''), (''timestamp'', JNumber 1737302400)])))
   \<and> BluetoothMessage_from echoEnv (JObject (fmupd ''payload'' (JObject (fmap_of_list [(''songId'', JString ''s1'')]))
         (fmap_of_list
            [(''type'', JString ''SONG_STOPPED''), (''timestamp'', JNumber 1737302400)])))
       = Some stoppedEnvelope
   \<and> BluetoothMessage_from echoEnv playPauseFrame
       = Some \<lparr>type = playPause, timestamp = 5, payloadData = None\<rparr>
   \<and> toData echoEnv \<lparr>type = playPause, timestamp = 5, payloadData = None\<rparr> = Some playPauseFrame"
proof -
  let ?d = "JObject (fmupd ''payload'' (JObject (fmap_of_list [(''songId'', JString ''s1'')]))
         (fmap_of_list
            [(''type'', JString ''SONG_STOPPED''), (''timestamp'', JNumber 1737302400)]))"
  have enc: "toData echoEnv stoppedEnvelope = Some ?d"
    by (simp add: toData_def stoppedEnvelope_def BluetoothMessage_init_def echoEnv_def
        encode_SongStoppedPayload_def)
  note inst = envelope_round_trip[OF readsBack_echoEnv]
  have a: "BluetoothMessage_from echoEnv ?d = Some stoppedEnvelope"
    using inst[of songStopped "Some (encode_SongStoppedPayload \<lparr>stopped_songId = ''s1''\<rparr>)"
        1737302400 ?d, THEN conjunct1] enc
    unfolding stoppedEnvelope_def by (rule mp)
  have f: "BluetoothMessage_from echoEnv playPauseFrame
       = Some \<lparr>type = playPause, timestamp = 5, payloadData = None\<rparr>"
    by (simp add: BluetoothMessage_from_def playPauseFrame_def echoEnv_def
        MessageType_init_def allCases_def)
  have t: "toData echoEnv \<lparr>type = playPause, timestamp = 5, payloadData = None\<rparr>
             = Some playPauseFrame"
    by (simp add: toData_def playPauseFrame_def echoEnv_def)
  show ?thesis
    using readsBack_echoEnv enc a f t by (intro conjI)
qed

section \<open>Playing a song\<close>

lemma contextQueue_scopeList:
  "contextQueue st payload = (case scopeList st payload of Some qn \<Rightarrow> qn | None \<Rightarrow> ([], []))"
  by (auto simp: contextQueue_def scopeList_def split: option.splits)

lemma firstIndex_Some:
  "firstIndex P xs = Some i \<Longrightarrow> i < length xs \<and> P (xs ! i) \<and> (\<forall>j<i. \<not> P (xs ! j))"
proof (induction xs arbitrary: i)
  case Nil
  then show ?case by simp
next
  case (Cons x xs)
  show ?case
  proof (cases "P x")
    case True
    with Cons.prems show ?thesis by simp
  next
    case False
    with Cons.prems obtain k where k: "firstIndex P xs = Some k" "i = Suc k" by auto
    from Cons.IH[OF k(1)] False k(2) show ?thesis
      by (auto simp: less_Suc_eq_0_disj)
  qed
qed

lemma firstIndex_None_ids: "firstIndex (\<lambda>x. f x = v) xs = None \<longleftrightarrow> v \<notin> set (map f xs)"
  by (induction xs) auto

lemma sendError_keeps_player:
  "sendError env c t s = Some s' \<Longrightarrow> playerCalls s' = playerCalls s"
  unfolding sendError_def by (drule sendMessage_frame) (simp add: frame_def)

lemma handlePlaySong_play:
  assumes "player s = Some p" "fst (playQueue st payload) \<noteq> []"
  shows "\<exists>s'. handlePlaySong env st payload s = Some s'
          \<and> playerCalls s' = playerCalls s @
               [play \<lparr>playContext_name = snd (playQueue st payload),
                      playContext_index = playStartIndex payload (fst (playQueue st payload)),
                      playContext_playables = fst (playQueue st payload)\<rparr>]
          \<and> written s' = written s"
  using assms by (simp add: handlePlaySong_def Let_def)

lemma handlePlaySong_empty:
  assumes "player s = Some p" "fst (playQueue st payload) = []"
  shows "handlePlaySong env st payload s =
           sendError env ''SONG_NOT_FOUND'' ''Could not find song or context''
             (logger logError ''Could not find playables for song''
                (if unknownContext payload
                 then logger logWarning ''Unknown context type'' (logger logInfo ''Play song request'' s)
                 else logger logInfo ''Play song request'' s))"
  using assms by (simp add: handlePlaySong_def Let_def)

lemma playQueue_cases:
  "playQueue st payload =
     (case scopeList st payload of
        Some (q, n) \<Rightarrow>
          if q \<noteq> [] then (q, n)
          else (case find (\<lambda>sg. song_id sg = play_songId payload) (getAllSongs st) of
                  Some sg \<Rightarrow> ([ASong sg], song_title sg) | None \<Rightarrow> ([], n))
      | None \<Rightarrow>
          (case find (\<lambda>sg. song_id sg = play_songId payload) (getAllSongs st) of
             Some sg \<Rightarrow> ([ASong sg], song_title sg) | None \<Rightarrow> ([], [])))"
  by (auto simp: playQueue_def contextQueue_scopeList split: option.splits)

lemma playStartIndex_found:
  assumes "play_songId payload \<in> set (map playable_id q)"
  shows "0 \<le> playStartIndex payload q \<and> nat (playStartIndex payload q) < length q
       \<and> playable_id (q ! nat (playStartIndex payload q)) = play_songId payload
       \<and> (\<forall>j<nat (playStartIndex payload q). playable_id (q ! j) \<noteq> play_songId payload)"
proof -
  from assms have "firstIndex (\<lambda>x. playable_id x = play_songId payload) q \<noteq> None"
    by (simp add: firstIndex_None_ids)
  then obtain i where i: "firstIndex (\<lambda>x. playable_id x = play_songId payload) q = Some i"
    by auto
  from firstIndex_Some[OF i] i show ?thesis by (simp add: playStartIndex_def)
qed

lemma playStartIndex_fallback:
  assumes "play_songId payload \<notin> set (map playable_id q)"
  shows "playStartIndex payload q =
           (case play_songIndex payload of Some k \<Rightarrow> min k (int (length q) - 1) | None \<Rightarrow> 0)"
proof -
  from assms have "firstIndex (\<lambda>x. playable_id x = play_songId payload) q = None"
    by (simp add: firstIndex_None_ids)
  then show ?thesis by (simp add: playStartIndex_def)
qed

text \<open>
  C2, as the code has it, for a \<open>playSong\<close> command with a player bound. The
  candidate list is the list of the scope when the payload names a scope that the
  catalog has and whose list is not empty; otherwise it is the one song with the
  requested id, looked up in the full catalog. With no candidate the handler
  answers with the error \<open>SONG_NOT_FOUND\<close> and calls nothing on the player.
  Otherwise it calls \<open>play\<close> once, with the candidate list, starting at the
  first position that holds the requested id (no earlier position holds it); when
  the list does not hold the id,
  at the caller's index bounded by the last position (for an index that is not
  negative), and at 0 when the caller gave none.
\<close>

theorem play_song_resolution:
  assumes "player s = Some p"
  shows
   "(scopeList st payload = Some (q, n) \<and> q \<noteq> [] \<longrightarrow>
       (\<exists>s'. handlePlaySong env st payload s = Some s'
           \<and> playerCalls s' = playerCalls s @
                [play \<lparr>playContext_name = n,
                       playContext_index = playStartIndex payload q,
                       playContext_playables = q\<rparr>]
           \<and> written s' = written s))
  \<and> ((scopeList st payload = None \<or> (\<exists>m. scopeList st payload = Some ([], m)))
       \<and> find (\<lambda>sg. song_id sg = play_songId payload) (getAllSongs st) = Some song \<longrightarrow>
       (\<exists>s'. handlePlaySong env st payload s = Some s'
           \<and> playerCalls s' = playerCalls s @
                [play \<lparr>playContext_name = song_title song,
                       playContext_index = 0,
                       playContext_playables = [ASong song]\<rparr>]
           \<and> written s' = written s))
  \<and> ((scopeList st payload = None \<or> (\<exists>m. scopeList st payload = Some ([], m)))
       \<and> play_songId payload \<notin> set (map song_id (getAllSongs st)) \<longrightarrow>
       (\<forall>s'. handlePlaySong env st payload s = Some s' \<longrightarrow> playerCalls s' = playerCalls s)
       \<and> (txCharacteristic s
            \<and> fits env (errorEnvelope env ''SONG_NOT_FOUND'' ''Could not find song or context''
                 (Date_now env (clock s))) \<longrightarrow>
            (\<exists>s'. handlePlaySong env st payload s = Some s'
                \<and> written s' = written s @
                     [errorEnvelope env ''SONG_NOT_FOUND'' ''Could not find song or context''
                        (Date_now env (clock s))]
                \<and> playerCalls s' = playerCalls s)))
  \<and> (play_songId payload \<in> set (map playable_id q) \<longrightarrow>
        0 \<le> playStartIndex payload q \<and> nat (playStartIndex payload q) < length q
        \<and> playable_id (q ! nat (playStartIndex payload q)) = play_songId payload
        \<and> (\<forall>j<nat (playStartIndex payload q). playable_id (q ! j) \<noteq> play_songId payload))
  \<and> (play_songId payload \<notin> set (map playable_id q) \<and> play_songIndex payload = Some k
        \<and> 0 \<le> k \<and> q \<noteq> [] \<longrightarrow>
        playStartIndex payload q = min k (int (length q) - 1)
        \<and> 0 \<le> playStartIndex payload q \<and> playStartIndex payload q < int (length q))
  \<and> (play_songId payload \<notin> set (map playable_id q) \<and> play_songIndex payload = None \<longrightarrow>
        playStartIndex payload q = 0)"
proof (intro conjI impI)
  assume a: "scopeList st payload = Some (q, n) \<and> q \<noteq> []"
  then have pq: "playQueue st payload = (q, n)" by (simp add: playQueue_cases)
  then have "fst (playQueue st payload) \<noteq> []" using a by simp
  from handlePlaySong_play[OF assms this, of env] pq
  show "\<exists>s'. handlePlaySong env st payload s = Some s'
           \<and> playerCalls s' = playerCalls s @
                [play \<lparr>playContext_name = n,
                       playContext_index = playStartIndex payload q,
                       playContext_playables = q\<rparr>]
           \<and> written s' = written s"
    by simp
next
  assume a: "(scopeList st payload = None \<or> (\<exists>m. scopeList st payload = Some ([], m)))
       \<and> find (\<lambda>sg. song_id sg = play_songId payload) (getAllSongs st) = Some song"
  then have pq: "playQueue st payload = ([ASong song], song_title song)"
    by (auto simp: playQueue_cases)
  from a have "song_id song = play_songId payload"
    by (auto simp: find_Some_iff)
  then have idx: "playStartIndex payload [ASong song] = 0"
    by (simp add: playStartIndex_def)
  have "fst (playQueue st payload) \<noteq> []" using pq by simp
  from handlePlaySong_play[OF assms this, of env] pq idx
  show "\<exists>s'. handlePlaySong env st payload s = Some s'
           \<and> playerCalls s' = playerCalls s @
                [play \<lparr>playContext_name = song_title song,
                       playContext_index = 0,
                       playContext_playables = [ASong song]\<rparr>]
           \<and> written s' = written s"
    by simp
next
  assume a: "(scopeList st payload = None \<or> (\<exists>m. scopeList st payload = Some ([], m)))
       \<and> play_songId payload \<notin> set (map song_id (getAllSongs st))"
  then have nf: "find (\<lambda>sg. song_id sg = play_songId payload) (getAllSongs st) = None"
    by (simp add: find_None_iff_ids)
  with a have "fst (playQueue st payload) = []" by (auto simp: playQueue_cases)
  note eq = handlePlaySong_empty[OF assms this, of env]
  show "\<forall>s'. handlePlaySong env st payload s = Some s' \<longrightarrow> playerCalls s' = playerCalls s"
  proof (intro allI impI)
    fix s' assume "handlePlaySong env st payload s = Some s'"
    with eq have "sendError env ''SONG_NOT_FOUND'' ''Could not find song or context''
             (logger logError ''Could not find playables for song''
                (if unknownContext payload
                 then logger logWarning ''Unknown context type'' (logger logInfo ''Play song request'' s)
                 else logger logInfo ''Play song request'' s)) = Some s'" by simp
    from sendError_keeps_player[OF this] show "playerCalls s' = playerCalls s" by simp
  qed
next
  assume a: "(scopeList st payload = None \<or> (\<exists>m. scopeList st payload = Some ([], m)))
       \<and> play_songId payload \<notin> set (map song_id (getAllSongs st))"
  then have nf: "find (\<lambda>sg. song_id sg = play_songId payload) (getAllSongs st) = None"
    by (simp add: find_None_iff_ids)
  with a have "fst (playQueue st payload) = []" by (auto simp: playQueue_cases)
  note eq = handlePlaySong_empty[OF assms this, of env]
  let ?s2 = "logger logError ''Could not find playables for song''
                (if unknownContext payload
                 then logger logWarning ''Unknown context type'' (logger logInfo ''Play song request'' s)
                 else logger logInfo ''Play song request'' s)"
  assume b: "txCharacteristic s
            \<and> fits env (errorEnvelope env ''SONG_NOT_FOUND'' ''Could not find song or context''
                 (Date_now env (clock s)))"
  then have tx: "txCharacteristic ?s2"
    and f: "fits env (errorEnvelope env ''SONG_NOT_FOUND'' ''Could not find song or context''
                 (Date_now env (clock ?s2)))"
    by simp_all
  from sendError_written[OF tx f] show "\<exists>s'. handlePlaySong env st payload s = Some s'
                \<and> written s' = written s @
                     [errorEnvelope env ''SONG_NOT_FOUND'' ''Could not find song or context''
                        (Date_now env (clock s))]
                \<and> playerCalls s' = playerCalls s"
    unfolding eq by auto
next
  assume "play_songId payload \<in> set (map playable_id q)"
  then have f: "0 \<le> playStartIndex payload q \<and> nat (playStartIndex payload q) < length q
        \<and> playable_id (q ! nat (playStartIndex payload q)) = play_songId payload
        \<and> (\<forall>j<nat (playStartIndex payload q). playable_id (q ! j) \<noteq> play_songId payload)"
    by (rule playStartIndex_found)
  from f show "0 \<le> playStartIndex payload q" by simp
  from f show "nat (playStartIndex payload q) < length q" by simp
  from f show "playable_id (q ! nat (playStartIndex payload q)) = play_songId payload" by simp
  from f show "\<forall>j<nat (playStartIndex payload q). playable_id (q ! j) \<noteq> play_songId payload"
    by simp
next
  assume a: "play_songId payload \<notin> set (map playable_id q) \<and> play_songIndex payload = Some k
        \<and> 0 \<le> k \<and> q \<noteq> []"
  then have e: "playStartIndex payload q = min k (int (length q) - 1)"
    by (simp add: playStartIndex_fallback)
  from a have "0 < length q" by simp
  with a e show "playStartIndex payload q = min k (int (length q) - 1)"
    and "0 \<le> playStartIndex payload q" and "playStartIndex payload q < int (length q)"
    by auto
next
  assume "play_songId payload \<notin> set (map playable_id q) \<and> play_songIndex payload = None"
  then show "playStartIndex payload q = 0" by (simp add: playStartIndex_fallback)
qed

lemma playerService_player:
  "player playerService =
     Some \<lparr>isPlaying = False, currentlyPlaying = None, contextName = [],
           elapsedTime = 0, duration = 0\<rparr>"
  "playerCalls playerService = []"
  "written playerService = []"
  by (simp_all add: playerService_def readyService_def)

lemma albumPlay_scope:
  "scopeList sampleLibrary albumPlay =
     Some ([ASong song1, ASong song2, ASong song9], ''Debut'')"
  by (simp add: scopeList_def albumPlay_def sampleLibrary_def album3_def)

lemma albumPlay_index: "playStartIndex albumPlay [ASong song1, ASong song2, ASong song9] = 2"
  by (simp add: playStartIndex_def albumPlay_def song1_def song2_def song9_def)

text \<open>
  The example of the specification: song \<open>s9\<close> is the third song of album
  \<open>al-3\<close>, and \<open>play\<close> gets the whole album and start index 2. And in a list
  that holds song \<open>s1\<close> at positions 0 and 2 the start index for \<open>s1\<close> is 0.
\<close>

theorem play_song_resolution_witness:
  "player playerService =
     Some \<lparr>isPlaying = False, currentlyPlaying = None, contextName = [],
           elapsedTime = 0, duration = 0\<rparr>
   \<and> scopeList sampleLibrary albumPlay = Some ([ASong song1, ASong song2, ASong song9], ''Debut'')
   \<and> (\<exists>s'. handlePlaySong echoEnv sampleLibrary albumPlay playerService = Some s'
         \<and> playerCalls s' =
              [play \<lparr>playContext_name = ''Debut'', playContext_index = 2,
                     playContext_playables = [ASong song1, ASong song2, ASong song9]\<rparr>]
         \<and> written s' = [])
   \<and> play_songId repeatPlay \<in> set (map playable_id [ASong song1, ASong song2, ASong song1])
   \<and> playStartIndex repeatPlay [ASong song1, ASong song2, ASong song1] = 0"
proof -
  note inst = play_song_resolution[OF playerService_player(1), of sampleLibrary albumPlay
      "[ASong song1, ASong song2, ASong song9]" "''Debut''" echoEnv]
  have "scopeList sampleLibrary albumPlay = Some ([ASong song1, ASong song2, ASong song9], ''Debut'')
        \<and> [ASong song1, ASong song2, ASong song9] \<noteq> []"
    using albumPlay_scope by simp
  from inst[THEN conjunct1, THEN mp, OF this]
  have "\<exists>s'. handlePlaySong echoEnv sampleLibrary albumPlay playerService = Some s'
         \<and> playerCalls s' =
              [play \<lparr>playContext_name = ''Debut'', playContext_index = 2,
                     playContext_playables = [ASong song1, ASong song2, ASong song9]\<rparr>]
         \<and> written s' = []"
    by (simp add: albumPlay_index playerService_player)
  note a = this
  let ?q = "[ASong song1, ASong song2, ASong song1]"
  have m: "play_songId repeatPlay \<in> set (map playable_id ?q)"
    by (simp add: repeatPlay_def song1_def)
  have h: "playable_id (?q ! 0) = play_songId repeatPlay"
    by (simp add: repeatPlay_def song1_def)
  from play_song_resolution[OF playerService_player(1), where payload = repeatPlay and q = ?q,
      THEN conjunct2, THEN conjunct2, THEN conjunct2, THEN conjunct1, THEN mp, OF m]
  have f: "0 \<le> playStartIndex repeatPlay ?q"
    and g: "\<forall>j<nat (playStartIndex repeatPlay ?q). playable_id (?q ! j) \<noteq> play_songId repeatPlay"
    by simp_all
  have "\<not> 0 < nat (playStartIndex repeatPlay ?q)"
  proof
    assume "0 < nat (playStartIndex repeatPlay ?q)"
    with g have "playable_id (?q ! 0) \<noteq> play_songId repeatPlay" by blast
    with h show False by simp
  qed
  with f have z: "playStartIndex repeatPlay ?q = 0" by simp
  from playerService_player(1) albumPlay_scope a m z show ?thesis by (intro conjI)
qed

text \<open>
  C2 as stated fails on three commands against the catalog of three songs. Without
  a scope the candidate list is the requested song alone, not the full catalog.
  Without a scope and with an id the catalog does not hold, the answer is the error
  \<open>SONG_NOT_FOUND\<close> and nothing is played, although the catalog is not empty and
  the caller gave index 1. And the caller's index is bounded from above only: index
  \<open>-1\<close> for an id the album does not hold reaches the player as start index \<open>-1\<close>.
\<close>

theorem play_song_fallback_counterexample:
  "(\<exists>s'. handlePlaySong echoEnv sampleLibrary directPlay playerService = Some s'
       \<and> playerCalls s' =
            [play \<lparr>playContext_name = ''Second'', playContext_index = 0,
                   playContext_playables = [ASong song2]\<rparr>]
       \<and> written s' = [])
   \<and> getAllSongs sampleLibrary = [song1, song2, song9]
   \<and> (\<exists>s'. handlePlaySong echoEnv sampleLibrary missingPlay playerService = Some s'
       \<and> playerCalls s' = []
       \<and> written s' =
            [\<lparr>type = error, timestamp = 0,
              payloadData = Some (encode_ErrorPayload
                 \<lparr>code = ''SONG_NOT_FOUND'', message = ''Could not find song or context''\<rparr>)\<rparr>])
   \<and> (\<exists>s'. handlePlaySong echoEnv sampleLibrary indexedPlay playerService = Some s'
       \<and> playerCalls s' =
            [play \<lparr>playContext_name = ''Debut'', playContext_index = - 1,
                   playContext_playables = [ASong song1, ASong song2, ASong song9]\<rparr>]
       \<and> written s' = [])"
proof -
  have q1: "playQueue sampleLibrary directPlay = ([ASong song2], ''Second'')"
    by (simp add: playQueue_def contextQueue_def directPlay_def sampleLibrary_def
        song1_def song2_def)
  have i1: "playStartIndex directPlay [ASong song2] = 0"
    by (simp add: playStartIndex_def directPlay_def song2_def)
  have q2: "playQueue sampleLibrary indexedPlay =
              ([ASong song1, ASong song2, ASong song9], ''Debut'')"
    by (simp add: playQueue_def contextQueue_def indexedPlay_def sampleLibrary_def album3_def)
  have i2: "playStartIndex indexedPlay [ASong song1, ASong song2, ASong song9] = - 1"
    by (simp add: playStartIndex_def indexedPlay_def song1_def song2_def song9_def)
  have q3: "fst (playQueue sampleLibrary missingPlay) = []"
    by (simp add: playQueue_def contextQueue_def missingPlay_def sampleLibrary_def
        song1_def song2_def song9_def)
  have u3: "\<not> unknownContext missingPlay"
    by (simp add: unknownContext_def missingPlay_def)
  have a: "\<exists>s'. handlePlaySong echoEnv sampleLibrary directPlay playerService = Some s'
       \<and> playerCalls s' =
            [play \<lparr>playContext_name = ''Second'', playContext_index = 0,
                   playContext_playables = [ASong song2]\<rparr>]
       \<and> written s' = []"
    using handlePlaySong_play[OF playerService_player(1), of sampleLibrary directPlay echoEnv]
    by (simp add: q1 i1 playerService_player)
  have b: "\<exists>s'. handlePlaySong echoEnv sampleLibrary indexedPlay playerService = Some s'
       \<and> playerCalls s' =
            [play \<lparr>playContext_name = ''Debut'', playContext_index = - 1,
                   playContext_playables = [ASong song1, ASong song2, ASong song9]\<rparr>]
       \<and> written s' = []"
    using handlePlaySong_play[OF playerService_player(1), of sampleLibrary indexedPlay echoEnv]
    by (simp add: q2 i2 playerService_player)
  have c: "getAllSongs sampleLibrary = [song1, song2, song9]"
    by (simp add: sampleLibrary_def)
  let ?s2 = "logger logError ''Could not find playables for song''
               (logger logInfo ''Play song request'' playerService)"
  have eq: "handlePlaySong echoEnv sampleLibrary missingPlay playerService =
              sendError echoEnv ''SONG_NOT_FOUND'' ''Could not find song or context'' ?s2"
    using handlePlaySong_empty[OF playerService_player(1) q3, of echoEnv] u3 by simp
  have tx: "txCharacteristic ?s2" by (simp add: playerService_def readyService_def)
  have f: "fits echoEnv (errorEnvelope echoEnv ''SONG_NOT_FOUND'' ''Could not find song or context''
             (Date_now echoEnv (clock ?s2)))"
    by (rule echo_fits_error) simp
  have c0: "Date_now echoEnv (clock ?s2) = 0"
    by (simp add: playerService_def readyService_def echoEnv_def)
  have env0: "errorEnvelope echoEnv ''SONG_NOT_FOUND'' ''Could not find song or context'' 0 =
      \<lparr>type = error, timestamp = 0,
       payloadData = Some (encode_ErrorPayload
          \<lparr>code = ''SONG_NOT_FOUND'', message = ''Could not find song or context''\<rparr>)\<rparr>"
    by (simp add: errorEnvelope_def echoEnv_def)
  from sendError_written[OF tx f]
  have d: "\<exists>s'. handlePlaySong echoEnv sampleLibrary missingPlay playerService = Some s'
       \<and> playerCalls s' = []
       \<and> written s' =
            [\<lparr>type = error, timestamp = 0,
              payloadData = Some (encode_ErrorPayload
                 \<lparr>code = ''SONG_NOT_FOUND'', message = ''Could not find song or context''\<rparr>)\<rparr>]"
    unfolding eq c0 env0 by (auto simp: playerService_player)
  from a c d b show ?thesis by (intro conjI)
qed

section \<open>Telemetry\<close>

lemma frames_simps [simp]:
  "frames (logger l t s) = frames s"
  "frames (Date_read s) = frames s"
  "frames (s\<lparr>player := x\<rparr>) = frames s"
  "frames (s\<lparr>currentSongId := y\<rparr>) = frames s"
  "frames (s\<lparr>progressTimer := z\<rparr>) = frames s"
  "frames (s\<lparr>written := written s @ [m]\<rparr>) = frames s @ [(type m, payloadData m)]"
  by (simp_all add: frames_def logger_def Date_read_def)

lemma timer_simps [simp]:
  "txCharacteristic (stopProgressTimer s) = txCharacteristic s"
  "txCharacteristic (startProgressTimer s) = txCharacteristic s"
  "currentSongId (stopProgressTimer s) = currentSongId s"
  "currentSongId (startProgressTimer s) = currentSongId s"
  "frames (stopProgressTimer s) = frames s"
  "frames (startProgressTimer s) = frames s"
  "written (stopProgressTimer s) = written s"
  "written (startProgressTimer s) = written s"
  "progressTimer (stopProgressTimer s) = False"
  "progressTimer (startProgressTimer s) = True"
  by (simp_all add: stopProgressTimer_def startProgressTimer_def frames_def)

lemma newMessage_proj [simp]:
  "type (newMessage env ty payload s) = ty"
  "payloadData (newMessage env ty (Some j) s) = jsonData env j"
  by (simp_all add: newMessage_def BluetoothMessage_init_def)






























section \<open>Reconnection\<close>

lemma managerLog_simps [simp]:
  "centralCalls (managerLog l t m) = centralCalls m"
  "reconnectTasks (managerLog l t m) = reconnectTasks m"
  "centralState (managerLog l t m) = centralState m"
  "discoveredDevices (managerLog l t m) = discoveredDevices m"
  "connectedDevice (managerLog l t m) = connectedDevice m"
  "defaults_shouldAutoReconnect (managerLog l t m) = defaults_shouldAutoReconnect m"
  "defaults_lastConnectedDeviceUUID (managerLog l t m) = defaults_lastConnectedDeviceUUID m"
  "defaults_lastConnectedDeviceName (managerLog l t m) = defaults_lastConnectedDeviceName m"
  "communicationService (managerLog l t m) = communicationService m"
  by (simp_all add: managerLog_def)

lemma connectAttempts_append:
  "connectAttempts (m\<lparr>centralCalls := centralCalls m @ cs\<rparr>) =
     connectAttempts m @ List.map_filter (\<lambda>c. case c of connect p \<Rightarrow> Some p | _ \<Rightarrow> None) cs"
  by (simp add: connectAttempts_def List.map_filter_def)

lemma didDisconnect_schedules:
  assumes "find (\<lambda>d. device_id d = peripheral_identifier p) (discoveredDevices m) = Some device"
    and "defaults_shouldAutoReconnect m"
  shows "reconnectTasks (didDisconnectPeripheral p True m) = reconnectTasks m @ [peripheral device]"
    and "centralCalls (didDisconnectPeripheral p True m) = centralCalls m"
    and "centralState (didDisconnectPeripheral p True m) = centralState m"
    and "peripheral_identifier (peripheral device) = peripheral_identifier p"
proof -
  from assms(1) have "device_id device = peripheral_identifier p"
    by (auto simp: find_Some_iff)
  then show "peripheral_identifier (peripheral device) = peripheral_identifier p"
    by (simp add: device_id_def)
  show "reconnectTasks (didDisconnectPeripheral p True m) = reconnectTasks m @ [peripheral device]"
    using assms by (simp add: didDisconnectPeripheral_def shouldAutoReconnect_def Let_def)
  show "centralCalls (didDisconnectPeripheral p True m) = centralCalls m"
    using assms by (simp add: didDisconnectPeripheral_def shouldAutoReconnect_def Let_def)
  show "centralState (didDisconnectPeripheral p True m) = centralState m"
    using assms by (simp add: didDisconnectPeripheral_def shouldAutoReconnect_def Let_def)
qed

lemma didDisconnect_no_reconnect:
  assumes "\<not> defaults_shouldAutoReconnect m"
  shows "reconnectTasks (didDisconnectPeripheral p hadError m) = reconnectTasks m"
    and "centralCalls (didDisconnectPeripheral p hadError m) = centralCalls m"
  using assms
  by (simp_all add: didDisconnectPeripheral_def shouldAutoReconnect_def Let_def split: option.splits)

lemma disconnect_clears:
  assumes "connectedDevice m = Some device"
  shows "\<not> defaults_shouldAutoReconnect (disconnect m)"
    and "defaults_lastConnectedDeviceUUID (disconnect m) = None"
    and "centralCalls (disconnect m) = centralCalls m @ [cancelPeripheralConnection (peripheral device)]"
    and "reconnectTasks (disconnect m) = reconnectTasks m"
  using assms by (simp_all add: disconnect_def clearConnectedDevice_def)

text \<open>
  C6, as the code has it. When the link to a peripheral that is still in the
  manager's device list is lost with an error while \<open>shouldAutoReconnect\<close> is set,
  the manager makes no attempt at once and queues exactly one reconnection task,
  for that peripheral. When the two seconds are over the task makes one \<open>connect\<close>
  call for it if the transport is powered on at that moment, and none otherwise; it
  does not run again. After a disconnect by the user, which clears the persisted
  device and the flag before it cancels the connection, a link loss (with or
  without an error) queues no task and no \<open>connect\<close> call follows. The loss of a
  peripheral that a new scan has removed from the device list is left out here: the
  callback then does nothing at all, although its own comment announces the
  reconnection (see the second half of the counterexample).
\<close>

theorem reconnect_after_link_loss:
  "(find (\<lambda>d. device_id d = peripheral_identifier p) (discoveredDevices m) = Some device
      \<and> defaults_shouldAutoReconnect m \<and> reconnectTasks m = [] \<longrightarrow>
      reconnectTasks (didDisconnectPeripheral p True m) = [peripheral device]
      \<and> peripheral_identifier (peripheral device) = peripheral_identifier p
      \<and> connectAttempts (didDisconnectPeripheral p True m) = connectAttempts m
      \<and> connectAttempts (reconnectTaskFired (didDisconnectPeripheral p True m)) =
           connectAttempts m @ (if centralState m = poweredOn then [peripheral device] else [])
      \<and> reconnectTasks (reconnectTaskFired (didDisconnectPeripheral p True m)) = []
      \<and> reconnectTaskFired (reconnectTaskFired (didDisconnectPeripheral p True m)) =
           reconnectTaskFired (didDisconnectPeripheral p True m))
   \<and> (connectedDevice m = Some device \<and> reconnectTasks m = [] \<longrightarrow>
      \<not> defaults_shouldAutoReconnect (disconnect m)
      \<and> defaults_lastConnectedDeviceUUID (disconnect m) = None
      \<and> centralCalls (disconnect m) =
           centralCalls m @ [cancelPeripheralConnection (peripheral device)]
      \<and> (\<forall>q hadError.
            reconnectTasks (didDisconnectPeripheral q hadError (disconnect m)) = []
            \<and> connectAttempts (reconnectTaskFired (didDisconnectPeripheral q hadError (disconnect m)))
                = connectAttempts m))"
proof (intro conjI impI allI)
  assume a: "find (\<lambda>d. device_id d = peripheral_identifier p) (discoveredDevices m) = Some device
      \<and> defaults_shouldAutoReconnect m \<and> reconnectTasks m = []"
  note s = didDisconnect_schedules[of p m device]
  let ?m1 = "didDisconnectPeripheral p True m"
  from a s show t: "reconnectTasks ?m1 = [peripheral device]" by simp
  from a s show "peripheral_identifier (peripheral device) = peripheral_identifier p" by simp
  from a s show c: "connectAttempts ?m1 = connectAttempts m" by (simp add: connectAttempts_def)
  from a s have cs: "centralState ?m1 = centralState m" and cc: "centralCalls ?m1 = centralCalls m"
    by simp_all
  show "connectAttempts (reconnectTaskFired ?m1) =
           connectAttempts m @ (if centralState m = poweredOn then [peripheral device] else [])"
    using t cs cc
    by (simp add: reconnectTaskFired_def connectAttempts_def List.map_filter_def)
  show t2: "reconnectTasks (reconnectTaskFired ?m1) = []"
    using t by (simp add: reconnectTaskFired_def)
  show "reconnectTaskFired (reconnectTaskFired ?m1) = reconnectTaskFired ?m1"
    using t2 by (simp add: reconnectTaskFired_def[of "reconnectTaskFired ?m1"])
next
  assume b: "connectedDevice m = Some device \<and> reconnectTasks m = []"
  note d = disconnect_clears[of m device]
  from b d show "\<not> defaults_shouldAutoReconnect (disconnect m)" by simp
  from b d show "defaults_lastConnectedDeviceUUID (disconnect m) = None" by simp
  from b d show "centralCalls (disconnect m) =
           centralCalls m @ [cancelPeripheralConnection (peripheral device)]" by simp
next
  fix q hadError
  assume b: "connectedDevice m = Some device \<and> reconnectTasks m = []"
  note d = disconnect_clears[of m device]
  from b d have off: "\<not> defaults_shouldAutoReconnect (disconnect m)" by simp
  from b d have t0: "reconnectTasks (disconnect m) = []" by simp
  let ?m2 = "didDisconnectPeripheral q hadError (disconnect m)"
  show t: "reconnectTasks ?m2 = []"
    using didDisconnect_no_reconnect(1)[OF off, of q hadError] t0 by simp
  have cc: "centralCalls ?m2 = centralCalls (disconnect m)"
    using didDisconnect_no_reconnect(2)[OF off, of q hadError] .
  have "reconnectTaskFired ?m2 = ?m2" using t by (simp add: reconnectTaskFired_def)
  then show "connectAttempts (reconnectTaskFired ?m2) = connectAttempts m"
    using cc b d by (simp add: connectAttempts_def List.map_filter_def)
qed

lemma connectedManager_facts:
  "discoveredDevices connectedManager = [connectedHeadUnit]"
  "connectedDevice connectedManager = Some connectedHeadUnit"
  "defaults_shouldAutoReconnect connectedManager"
  "defaults_lastConnectedDeviceUUID connectedManager = Some ''6E40-D1''"
  "centralCalls connectedManager = []"
  "reconnectTasks connectedManager = []"
  "centralState connectedManager = poweredOn"
  by (simp_all add: connectedManager_def didConnect_def freshManager_def newDevice_def headUnit_def
      device_id_def updateFirst_def saveConnectedDevice_def Let_def connectedHeadUnit_def
      readyService_def)

lemma connectedManager_find:
  "find (\<lambda>d. device_id d = peripheral_identifier headUnit) (discoveredDevices connectedManager)
     = Some connectedHeadUnit"
  by (simp add: connectedManager_facts(1) connectedHeadUnit_def device_id_def)

text \<open>
  After the peripheral connected it is the persisted one; losing it with an error
  leads to one attempt, losing it after the user's disconnect to none.
\<close>

theorem reconnect_after_link_loss_witness:
  "find (\<lambda>d. device_id d = peripheral_identifier headUnit) (discoveredDevices connectedManager)
     = Some connectedHeadUnit
   \<and> defaults_shouldAutoReconnect connectedManager
   \<and> defaults_lastConnectedDeviceUUID connectedManager = Some (peripheral_identifier headUnit)
   \<and> reconnectTasks connectedManager = []
   \<and> centralState connectedManager = poweredOn
   \<and> connectedDevice connectedManager = Some connectedHeadUnit
   \<and> connectAttempts (didDisconnectPeripheral headUnit True connectedManager) = []
   \<and> connectAttempts (reconnectTaskFired (didDisconnectPeripheral headUnit True connectedManager))
       = [headUnit]
   \<and> connectAttempts
        (reconnectTaskFired (reconnectTaskFired (didDisconnectPeripheral headUnit True connectedManager)))
       = [headUnit]
   \<and> connectAttempts
        (reconnectTaskFired (didDisconnectPeripheral headUnit True (disconnect connectedManager)))
       = []"
proof -
  note f = connectedManager_facts
  note inst = reconnect_after_link_loss[of headUnit connectedManager connectedHeadUnit]
  have ca: "connectAttempts connectedManager = []"
    by (simp add: connectAttempts_def f(5) List.map_filter_def)
  have per: "peripheral connectedHeadUnit = headUnit" by (simp add: connectedHeadUnit_def)
  have id: "defaults_lastConnectedDeviceUUID connectedManager = Some (peripheral_identifier headUnit)"
    by (simp add: f(4) headUnit_def)
  from inst[THEN conjunct1, THEN mp, OF conjI[OF connectedManager_find conjI[OF f(3) f(6)]]]
  have a: "connectAttempts (didDisconnectPeripheral headUnit True connectedManager) = []"
    and b: "connectAttempts (reconnectTaskFired (didDisconnectPeripheral headUnit True connectedManager))
       = [headUnit]"
    and c: "reconnectTaskFired (reconnectTaskFired (didDisconnectPeripheral headUnit True connectedManager))
       = reconnectTaskFired (didDisconnectPeripheral headUnit True connectedManager)"
    by (simp_all add: ca per f(7))
  from inst[THEN conjunct2, THEN mp, OF conjI[OF f(2) f(6)]]
  have d: "connectAttempts
        (reconnectTaskFired (didDisconnectPeripheral headUnit True (disconnect connectedManager)))
       = []"
    by (simp add: ca)
  have e: "connectAttempts
        (reconnectTaskFired (reconnectTaskFired (didDisconnectPeripheral headUnit True connectedManager)))
       = [headUnit]"
    using b by (simp only: c)
  show ?thesis
    by (intro conjI) (rule connectedManager_find f(3) id f(6) f(7) f(2) a b e d)+
qed

text \<open>
  C6 as stated fails on two runs. In the first the link is lost with an error while
  the flag is set, the transport is powered off before the two seconds are over, and
  the task makes no attempt. In the second the user starts a scan while connected,
  which empties the device list; the link is then lost with an error while the flag
  is set, and the callback finds no device: no task is queued, no attempt follows,
  and the manager and the service keep the state of a live connection.
\<close>

theorem reconnect_not_attempted_counterexample:
  "defaults_shouldAutoReconnect connectedManager
   \<and> defaults_lastConnectedDeviceUUID connectedManager = Some ''6E40-D1''
   \<and> connectedDevice connectedManager = Some connectedHeadUnit
   \<and> reconnectTasks (didDisconnectPeripheral headUnit True connectedManager) = [headUnit]
   \<and> connectAttempts
        (reconnectTaskFired
           (centralManagerDidUpdateState (\<lambda>u. None) poweredOff
              (didDisconnectPeripheral headUnit True connectedManager))) = []
   \<and> reconnectTasks
        (reconnectTaskFired
           (centralManagerDidUpdateState (\<lambda>u. None) poweredOff
              (didDisconnectPeripheral headUnit True connectedManager))) = []
   \<and> centralState (startScanning connectedManager) = poweredOn
   \<and> defaults_shouldAutoReconnect (startScanning connectedManager)
   \<and> discoveredDevices (startScanning connectedManager) = []
   \<and> reconnectTasks (didDisconnectPeripheral headUnit True (startScanning connectedManager)) = []
   \<and> connectAttempts
        (reconnectTaskFired (didDisconnectPeripheral headUnit True (startScanning connectedManager)))
       = []
   \<and> connectedDevice (didDisconnectPeripheral headUnit True (startScanning connectedManager))
       = Some connectedHeadUnit
   \<and> txCharacteristic
        (communicationService
           (didDisconnectPeripheral headUnit True (startScanning connectedManager)))"
proof -
  note f = connectedManager_facts
  let ?m2 = "didDisconnectPeripheral headUnit True connectedManager"
  let ?m3 = "centralManagerDidUpdateState (\<lambda>u. None) poweredOff ?m2"
  have t2: "reconnectTasks ?m2 = [headUnit]" and c2: "centralCalls ?m2 = []"
    using didDisconnect_schedules(1,2)[OF connectedManager_find f(3)]
    by (simp_all add: f connectedHeadUnit_def)
  have t3: "reconnectTasks ?m3 = [headUnit]" and c3: "centralCalls ?m3 = []"
    and s3: "centralState ?m3 = poweredOff"
    using t2 c2 by (simp_all add: centralManagerDidUpdateState_def Let_def)
  have a: "connectAttempts (reconnectTaskFired ?m3) = []"
    using t3 c3 s3 by (simp add: reconnectTaskFired_def connectAttempts_def List.map_filter_def)
  have b: "reconnectTasks (reconnectTaskFired ?m3) = []"
    using t3 s3 by (simp add: reconnectTaskFired_def)
  let ?m4 = "startScanning connectedManager"
  have sc: "?m4 = managerLog logInfo ''Started scanning for BLE devices''
             (connectedManager\<lparr>discoveredDevices := [],
                centralCalls := centralCalls connectedManager @ [scanForPeripherals],
                isScanning := True\<rparr>)"
    by (simp add: startScanning_def f(7))
  have p4: "centralState ?m4 = poweredOn" and r4: "defaults_shouldAutoReconnect ?m4"
    and d4: "discoveredDevices ?m4 = []" and t4: "reconnectTasks ?m4 = []"
    and c4: "centralCalls ?m4 = [scanForPeripherals]"
    and k4: "connectedDevice ?m4 = Some connectedHeadUnit"
    unfolding sc by (simp_all add: f)
  have x4: "txCharacteristic (communicationService ?m4)"
    unfolding sc
    by (simp add: connectedManager_def didConnect_def freshManager_def newDevice_def headUnit_def
        device_id_def saveConnectedDevice_def Let_def didConnectToPeripheral_def readyService_def)
  have same: "didDisconnectPeripheral headUnit True ?m4 = ?m4"
    by (simp add: didDisconnectPeripheral_def d4)
  have t5: "reconnectTasks (didDisconnectPeripheral headUnit True ?m4) = []"
    unfolding same by (rule t4)
  have a5: "connectAttempts (reconnectTaskFired (didDisconnectPeripheral headUnit True ?m4)) = []"
    unfolding same using t4 c4
    by (simp add: reconnectTaskFired_def connectAttempts_def List.map_filter_def)
  have k5: "connectedDevice (didDisconnectPeripheral headUnit True ?m4) = Some connectedHeadUnit"
    unfolding same by (rule k4)
  have x5: "txCharacteristic (communicationService (didDisconnectPeripheral headUnit True ?m4))"
    unfolding same by (rule x4)
  show ?thesis
    by (intro conjI) (rule f(3) f(4) f(2) t2 a b p4 r4 d4 t5 a5 k5 x5)+
qed

end
